theory Spec2Isabelle
  imports Complex_Main
begin

section \<open>JavaScript values\<close>

text \<open>
  A JavaScript \<^verbatim>\<open>number\<close> is a binary64 floating-point number. It is modelled
  as the real it denotes: the model covers finite numbers only (no NaN, no
  Infinity, no negative zero). A value that may be \<^verbatim>\<open>null\<close> or \<^verbatim>\<open>undefined\<close> is
  an \<open>option\<close>.
\<close>

type_synonym number = real

text \<open>
  The arithmetic operators give the exact result rounded to the nearest
  binary64 number, a tie going to the even significand. The binade of a number
  is the exponent of the largest power of two that is not above its magnitude:
  it is counted by halving a number that is at least 1, and by doubling a
  smaller one. The neighbours of \<open>x\<close> among the binary64 numbers are the
  multiples of \<open>ulp x\<close>, which leaves 53 bits for the significand. The range of the exponent is not modelled: an
  operation that overflows or underflows in binary64, and a division by zero,
  are outside the model.
\<close>

function expo_ge :: "real \<Rightarrow> nat" where
  "expo_ge x = (if x < 2 then 0 else Suc (expo_ge (x / 2)))"
  by pat_completeness auto
termination
proof (relation "measure (\<lambda>x. nat \<lfloor>x\<rfloor>)")
  show "wf (measure (\<lambda>x. nat \<lfloor>x\<rfloor>))" by simp
next
  fix x :: real
  assume "\<not> x < 2"
  then have "\<lfloor>x / 2\<rfloor> < \<lfloor>x\<rfloor>" "0 < \<lfloor>x\<rfloor>"
    by linarith+
  then show "(x / 2, x) \<in> measure (\<lambda>x. nat \<lfloor>x\<rfloor>)"
    by simp
qed

function expo_lt :: "real \<Rightarrow> nat" where
  "expo_lt x = (if x \<le> 0 \<or> 1 \<le> x then 0 else Suc (expo_lt (2 * x)))"
  by pat_completeness auto
termination
proof (relation "measure (\<lambda>x. nat \<lfloor>1 / x\<rfloor>)")
  show "wf (measure (\<lambda>x. nat \<lfloor>1 / x\<rfloor>))" by simp
next
  fix x :: real
  assume "\<not> (x \<le> 0 \<or> 1 \<le> x)"
  then have x: "0 < x" "x < 1" by simp_all
  define y where "y = 1 / x"
  from x have y: "1 \<le> y" by (simp add: y_def)
  have "\<lfloor>y / 2\<rfloor> < \<lfloor>y\<rfloor>"
  proof (cases "y < 2")
    case True
    with y have "\<lfloor>y / 2\<rfloor> = 0" "\<lfloor>y\<rfloor> = 1" by (simp_all add: floor_eq_iff)
    then show ?thesis by simp
  next
    case False
    then show ?thesis by linarith
  qed
  moreover from y have "0 < \<lfloor>y\<rfloor>" by simp
  moreover have "1 / (2 * x) = y / 2" by (simp add: y_def)
  ultimately have "\<lfloor>1 / (2 * x)\<rfloor> < \<lfloor>1 / x\<rfloor>" "0 < \<lfloor>1 / x\<rfloor>"
    by (simp_all only: y_def)
  then show "(2 * x, x) \<in> measure (\<lambda>x. nat \<lfloor>1 / x\<rfloor>)"
    by simp
qed

declare expo_ge.simps [simp del] expo_lt.simps [simp del]

definition binade :: "real \<Rightarrow> int" where
  "binade x = (if 1 \<le> \<bar>x\<bar> then int (expo_ge \<bar>x\<bar>) else - int (expo_lt \<bar>x\<bar>))"

definition ulp :: "real \<Rightarrow> real" where
  "ulp x = 2 powi (binade x - 52)"

definition roundTiesToEven :: "real \<Rightarrow> int" where
  "roundTiesToEven x =
     (let n = \<lfloor>x\<rfloor>; r = x - real_of_int n
      in if r < 1 / 2 then n else if 1 / 2 < r then n + 1 else if even n then n else n + 1)"

definition binary64 :: "real \<Rightarrow> number" where
  "binary64 x =
     (if x = 0 then 0
      else sgn x * (ulp x * real_of_int (roundTiesToEven (\<bar>x\<bar> / ulp x))))"

text \<open>The operators \<^verbatim>\<open>+\<close>, \<^verbatim>\<open>*\<close> and \<^verbatim>\<open>/\<close> on numbers.\<close>

definition plus64 :: "number \<Rightarrow> number \<Rightarrow> number" where
  "plus64 x y = binary64 (x + y)"

definition times64 :: "number \<Rightarrow> number \<Rightarrow> number" where
  "times64 x y = binary64 (x * y)"

definition divide64 :: "number \<Rightarrow> number \<Rightarrow> number" where
  "divide64 x y = binary64 (x / y)"

text \<open>A thrown value: an \<^verbatim>\<open>Error\<close> object of the given class with its message.\<close>

datatype js_error = Error string | TypeError string | SyntaxError string

fun message :: "js_error \<Rightarrow> string" where
  "message (Error m) = m"
| "message (TypeError m) = m"
| "message (SyntaxError m) = m"

text \<open>
  \<^verbatim>\<open>Math.round\<close>: the nearest integer, a half rounding towards plus infinity.
  The result is exact: no rounding of the binary representation is involved.
\<close>

definition Math_round :: "number \<Rightarrow> int" where
  "Math_round x = \<lfloor>x + 1 / 2\<rfloor>"

section \<open>The output of iperf3 and its normalisation\<close>

text \<open>
  The parameter type of \<^verbatim>\<open>extractIperfData\<close>. Every field is named by its path in
  the JSON document. The declared type makes \<^verbatim>\<open>sum_received.bits_per_second\<close>
  mandatory, but the function reads it with \<^verbatim>\<open>?? null\<close>, so the model admits a
  document without it. \<^verbatim>\<open>end.streams\<close> is declared and never read; it is left out.
\<close>

record iperf_sum_received =
  sum_received_bits_per_second :: "number option"

record iperf_sum_sent =
  sum_sent_retransmits :: "number option"

record iperf_sum =
  sum_bits_per_second :: "number option"
  sum_jitter_ms :: "number option"
  sum_lost_packets :: "number option"
  sum_packets :: "number option"
  sum_lost_percent :: "number option"
  sum_retransmits :: "number option"

record iperf_end =
  end_sum_received :: "iperf_sum_received option"
  end_sum_sent :: "iperf_sum_sent option"
  end_sum :: "iperf_sum option"

record iperf_json =
  result_end :: "iperf_end option"
  result_error :: "string option"
  result_version :: "string option"

text \<open>\<^verbatim>\<open>IperfTestProperty\<close>, with the fields the two functions of the runner write.\<close>

record iperf_test_property =
  bitsPerSecond :: "number option"
  retransmits :: "number option"
  jitterMs :: "number option"
  lostPackets :: "number option"
  packetsReceived :: "number option"
  signalStrength_iperf :: number

text \<open>
  The object literal that \<^verbatim>\<open>extractIperfData\<close> returns for a document without
  \<^verbatim>\<open>end\<close> and that \<^verbatim>\<open>runSingleTest\<close> returns from its \<^verbatim>\<open>catch\<close> block.
\<close>

definition nullResults :: iperf_test_property where
  "nullResults =
     \<lparr>bitsPerSecond = None, retransmits = None, jitterMs = None,
      lostPackets = None, packetsReceived = None, signalStrength_iperf = 0\<rparr>"

text \<open>
  \<^verbatim>\<open>a?.b ?? null\<close> is \<open>Option.bind a b\<close>. The warnings that the function logs
  do not change its result and are not modelled.
\<close>

definition extractIperfData :: "iperf_json \<Rightarrow> bool \<Rightarrow> iperf_test_property" where
  "extractIperfData result isUdp =
     (case result_end result of
        None \<Rightarrow> nullResults
      | Some e \<Rightarrow>
          (let isNewVersion = (end_sum_received e \<noteq> None);
               bps =
                 (if isNewVersion
                  then (if isUdp
                        then Option.bind (end_sum e) sum_bits_per_second
                        else Option.bind (end_sum_received e) sum_received_bits_per_second)
                  else Option.bind (end_sum e) sum_bits_per_second);
               bps' = (if bps = None \<or> bps = Some 0 then None else bps);
               retr =
                 (if isNewVersion
                  then Option.bind (end_sum_sent e) sum_sent_retransmits
                  else Option.bind (end_sum e) sum_retransmits)
           in \<lparr>bitsPerSecond = bps',
               retransmits = retr,
               jitterMs = (if isUdp then Option.bind (end_sum e) sum_jitter_ms else None),
               lostPackets = (if isUdp then Option.bind (end_sum e) sum_lost_packets else None),
               packetsReceived = (if isUdp then Option.bind (end_sum e) sum_packets else None),
               signalStrength_iperf = 0\<rparr>))"

subsection \<open>The normaliser as the specification words it\<close>

text \<open>
  The throughput figure the specification selects: the received section for TCP
  on the newer schema, the combined summary otherwise.
\<close>

definition selectedThroughput :: "iperf_end \<Rightarrow> bool \<Rightarrow> number option" where
  "selectedThroughput e isUdp =
     (if end_sum_received e \<noteq> None \<and> \<not> isUdp
      then Option.bind (end_sum_received e) sum_received_bits_per_second
      else Option.bind (end_sum e) sum_bits_per_second)"

text \<open>The retransmit count the specification selects: by schema alone.\<close>

definition selectedRetransmits :: "iperf_end \<Rightarrow> number option" where
  "selectedRetransmits e =
     (if end_sum_received e \<noteq> None
      then Option.bind (end_sum_sent e) sum_sent_retransmits
      else Option.bind (end_sum e) sum_retransmits)"

text \<open>A figure of exactly zero reads as absent.\<close>

definition zeroAsNull :: "number option \<Rightarrow> number option" where
  "zeroAsNull v = (if v = Some 0 then None else v)"

text \<open>
  The same document with the selected throughput figure replaced by \<open>v\<close>
  (\<open>None\<close> removes it); a document without the section that holds the figure is
  left as it is.
\<close>

definition withThroughput :: "number option \<Rightarrow> bool \<Rightarrow> iperf_json \<Rightarrow> iperf_json" where
  "withThroughput v isUdp result =
     (case result_end result of
        None \<Rightarrow> result
      | Some e \<Rightarrow>
          (if end_sum_received e \<noteq> None \<and> \<not> isUdp
           then result\<lparr>result_end :=
                  Some (e\<lparr>end_sum_received :=
                    map_option (\<lambda>r. r\<lparr>sum_received_bits_per_second := v\<rparr>) (end_sum_received e)\<rparr>)\<rparr>
           else result\<lparr>result_end :=
                  Some (e\<lparr>end_sum :=
                    map_option (\<lambda>s. s\<lparr>sum_bits_per_second := v\<rparr>) (end_sum e)\<rparr>)\<rparr>))"

section \<open>Strings and numbers as text\<close>

text \<open>\<^verbatim>\<open>String.prototype.includes\<close>: \<open>t\<close> occurs in \<open>s\<close> as a contiguous run.\<close>

fun String_includes :: "string \<Rightarrow> string \<Rightarrow> bool" where
  "String_includes [] t = (t = [])"
| "String_includes (c # cs) t = (take (length t) (c # cs) = t \<or> String_includes cs t)"

text \<open>\<^verbatim>\<open>String.prototype.split\<close> with a separator of one character.\<close>

fun String_split :: "char \<Rightarrow> string \<Rightarrow> string list" where
  "String_split c [] = [[]]"
| "String_split c (x # xs) =
     (if x = c then [] # String_split c xs
      else (case String_split c xs of
              [] \<Rightarrow> [[x]]
            | y # ys \<Rightarrow> (x # y) # ys))"

text \<open>\<^verbatim>\<open>Array.prototype.join\<close>.\<close>

fun Array_join :: "string \<Rightarrow> string list \<Rightarrow> string" where
  "Array_join sep [] = []"
| "Array_join sep [x] = x"
| "Array_join sep (x # y # ys) = x @ sep @ Array_join sep (y # ys)"

text \<open>
  \<^verbatim>\<open>Number.prototype.toString\<close> on an integer: its decimal digits, with a minus
  sign when negative. JavaScript prints an integer of magnitude \<open>10\<^sup>2\<^sup>1\<close> or more
  in exponent notation; the model is exact below that.
\<close>

definition digitChar :: "nat \<Rightarrow> char" where
  "digitChar d = char_of (48 + d)"

fun natToString :: "nat \<Rightarrow> string" where
  "natToString n =
     (if n < 10 then [digitChar n] else natToString (n div 10) @ [digitChar (n mod 10)])"

declare natToString.simps [simp del]

definition Number_toString :: "int \<Rightarrow> string" where
  "Number_toString n =
     (if n < 0 then CHR ''-'' # natToString (nat (- n)) else natToString (nat n))"

text \<open>
  \<^verbatim>\<open>parseInt\<close> with no radix argument: leading white space is skipped, a sign is
  read, a prefix \<^verbatim>\<open>0x\<close> selects radix 16, and the longest run of digits of the
  radix is the value. \<open>None\<close> is NaN: there was no digit.
\<close>

definition isWhiteSpace :: "char \<Rightarrow> bool" where
  "isWhiteSpace c = ((of_char c :: nat) \<in> {9, 10, 11, 12, 13, 32})"

definition digitValue :: "char \<Rightarrow> nat option" where
  "digitValue c =
     (let k = (of_char c :: nat)
      in if 48 \<le> k \<and> k \<le> 57 then Some (k - 48)
         else if 97 \<le> k \<and> k \<le> 122 then Some (k - 87)
         else if 65 \<le> k \<and> k \<le> 90 then Some (k - 55)
         else None)"

definition isRadixDigit :: "nat \<Rightarrow> char \<Rightarrow> bool" where
  "isRadixDigit R c = (case digitValue c of None \<Rightarrow> False | Some d \<Rightarrow> d < R)"

definition digitsToNat :: "nat \<Rightarrow> string \<Rightarrow> nat" where
  "digitsToNat R ds =
     foldl (\<lambda>a c. case digitValue c of None \<Rightarrow> a | Some d \<Rightarrow> a * R + d) 0 ds"

definition parseInt :: "string \<Rightarrow> int option" where
  "parseInt str =
     (let s1 = dropWhile isWhiteSpace str;
          (sign, s2) =
            (case s1 of
               [] \<Rightarrow> (1, s1)
             | c # cs \<Rightarrow>
                 if c = CHR ''-'' then (- 1, cs)
                 else if c = CHR ''+'' then (1, cs)
                 else (1, s1));
          hex = (take 2 s2 = ''0x'' \<or> take 2 s2 = ''0X'');
          R = (if hex then 16 else 10);
          s3 = (if hex then drop 2 s2 else s2);
          ds = takeWhile (isRadixDigit R) s3
      in if ds = [] then None else Some (sign * int (digitsToNat R ds)))"

text \<open>
  \<^verbatim>\<open>arrayAverage\<close> (lines 112-116): the rounded mean, 0 for the empty array. The
  sum is accumulated from the left, each addition rounding, and so does the
  division.
\<close>

definition arrayAverage :: "number list \<Rightarrow> int" where
  "arrayAverage arr =
     (if length arr = 0 then 0
      else Math_round (divide64 (foldl (\<lambda>acc val. plus64 acc val) 0 arr) (real (length arr))))"

section \<open>The data of a survey\<close>

text \<open>
  Modelled from the spec: the types \<^verbatim>\<open>WifiResults\<close>, \<^verbatim>\<open>IperfResults\<close> and
  \<^verbatim>\<open>PartialHeatmapSettings\<close> are declared in a file that is not among the
  sources. A Wi-Fi entry has the fields the specification lists for a snapshot
  entry; the bandwidth result has one \<^verbatim>\<open>IperfTestProperty\<close> for each pair of
  protocol and direction; of the settings, the fields the orchestrator reads.
\<close>

record wifi_results =
  ssid :: string
  bssid :: string
  band :: number
  channel :: number
  channelWidth :: number
  security :: string
  txRate :: number
  phyMode :: string
  signalStrength :: number
  rssi :: number
  currentSSID :: bool

text \<open>What \<^verbatim>\<open>scanWifi\<close> and \<^verbatim>\<open>getWifi\<close> resolve to: an object with the array \<^verbatim>\<open>SSIDs\<close>.\<close>

record scan_results =
  SSIDs :: "wifi_results list"

record iperf_results =
  tcpDownload :: iperf_test_property
  tcpUpload :: iperf_test_property
  udpDownload :: iperf_test_property
  udpUpload :: iperf_test_property

record settings =
  iperfServerAdrs :: string
  testDuration :: number
  iperfTcpEnabled :: bool
  iperfUdpEnabled :: bool

text \<open>What \<^verbatim>\<open>preflightSettings\<close> and \<^verbatim>\<open>checkIperfServer\<close> resolve to.\<close>

record check_result =
  reason :: string

text \<open>The object that \<^verbatim>\<open>runSurveyTests\<close> resolves to.\<close>

record survey_result =
  iperfData :: "iperf_results option"
  wifiData :: "wifi_results option"
  status :: string

datatype TestType = TCP | UDP

datatype TestDirection = Up | Down

subsection \<open>Progress messages\<close>

text \<open>The module-level object \<^verbatim>\<open>displayStates\<close> (lines 131-140).\<close>

record display_states =
  type :: string
  header :: string
  strength :: string
  tcp :: string
  udp :: string
  tcpEnabled :: bool
  udpEnabled :: bool
  progress :: int

text \<open>
  \<^verbatim>\<open>SSEMessageType\<close>, as the two places that build one fill it: the message of the
  outer \<^verbatim>\<open>catch\<close> block has neither the enabled flags nor a progress.
\<close>

record sse_message =
  msg_type :: string
  msg_header :: string
  msg_status :: string
  msg_tcpEnabled :: "bool option"
  msg_udpEnabled :: "bool option"
  msg_progress :: "int option"

text \<open>\<^verbatim>\<open>initialStates\<close> (lines 118-127).\<close>

definition initialStates :: display_states where
  "initialStates =
     \<lparr>type = ''update'', header = ''Measurement beginning'', strength = ''-'',
      tcp = ''-/- Mbps'', udp = ''-/- Mbps'', tcpEnabled = True, udpEnabled = True,
      progress = 0\<rparr>"

text \<open>\<^verbatim>\<open>getUpdatedMessage\<close> (lines 146-169), of the display states given.\<close>

definition getUpdatedMessage :: "display_states \<Rightarrow> sse_message" where
  "getUpdatedMessage ds =
     (let strength' = (if strength ds \<noteq> ''-'' then strength ds @ ''%'' else strength ds);
          statusLines =
            [''Signal strength: '' @ strength']
            @ (if tcpEnabled ds then [''TCP: '' @ tcp ds] else [])
            @ (if udpEnabled ds then [''UDP: '' @ udp ds] else [])
      in \<lparr>msg_type = type ds,
          msg_header = header ds,
          msg_status = Array_join [CHR 0x0A] statusLines,
          msg_tcpEnabled = Some (tcpEnabled ds),
          msg_udpEnabled = Some (udpEnabled ds),
          msg_progress = Some (progress ds)\<rparr>)"

subsection \<open>The world outside the module\<close>

text \<open>
  The command line of one run of iperf3 (line 421), by its parts: host, port
  (empty: no \<^verbatim>\<open>-p\<close>), duration, \<^verbatim>\<open>-R\<close>, and \<^verbatim>\<open>-u -b 0\<close>.
\<close>

record iperf_command =
  cmd_server :: string
  cmd_port :: string
  cmd_duration :: number
  cmd_reverse :: bool
  cmd_udp :: bool

text \<open>
  One run of the subprocess: the elapsed milliseconds at which the interval
  timer of \<^verbatim>\<open>runSingleTest\<close> fired while the subprocess ran, in order, and how
  \<^verbatim>\<open>execAsync\<close> settled: rejected with an error, or resolved with the standard
  output.
\<close>

record exec_result =
  exec_ticks :: "number list"
  exec_settled :: "js_error + string"

text \<open>The three signal samples of an attempt, and its five cancellation checkpoints.\<close>

datatype sample = Before | Middle | After

datatype checkpoint = AfterBefore | AfterTcp | AfterMiddle | AfterUdp | AfterAfter

text \<open>
  Everything the module calls and does not define. An adapter call is rejected
  with an error (\<open>Inl\<close>) or resolves to a value (\<open>Inr\<close>). \<^verbatim>\<open>getWifi\<close> and the
  cancellation flag are read several times in a run and may answer differently
  each time: the answer is given for the attempt (counted from 1) and the place
  of the call in it. \<^verbatim>\<open>percentageToRssi\<close>, \<^verbatim>\<open>toMbps\<close> and
  \<^verbatim>\<open>getDefaultIperfResults\<close> are imported from a file that is not among the sources
  and are parameters here, as is \<^verbatim>\<open>JSON.parse\<close> on the output of iperf3.
\<close>

record world =
  preflightSettings :: "settings \<Rightarrow> js_error + check_result"
  checkIperfServer :: "settings \<Rightarrow> js_error + check_result"
  scanWifi :: "settings \<Rightarrow> js_error + scan_results"
  getWifi :: "settings \<Rightarrow> nat \<Rightarrow> sample \<Rightarrow> js_error + scan_results"
  getCancelFlag :: "nat \<Rightarrow> checkpoint \<Rightarrow> bool"
  execAsync :: "iperf_command \<Rightarrow> exec_result"
  JSON_parse :: "string \<Rightarrow> js_error + iperf_json"
  percentageToRssi :: "number \<Rightarrow> number"
  toMbps :: "number option \<Rightarrow> string"
  getDefaultIperfResults :: iperf_results

text \<open>What a run does that an observer can see, in order.\<close>

datatype adapter_call = PreflightSettings | CheckIperfServer | ScanWifi | GetWifi

datatype event =
    Called adapter_call
  | Spawned iperf_command
  | Sent sse_message

text \<open>
  The state a run works on: the module-level \<^verbatim>\<open>displayStates\<close>, the events so
  far, and the variables of \<^verbatim>\<open>runSurveyTests\<close> that are assigned after their
  declaration.
\<close>

record run_state =
  displayStates :: display_states
  trace :: "event list"
  newIperfData :: iperf_results
  newWifiData :: "wifi_results option"
  wifiStrengths :: "number list"
  completedTests :: nat

subsection \<open>Computations that may throw\<close>

text \<open>
  An asynchronous function of the module is a function of the state that returns
  the state it leaves and either the value it resolves to (\<open>Inr\<close>) or the error
  it is rejected with (\<open>Inl\<close>).
\<close>

type_synonym 'a prog = "run_state \<Rightarrow> (js_error + 'a) \<times> run_state"

definition ret :: "'a \<Rightarrow> 'a prog" where
  "ret x = (\<lambda>s. (Inr x, s))"

definition throw :: "js_error \<Rightarrow> 'a prog" where
  "throw e = (\<lambda>s. (Inl e, s))"

definition bnd :: "'a prog \<Rightarrow> ('a \<Rightarrow> 'b prog) \<Rightarrow> 'b prog" where
  "bnd m f = (\<lambda>s. case m s of (Inl e, s') \<Rightarrow> (Inl e, s') | (Inr x, s') \<Rightarrow> f x s')"

definition seq :: "unit prog \<Rightarrow> 'b prog \<Rightarrow> 'b prog" where
  "seq m k = bnd m (\<lambda>_. k)"

definition try_catch :: "'a prog \<Rightarrow> (js_error \<Rightarrow> 'a prog) \<Rightarrow> 'a prog" where
  "try_catch m h = (\<lambda>s. case m s of (Inl e, s') \<Rightarrow> h e s' | (Inr x, s') \<Rightarrow> (Inr x, s'))"

text \<open>A value or an error that does not depend on the state.\<close>

definition lift :: "js_error + 'a \<Rightarrow> 'a prog" where
  "lift r = (\<lambda>s. (r, s))"

text \<open>An assignment.\<close>

definition assign :: "(run_state \<Rightarrow> run_state) \<Rightarrow> unit prog" where
  "assign f = (\<lambda>s. (Inr (), f s))"

text \<open>An adapter call: the call is recorded, then it settles.\<close>

definition adapter :: "adapter_call \<Rightarrow> js_error + 'a \<Rightarrow> 'a prog" where
  "adapter c r = (\<lambda>s. (r, s\<lparr>trace := trace s @ [Called c]\<rparr>))"

text \<open>\<^verbatim>\<open>xs[0].p\<close>: reading a property of \<^verbatim>\<open>undefined\<close> throws a \<^verbatim>\<open>TypeError\<close>.\<close>

definition first :: "'a list \<Rightarrow> string \<Rightarrow> js_error + 'a" where
  "first xs p =
     (case xs of
        [] \<Rightarrow> Inl (TypeError (''Cannot read properties of undefined (reading ''
                @ [CHR 0x27] @ p @ [CHR 0x27] @ '')''))
      | x # _ \<Rightarrow> Inr x)"

section \<open>The bandwidth test runner\<close>

text \<open>\<^verbatim>\<open>sendSSEMessage\<close>: the message goes out to the progress channel.\<close>

definition sendSSEMessage :: "sse_message \<Rightarrow> run_state \<Rightarrow> run_state" where
  "sendSSEMessage m s = s\<lparr>trace := trace s @ [Sent m]\<rparr>"

text \<open>\<^verbatim>\<open>sendSSEMessage(getUpdatedMessage())\<close>.\<close>

definition publish :: "run_state \<Rightarrow> run_state" where
  "publish s = sendSSEMessage (getUpdatedMessage (displayStates s)) s"

text \<open>
  The function that \<^verbatim>\<open>createProgressCallback()\<close> returns (lines 275-280). It
  reads \<^verbatim>\<open>completedTests\<close> when it is called.
\<close>

definition createProgressCallback :: "number \<Rightarrow> number \<Rightarrow> run_state \<Rightarrow> run_state" where
  "createProgressCallback progressPerTest percent s =
     (let baseProgress = times64 (real (completedTests s)) progressPerTest;
          testProgress = times64 (divide64 percent 100) progressPerTest
      in publish
           (s\<lparr>displayStates :=
                (displayStates s)\<lparr>progress := Math_round (plus64 baseProgress testProgress)\<rparr>\<rparr>))"

text \<open>
  The percentage the interval timer reports at a tick (lines 432-437). A
  positive elapsed time divided by zero is \<^verbatim>\<open>Infinity\<close>, which \<^verbatim>\<open>Math.min\<close> brings
  down to 99. An elapsed time that is not positive divided by zero is \<^verbatim>\<open>NaN\<close> or
  \<^verbatim>\<open>-Infinity\<close>: that case is outside the model.
\<close>

definition tickPercent :: "number \<Rightarrow> number \<Rightarrow> number" where
  "tickPercent testDurationMs elapsed =
     (if testDurationMs = 0 \<and> 0 < elapsed then 99
      else real_of_int (min (Math_round (times64 (divide64 elapsed testDurationMs) 100)) 99))"

text \<open>
  The command line that \<^verbatim>\<open>runSingleTest\<close> builds (lines 413-423). Destructuring
  a missing array element gives \<^verbatim>\<open>undefined\<close>, which the command line treats as
  the empty string does.
\<close>

definition iperfCommand ::
  "string \<Rightarrow> number \<Rightarrow> TestDirection \<Rightarrow> TestType \<Rightarrow> iperf_command" where
  "iperfCommand server duration testDir testType =
     (let (server', port) =
            (if String_includes server '':''
             then (case String_split CHR '':'' server of
                     [] \<Rightarrow> ('''', '''')
                   | [host] \<Rightarrow> (host, '''')
                   | host # serverPort # _ \<Rightarrow> (host, serverPort))
             else (server, ''''));
          isUdp = (testType = UDP);
          isDownload = (testDir = Down)
      in \<lparr>cmd_server = server', cmd_port = port, cmd_duration = duration,
          cmd_reverse = isDownload, cmd_udp = isUdp\<rparr>)"

text \<open>
  \<^verbatim>\<open>runSingleTest\<close> (lines 404-465). The subprocess is spawned; while it runs the
  timer calls \<^verbatim>\<open>onProgress\<close> at every tick; the \<^verbatim>\<open>try\<close> block awaits the output,
  parses and normalises it; the \<^verbatim>\<open>catch\<close> block turns every error into the null
  results; the \<^verbatim>\<open>finally\<close> block calls \<^verbatim>\<open>onProgress(100)\<close>. The timer divides
  by the duration: see \<open>tickPercent\<close> for a duration of zero.
\<close>

definition runSingleTest ::
  "world \<Rightarrow> string \<Rightarrow> number \<Rightarrow> TestDirection \<Rightarrow> TestType \<Rightarrow>
   (number \<Rightarrow> run_state \<Rightarrow> run_state) option \<Rightarrow> iperf_test_property prog" where
  "runSingleTest w server duration testDir testType onProgress =
     (let isUdp = (testType = UDP);
          command = iperfCommand server duration testDir testType;
          testDurationMs = times64 duration 1000;
          child = execAsync w command;
          ticking =
            (\<lambda>s. case onProgress of
                   None \<Rightarrow> s
                 | Some f \<Rightarrow>
                     foldl (\<lambda>s' elapsed. f (tickPercent testDurationMs elapsed) s') s
                       (exec_ticks child));
          finally = (\<lambda>s. case onProgress of None \<Rightarrow> s | Some f \<Rightarrow> f 100 s)
      in seq (assign (\<lambda>s. s\<lparr>trace := trace s @ [Spawned command]\<rparr>))
        (seq (assign ticking)
        (bnd (try_catch
               (bnd (lift (exec_settled child)) (\<lambda>stdout.
                bnd (lift (JSON_parse w stdout)) (\<lambda>result.
                ret (extractIperfData result isUdp))))
               (\<lambda>error. ret nullResults)) (\<lambda>returned.
         seq (assign finally)
        (ret returned)))))"

section \<open>The survey orchestrator\<close>

text \<open>
  \<^verbatim>\<open>validateWifiDataConsistency\<close> (lines 96-110): \<^verbatim>\<open>true\<close>, or \<^verbatim>\<open>undefined\<close>,
  which the caller's negation reads as false.
\<close>

definition validateWifiDataConsistency :: "wifi_results \<Rightarrow> wifi_results \<Rightarrow> bool" where
  "validateWifiDataConsistency wifiDataBefore wifiDataAfter =
     (if bssid wifiDataBefore = bssid wifiDataAfter \<and>
         ssid wifiDataBefore = ssid wifiDataAfter \<and>
         band wifiDataBefore = band wifiDataAfter \<and>
         channel wifiDataBefore = channel wifiDataAfter
      then True else False)"

text \<open>\<^verbatim>\<open>checkForCancel\<close> (lines 171-173), at a checkpoint of an attempt.\<close>

definition checkForCancel :: "world \<Rightarrow> nat \<Rightarrow> checkpoint \<Rightarrow> unit prog" where
  "checkForCancel w attempts c =
     (if getCancelFlag w attempts c then throw (Error ''cancelled'') else ret ())"

definition setDisplay :: "(display_states \<Rightarrow> display_states) \<Rightarrow> unit prog" where
  "setDisplay f = assign (\<lambda>s. s\<lparr>displayStates := f (displayStates s)\<rparr>)"

definition maxRetries :: nat where
  "maxRetries = 1"

text \<open>Lines 271-272.\<close>

definition totalTests :: "bool \<Rightarrow> bool \<Rightarrow> nat" where
  "totalTests tcpEn udpEn = (if tcpEn then 2 else 0) + (if udpEn then 2 else 0)"

definition progressPerTest :: "bool \<Rightarrow> bool \<Rightarrow> number" where
  "progressPerTest tcpEn udpEn =
     (if totalTests tcpEn udpEn > 0 then divide64 100 (real (totalTests tcpEn udpEn)) else 0)"

text \<open>
  The four statements the body of the attempt repeats for every signal sample
  (lines 258-265, 313-316 and 351-354): read the entry of the associated
  network, push its signal strength, display the average, check for
  cancellation. The entry read is the result.
\<close>

definition sampleSignal ::
  "world \<Rightarrow> settings \<Rightarrow> nat \<Rightarrow> sample \<Rightarrow> checkpoint \<Rightarrow> wifi_results prog" where
  "sampleSignal w settings attempts smp c =
     bnd (adapter GetWifi (getWifi w settings attempts smp)) (\<lambda>wifiData.
     bnd (lift (first (SSIDs wifiData) ''signalStrength'')) (\<lambda>entry.
     seq (assign (\<lambda>s. s\<lparr>wifiStrengths := wifiStrengths s @ [signalStrength entry]\<rparr>))
    (seq (assign (\<lambda>s. s\<lparr>displayStates :=
            (displayStates s)\<lparr>strength := Number_toString (arrayAverage (wifiStrengths s))\<rparr>\<rparr>))
    (seq (checkForCancel w attempts c)
    (ret entry)))))"

text \<open>The TCP tests (lines 283-309).\<close>

definition tcpTests ::
  "world \<Rightarrow> string \<Rightarrow> number \<Rightarrow> number \<Rightarrow> bool \<Rightarrow> string \<Rightarrow> unit prog" where
  "tcpTests w server duration perTest tcpEn noIperfTestReason =
     (if tcpEn then
        seq (setDisplay (\<lambda>d. d\<lparr>tcp := ''Testing...''\<rparr>))
       (bnd (runSingleTest w server duration Down TCP (Some (createProgressCallback perTest)))
          (\<lambda>r.
        seq (assign (\<lambda>s. s\<lparr>newIperfData := (newIperfData s)\<lparr>tcpDownload := r\<rparr>\<rparr>))
       (seq (assign (\<lambda>s. s\<lparr>completedTests := completedTests s + 1\<rparr>))
       (seq (assign (\<lambda>s. s\<lparr>displayStates := (displayStates s)\<lparr>tcp :=
               toMbps w (bitsPerSecond (tcpDownload (newIperfData s))) @ '' / ... Mbps''\<rparr>\<rparr>))
       (seq (assign publish)
       (bnd (runSingleTest w server duration Up TCP (Some (createProgressCallback perTest)))
          (\<lambda>r'.
        seq (assign (\<lambda>s. s\<lparr>newIperfData := (newIperfData s)\<lparr>tcpUpload := r'\<rparr>\<rparr>))
       (seq (assign (\<lambda>s. s\<lparr>completedTests := completedTests s + 1\<rparr>))
            (assign (\<lambda>s. s\<lparr>displayStates := (displayStates s)\<lparr>tcp :=
               toMbps w (bitsPerSecond (tcpDownload (newIperfData s))) @ '' / ''
               @ toMbps w (bitsPerSecond (tcpUpload (newIperfData s))) @ '' Mbps''\<rparr>\<rparr>))))))))))
      else (\<lambda>s. if tcpEnabled (displayStates s)
                then setDisplay (\<lambda>d. d\<lparr>tcp := noIperfTestReason\<rparr>) s
                else ret () s))"

text \<open>The UDP tests (lines 320-346).\<close>

definition udpTests ::
  "world \<Rightarrow> string \<Rightarrow> number \<Rightarrow> number \<Rightarrow> bool \<Rightarrow> string \<Rightarrow> unit prog" where
  "udpTests w server duration perTest udpEn noIperfTestReason =
     (if udpEn then
        seq (setDisplay (\<lambda>d. d\<lparr>udp := ''Testing...''\<rparr>))
       (bnd (runSingleTest w server duration Down UDP (Some (createProgressCallback perTest)))
          (\<lambda>r.
        seq (assign (\<lambda>s. s\<lparr>newIperfData := (newIperfData s)\<lparr>udpDownload := r\<rparr>\<rparr>))
       (seq (assign (\<lambda>s. s\<lparr>completedTests := completedTests s + 1\<rparr>))
       (seq (assign (\<lambda>s. s\<lparr>displayStates := (displayStates s)\<lparr>udp :=
               toMbps w (bitsPerSecond (udpDownload (newIperfData s))) @ '' / ... Mbps''\<rparr>\<rparr>))
       (seq (assign publish)
       (bnd (runSingleTest w server duration Up UDP (Some (createProgressCallback perTest)))
          (\<lambda>r'.
        seq (assign (\<lambda>s. s\<lparr>newIperfData := (newIperfData s)\<lparr>udpUpload := r'\<rparr>\<rparr>))
       (seq (assign (\<lambda>s. s\<lparr>completedTests := completedTests s + 1\<rparr>))
            (assign (\<lambda>s. s\<lparr>displayStates := (displayStates s)\<lparr>udp :=
               toMbps w (bitsPerSecond (udpDownload (newIperfData s))) @ '' / ''
               @ toMbps w (bitsPerSecond (udpUpload (newIperfData s))) @ '' Mbps''\<rparr>\<rparr>))))))))))
      else (\<lambda>s. if udpEnabled (displayStates s)
                then setDisplay (\<lambda>d. d\<lparr>udp := noIperfTestReason\<rparr>) s
                else ret () s))"

text \<open>
  The end of the attempt (lines 361-377): the consistency check, then the entry
  to return. \<^verbatim>\<open>parseInt\<close> gives NaN only for a string without a leading digit;
  the string it is given here was written by \<^verbatim>\<open>toString\<close> from an integer, so the
  first case below is never reached (lemma \<open>parseInt_toString\<close>). NaN is not a
  number of the model: that case is closed with an error of the model's own.
\<close>

definition finishAttempt :: "world \<Rightarrow> wifi_results \<Rightarrow> wifi_results \<Rightarrow> unit prog" where
  "finishAttempt w wifiDataBefore0 wifiDataAfter0 =
     (if \<not> validateWifiDataConsistency wifiDataBefore0 wifiDataAfter0
      then throw (Error
        ''Wifi configuration changed between scans! Cancelling instead of giving wrong results.'')
      else (\<lambda>s. case parseInt (strength (displayStates s)) of
                  None \<Rightarrow> throw (Error ''NaN is outside the model'') s
                | Some n \<Rightarrow>
                    (let strength' = real_of_int n
                     in assign (\<lambda>s. s\<lparr>newWifiData :=
                          Some (wifiDataBefore0\<lparr>signalStrength := strength',
                                                 rssi := percentageToRssi w strength'\<rparr>)\<rparr>) s)))"

text \<open>
  The body of the inner \<^verbatim>\<open>try\<close> block up to the last progress message (lines
  248-359), in the attempt numbered \<open>attempts\<close>. It resolves to the two entries
  that the consistency check compares, \<^verbatim>\<open>wifiDataBefore.SSIDs[0]\<close> and
  \<^verbatim>\<open>wifiDataAfter.SSIDs[0]\<close>.
\<close>

definition measurement ::
  "world \<Rightarrow> settings \<Rightarrow> bool \<Rightarrow> string \<Rightarrow> string \<Rightarrow> nat \<Rightarrow>
   (wifi_results \<times> wifi_results) prog" where
  "measurement w settings performIperfTest noIperfTestReason ssidName attempts =
     (let server = iperfServerAdrs settings;
          duration = testDuration settings;
          newHeader =
            ''Measuring Wi-Fi''
            @ (if \<not> String_includes ssidName ''redacted'' then '' ('' @ ssidName @ '')'' else '''');
          tcpEn = (performIperfTest \<and> iperfTcpEnabled settings);
          udpEn = (performIperfTest \<and> iperfUdpEnabled settings);
          perTest = progressPerTest tcpEn udpEn
      in seq (assign (\<lambda>s. s\<lparr>wifiStrengths := []\<rparr>))
        (seq (setDisplay (\<lambda>d. d\<lparr>header := newHeader\<rparr>))
        (bnd (sampleSignal w settings attempts Before AfterBefore) (\<lambda>wifiDataBefore0.
         seq (assign publish)
        (seq (assign (\<lambda>s. s\<lparr>completedTests := 0\<rparr>))
        (seq (tcpTests w server duration perTest tcpEn noIperfTestReason)
        (seq (checkForCancel w attempts AfterTcp)
        (seq (assign publish)
        (bnd (sampleSignal w settings attempts Middle AfterMiddle) (\<lambda>wifiDataMiddle0.
         seq (assign publish)
        (seq (udpTests w server duration perTest udpEn noIperfTestReason)
        (seq (setDisplay (\<lambda>d. d\<lparr>progress := 100\<rparr>))
        (seq (checkForCancel w attempts AfterUdp)
        (seq (assign publish)
        (bnd (sampleSignal w settings attempts After AfterAfter) (\<lambda>wifiDataAfter0.
         seq (setDisplay (\<lambda>d. d\<lparr>type := ''done'', header := ''Measurement complete''\<rparr>))
        (seq (assign publish)
        (ret (wifiDataBefore0, wifiDataAfter0)))))))))))))))))))"

text \<open>The body of the inner \<^verbatim>\<open>try\<close> block (lines 248-377).\<close>

definition attempt ::
  "world \<Rightarrow> settings \<Rightarrow> bool \<Rightarrow> string \<Rightarrow> string \<Rightarrow> nat \<Rightarrow> unit prog" where
  "attempt w settings performIperfTest noIperfTestReason ssidName attempts =
     bnd (measurement w settings performIperfTest noIperfTestReason ssidName attempts)
       (\<lambda>(wifiDataBefore0, wifiDataAfter0). finishAttempt w wifiDataBefore0 wifiDataAfter0)"

text \<open>
  The \<^verbatim>\<open>while\<close> loop with its inner \<^verbatim>\<open>catch\<close> block (lines 245-388). The result
  is \<open>Some r\<close> when the loop is left by \<^verbatim>\<open>return r\<close>, and \<open>None\<close> when its
  condition fails.
\<close>

function attemptLoop ::
  "world \<Rightarrow> settings \<Rightarrow> bool \<Rightarrow> string \<Rightarrow> string \<Rightarrow> nat \<Rightarrow> run_state \<Rightarrow>
   (js_error + survey_result option) \<times> run_state" where
  "attemptLoop w settings performIperfTest noIperfTestReason ssidName attempts s =
     (if attempts < maxRetries then
        (case attempt w settings performIperfTest noIperfTestReason ssidName (attempts + 1) s of
           (Inr _, s') \<Rightarrow>
             attemptLoop w settings performIperfTest noIperfTestReason ssidName (attempts + 1) s'
         | (Inl error, s') \<Rightarrow>
             if message error = ''cancelled''
             then (Inr (Some \<lparr>iperfData = None, wifiData = None,
                              status = ''test was cancelled''\<rparr>), s')
             else attemptLoop w settings performIperfTest noIperfTestReason ssidName
                    (attempts + 1) s')
      else (Inr None, s))"
  by pat_completeness auto
termination
  by (relation "measure (\<lambda>(w, settings, p, r, n, attempts, s). maxRetries - attempts)") auto

declare attemptLoop.simps [simp del]

text \<open>
  The body of the outer \<^verbatim>\<open>try\<close> block (lines 216-391). The object spread of
  line 223 takes every field from \<^verbatim>\<open>initialStates\<close>, which has all the fields of
  \<^verbatim>\<open>displayStates\<close>, and then the two flags.
\<close>

definition survey :: "world \<Rightarrow> settings \<Rightarrow> bool \<Rightarrow> string \<Rightarrow> survey_result prog" where
  "survey w settings performIperfTest noIperfTestReason =
     seq (assign (\<lambda>s. s\<lparr>newIperfData := getDefaultIperfResults w, newWifiData := None\<rparr>))
    (seq (setDisplay (\<lambda>d. initialStates
           \<lparr>tcpEnabled := performIperfTest \<and> iperfTcpEnabled settings,
            udpEnabled := performIperfTest \<and> iperfUdpEnabled settings\<rparr>))
    (seq (assign publish)
    (seq (setDisplay (\<lambda>d. d\<lparr>header := ''Measurement in progress...''\<rparr>))
    (bnd (adapter ScanWifi (scanWifi w settings)) (\<lambda>ssids.
     bnd (lift (first (filter currentSSID (SSIDs ssids)) ''ssid'')) (\<lambda>thisSSID0.
     bnd (attemptLoop w settings performIperfTest noIperfTestReason (ssid thisSSID0) 0)
       (\<lambda>returned.
          case returned of
            Some r \<Rightarrow> ret r
          | None \<Rightarrow>
              (\<lambda>s. ret \<lparr>iperfData = Some (newIperfData s), wifiData = newWifiData s,
                         status = ''''\<rparr> s))))))))"

text \<open>The message of the outer \<^verbatim>\<open>catch\<close> block (lines 394-398).\<close>

definition errorMessage :: sse_message where
  "errorMessage =
     \<lparr>msg_type = ''done'', msg_header = ''Error'', msg_status = ''Error taking measurements'',
      msg_tcpEnabled = None, msg_udpEnabled = None, msg_progress = None\<rparr>"

text \<open>\<^verbatim>\<open>runSurveyTests\<close> (lines 180-402).\<close>

definition runSurveyTests :: "world \<Rightarrow> settings \<Rightarrow> survey_result prog" where
  "runSurveyTests w settings =
     bnd (adapter PreflightSettings (preflightSettings w settings)) (\<lambda>preResults.
       if reason preResults \<noteq> ''''
       then ret \<lparr>iperfData = None, wifiData = None, status = reason preResults\<rparr>
       else
         bnd (if iperfServerAdrs settings = ''localhost''
              then ret (False, ''Not performed'')
              else bnd (adapter CheckIperfServer (checkIperfServer w settings)) (\<lambda>resp.
                     if reason resp \<noteq> '''' then ret (False, reason resp) else ret (True, '''')))
           (\<lambda>(performIperfTest, noIperfTestReason).
              try_catch (survey w settings performIperfTest noIperfTestReason)
                (\<lambda>error. seq (assign (sendSSEMessage errorMessage)) (throw error))))"

text \<open>
  The state in which a call of \<^verbatim>\<open>runSurveyTests\<close> starts, in a module whose
  \<^verbatim>\<open>displayStates\<close> is \<open>ds\<close> then: nothing has happened yet, and the variables
  of the function have the values of their declarations.
\<close>

definition startState :: "world \<Rightarrow> display_states \<Rightarrow> run_state" where
  "startState w ds =
     \<lparr>displayStates = ds, trace = [], newIperfData = getDefaultIperfResults w,
      newWifiData = None, wifiStrengths = [], completedTests = 0\<rparr>"

text \<open>One call of \<^verbatim>\<open>runSurveyTests\<close>: what it settles with, and the state it leaves.\<close>

definition run ::
  "world \<Rightarrow> settings \<Rightarrow> display_states \<Rightarrow> (js_error + survey_result) \<times> run_state" where
  "run w settings ds = runSurveyTests w settings (startState w ds)"

text \<open>The messages among the events, in order.\<close>

fun sent :: "event list \<Rightarrow> sse_message list" where
  "sent [] = []"
| "sent (Sent m # es) = m # sent es"
| "sent (_ # es) = sent es"

text \<open>The subprocesses among the events, in order.\<close>

fun spawned :: "event list \<Rightarrow> iperf_command list" where
  "spawned [] = []"
| "spawned (Spawned c # es) = c # spawned es"
| "spawned (_ # es) = spawned es"

section \<open>Notions the proofs use\<close>

text \<open>What the \<^verbatim>\<open>try\<close> and \<^verbatim>\<open>catch\<close> blocks of \<^verbatim>\<open>runSingleTest\<close> return.\<close>

definition testOutcome :: "world \<Rightarrow> iperf_command \<Rightarrow> bool \<Rightarrow> iperf_test_property" where
  "testOutcome w command isUdp =
     (case exec_settled (execAsync w command) of
        Inl error \<Rightarrow> nullResults
      | Inr stdout \<Rightarrow>
          (case JSON_parse w stdout of
             Inl error \<Rightarrow> nullResults
           | Inr result \<Rightarrow> extractIperfData result isUdp))"

definition decimal :: "char \<Rightarrow> bool" where
  "decimal c = (\<exists>d<10. c = digitChar d)"

text \<open>The progress a callback displays at a percentage of the running unit.\<close>

definition unitProgress :: "number \<Rightarrow> nat \<Rightarrow> number \<Rightarrow> int" where
  "unitProgress perTest completed percent =
     Math_round (plus64 (times64 (real completed) perTest)
                   (times64 (divide64 percent 100) perTest))"

text \<open>The message a callback sends at a percentage, from the state the unit started in.\<close>

definition progressEvent :: "number \<Rightarrow> run_state \<Rightarrow> number \<Rightarrow> event" where
  "progressEvent perTest s percent =
     Sent (getUpdatedMessage
       ((displayStates s)\<lparr>progress := unitProgress perTest (completedTests s) percent\<rparr>))"

text \<open>The events of one bandwidth test.\<close>

definition testEvents :: "world \<Rightarrow> iperf_command \<Rightarrow> number \<Rightarrow> run_state \<Rightarrow> event list" where
  "testEvents w command perTest s =
     Spawned command
     # map (\<lambda>elapsed. progressEvent perTest s (tickPercent (times64 (cmd_duration command) 1000) elapsed))
         (exec_ticks (execAsync w command))
     @ [progressEvent perTest s 100]"

definition tcpEffect ::
  "world \<Rightarrow> string \<Rightarrow> number \<Rightarrow> number \<Rightarrow> bool \<Rightarrow> string \<Rightarrow> run_state \<Rightarrow> run_state" where
  "tcpEffect w server duration perTest tcpEn noIperfTestReason s =
     snd (tcpTests w server duration perTest tcpEn noIperfTestReason s)"

definition udpEffect ::
  "world \<Rightarrow> string \<Rightarrow> number \<Rightarrow> number \<Rightarrow> bool \<Rightarrow> string \<Rightarrow> run_state \<Rightarrow> run_state" where
  "udpEffect w server duration perTest udpEn noIperfTestReason s =
     snd (udpTests w server duration perTest udpEn noIperfTestReason s)"

text \<open>The three ways a bandwidth test fails: the subprocess, the parse, the missing section.\<close>

definition testFails :: "world \<Rightarrow> iperf_command \<Rightarrow> bool" where
  "testFails w command =
     (case exec_settled (execAsync w command) of
        Inl error \<Rightarrow> True
      | Inr stdout \<Rightarrow>
          (case JSON_parse w stdout of
             Inl error \<Rightarrow> True
           | Inr result \<Rightarrow> result_end result = None))"

text \<open>
  The run is let into the survey: the preflight check resolves with an empty
  reason, and the probe of the iperf3 server, when it is made, resolves.
\<close>

definition admitted :: "world \<Rightarrow> settings \<Rightarrow> bool" where
  "admitted w settings =
     ((case preflightSettings w settings of Inl _ \<Rightarrow> False | Inr pre \<Rightarrow> reason pre = '''') \<and>
      (iperfServerAdrs settings = ''localhost'' \<or>
       (case checkIperfServer w settings of Inl _ \<Rightarrow> False | Inr _ \<Rightarrow> True)))"

text \<open>The values of \<^verbatim>\<open>performIperfTest\<close> and \<^verbatim>\<open>noIperfTestReason\<close> in such a run.\<close>

definition performIperfTestOf :: "world \<Rightarrow> settings \<Rightarrow> bool" where
  "performIperfTestOf w settings =
     (iperfServerAdrs settings \<noteq> ''localhost'' \<and>
      (case checkIperfServer w settings of Inl _ \<Rightarrow> False | Inr resp \<Rightarrow> reason resp = ''''))"

definition noIperfTestReasonOf :: "world \<Rightarrow> settings \<Rightarrow> string" where
  "noIperfTestReasonOf w settings =
     (if iperfServerAdrs settings = ''localhost'' then ''Not performed''
      else (case checkIperfServer w settings of Inl _ \<Rightarrow> '''' | Inr resp \<Rightarrow> reason resp))"

text \<open>The entry of the scan that is marked as the associated network, if the scan has one.\<close>

definition associated :: "world \<Rightarrow> settings \<Rightarrow> wifi_results option" where
  "associated w settings =
     (case scanWifi w settings of
        Inl _ \<Rightarrow> None
      | Inr ssids \<Rightarrow> (case filter currentSSID (SSIDs ssids) of [] \<Rightarrow> None | x # _ \<Rightarrow> Some x))"

text \<open>The entry a signal sample reads, if the call resolves and has one.\<close>

definition sampled :: "world \<Rightarrow> settings \<Rightarrow> nat \<Rightarrow> sample \<Rightarrow> wifi_results option" where
  "sampled w settings attempts smp =
     (case getWifi w settings attempts smp of
        Inl _ \<Rightarrow> None
      | Inr r \<Rightarrow> (case SSIDs r of [] \<Rightarrow> None | x # _ \<Rightarrow> Some x))"

text \<open>The display states after line 228, and the state in which the loop is entered.\<close>

definition firstDisplay :: "world \<Rightarrow> settings \<Rightarrow> display_states" where
  "firstDisplay w settings =
     initialStates
       \<lparr>tcpEnabled := performIperfTestOf w settings \<and> iperfTcpEnabled settings,
        udpEnabled := performIperfTestOf w settings \<and> iperfUdpEnabled settings\<rparr>"

definition loopState :: "world \<Rightarrow> settings \<Rightarrow> display_states \<Rightarrow> run_state" where
  "loopState w settings ds =
     (startState w ds)
       \<lparr>displayStates := (firstDisplay w settings)\<lparr>header := ''Measurement in progress...''\<rparr>,
        trace :=
          Called PreflightSettings
          # (if iperfServerAdrs settings = ''localhost'' then [] else [Called CheckIperfServer])
          @ [Sent (getUpdatedMessage (firstDisplay w settings)), Called ScanWifi]\<rparr>"

text \<open>What the call settles with once the only attempt is over.\<close>

definition afterAttempt :: "(js_error + unit) \<times> run_state \<Rightarrow> (js_error + survey_result) \<times> run_state" where
  "afterAttempt r =
     (case r of
        (Inl error, s) \<Rightarrow>
          if message error = ''cancelled''
          then (Inr \<lparr>iperfData = None, wifiData = None, status = ''test was cancelled''\<rparr>, s)
          else (Inr \<lparr>iperfData = Some (newIperfData s), wifiData = newWifiData s,
                     status = ''''\<rparr>, s)
      | (Inr _, s) \<Rightarrow>
          (Inr \<lparr>iperfData = Some (newIperfData s), wifiData = newWifiData s, status = ''''\<rparr>, s))"

text \<open>
  From a state that satisfies \<open>P\<close>, the computation either resolves to a value
  \<open>x\<close> in a state that satisfies \<open>Q x\<close>, or is rejected with an error \<open>e\<close> in
  a state that satisfies \<open>E e\<close>.
\<close>

definition triple ::
  "(run_state \<Rightarrow> bool) \<Rightarrow> 'a prog \<Rightarrow> ('a \<Rightarrow> run_state \<Rightarrow> bool) \<Rightarrow>
   (js_error \<Rightarrow> run_state \<Rightarrow> bool) \<Rightarrow> bool" where
  "triple P m Q E =
     (\<forall>s. P s \<longrightarrow> (case m s of (Inl e, s') \<Rightarrow> E e s' | (Inr x, s') \<Rightarrow> Q x s'))"

text \<open>The progress values of the messages sent, in order.\<close>

fun progressValues :: "sse_message list \<Rightarrow> int list" where
  "progressValues [] = []"
| "progressValues (m # ms) =
     (case msg_progress m of None \<Rightarrow> progressValues ms | Some p \<Rightarrow> p # progressValues ms)"

definition progs :: "event list \<Rightarrow> int list" where
  "progs es = progressValues (sent es)"

text \<open>
  The clock of one bandwidth test behaves: the duration is positive and the
  elapsed times at the ticks are not negative and do not decrease.
\<close>

definition orderlyTicks :: "number \<Rightarrow> number list \<Rightarrow> bool" where
  "orderlyTicks duration ticks = (0 < duration \<and> sorted ticks \<and> list_all (\<lambda>t. 0 \<le> t) ticks)"

text \<open>The clock behaves in each of the four bandwidth tests of the settings.\<close>

definition steady :: "world \<Rightarrow> settings \<Rightarrow> bool" where
  "steady w settings =
     list_all
       (\<lambda>(testDir, testType).
          orderlyTicks (testDuration settings)
            (exec_ticks (execAsync w
               (iperfCommand (iperfServerAdrs settings) (testDuration settings) testDir testType))))
       [(Down, TCP), (Up, TCP), (Down, UDP), (Up, UDP)]"

text \<open>
  The state of an attempt before line 347: \<open>k\<close> tests are counted as completed,
  the progress is at most that of \<open>j\<close> completed tests, the samples so far are
  \<open>xs\<close>, and every message sent is an update. With no test to run (\<open>perTest\<close>
  is zero) all progress is zero. If the clocks behave (\<open>st\<close>), the progress values
  sent are in order and none is above the progress displayed.
\<close>

definition stage :: "bool \<Rightarrow> number \<Rightarrow> nat \<Rightarrow> nat \<Rightarrow> number list \<Rightarrow> run_state \<Rightarrow> bool" where
  "stage st perTest k j xs s =
     (type (displayStates s) = ''update'' \<and> completedTests s = k \<and> wifiStrengths s = xs \<and>
      newWifiData s = None \<and>
      list_all (\<lambda>m. msg_type m = ''update'') (sent (trace s)) \<and>
      (perTest = 0 \<longrightarrow>
         progress (displayStates s) = 0 \<and> list_all (\<lambda>p. p = 0) (progs (trace s))) \<and>
      (st \<longrightarrow>
         sorted (progs (trace s)) \<and>
         list_all (\<lambda>p. p \<le> progress (displayStates s)) (progs (trace s)) \<and>
         progress (displayStates s) \<le> Math_round (real j * perTest)))"

text \<open>Nothing stops the attempt: each of its three samples has an entry, and no checkpoint finds the flag set.\<close>

definition clear :: "world \<Rightarrow> settings \<Rightarrow> nat \<Rightarrow> bool" where
  "clear w settings n =
     (sampled w settings n Before \<noteq> None \<and> sampled w settings n Middle \<noteq> None \<and>
      sampled w settings n After \<noteq> None \<and>
      \<not> getCancelFlag w n AfterBefore \<and> \<not> getCancelFlag w n AfterTcp \<and>
      \<not> getCancelFlag w n AfterMiddle \<and> \<not> getCancelFlag w n AfterUdp \<and>
      \<not> getCancelFlag w n AfterAfter)"

text \<open>The state of an attempt from line 347 on, before the last message.\<close>

definition topped :: "bool \<Rightarrow> number \<Rightarrow> number list \<Rightarrow> run_state \<Rightarrow> bool" where
  "topped st perTest xs s =
     (type (displayStates s) = ''update'' \<and> wifiStrengths s = xs \<and> newWifiData s = None \<and>
      progress (displayStates s) = 100 \<and>
      list_all (\<lambda>m. msg_type m = ''update'') (sent (trace s)) \<and>
      (perTest = 0 \<longrightarrow> list_all (\<lambda>p. p = 0 \<or> p = 100) (progs (trace s))) \<and>
      (st \<longrightarrow> sorted (progs (trace s)) \<and> list_all (\<lambda>p. p \<le> 100) (progs (trace s))))"

text \<open>The state in which an attempt is left by an error before the last message.\<close>

definition aborted :: "bool \<Rightarrow> number \<Rightarrow> run_state \<Rightarrow> bool" where
  "aborted st perTest s =
     (newWifiData s = None \<and>
      list_all (\<lambda>m. msg_type m = ''update'') (sent (trace s)) \<and>
      (perTest = 0 \<longrightarrow> list_all (\<lambda>p. p = 0 \<or> p = 100) (progs (trace s))) \<and>
      (st \<longrightarrow> sorted (progs (trace s))))"

text \<open>The state after the last message of an attempt (line 359), the samples being \<open>xs\<close>.\<close>

definition finished :: "bool \<Rightarrow> number \<Rightarrow> number list \<Rightarrow> run_state \<Rightarrow> bool" where
  "finished st perTest xs s =
     (type (displayStates s) = ''done'' \<and> header (displayStates s) = ''Measurement complete'' \<and>
      progress (displayStates s) = 100 \<and>
      strength (displayStates s) = Number_toString (arrayAverage xs) \<and>
      newWifiData s = None \<and>
      (\<exists>es. trace s = es @ [Sent (getUpdatedMessage (displayStates s))] \<and>
            list_all (\<lambda>m. msg_type m = ''update'') (sent es)) \<and>
      (perTest = 0 \<longrightarrow> list_all (\<lambda>p. p = 0 \<or> p = 100) (progs (trace s))) \<and>
      (st \<longrightarrow> sorted (progs (trace s))))"

text \<open>The state between the two statements that end the measurement (lines 357-359).\<close>

definition closing :: "bool \<Rightarrow> number \<Rightarrow> number list \<Rightarrow> run_state \<Rightarrow> bool" where
  "closing st perTest xs s =
     (type (displayStates s) = ''done'' \<and> header (displayStates s) = ''Measurement complete'' \<and>
      progress (displayStates s) = 100 \<and>
      strength (displayStates s) = Number_toString (arrayAverage xs) \<and>
      newWifiData s = None \<and>
      list_all (\<lambda>m. msg_type m = ''update'') (sent (trace s)) \<and>
      (perTest = 0 \<longrightarrow> list_all (\<lambda>p. p = 0 \<or> p = 100) (progs (trace s))) \<and>
      (st \<longrightarrow> sorted (progs (trace s)) \<and> list_all (\<lambda>p. p \<le> 100) (progs (trace s))))"

text \<open>A whole number between 0 and 100.\<close>

definition wholePercent :: "number \<Rightarrow> bool" where
  "wholePercent x = (x = real_of_int \<lfloor>x\<rfloor> \<and> 0 \<le> x \<and> x \<le> 100)"

text \<open>Every signal sample of the attempt that has an entry reads a whole percentage.\<close>

definition percentages :: "world \<Rightarrow> settings \<Rightarrow> nat \<Rightarrow> bool" where
  "percentages w settings n =
     list_all
       (\<lambda>smp. case sampled w settings n smp of
                 None \<Rightarrow> True
               | Some e \<Rightarrow> wholePercent (signalStrength e))
       [Before, Middle, After]"

text \<open>The messages of type \<^verbatim>\<open>done\<close> among the messages of a trace.\<close>

definition doneMessages :: "event list \<Rightarrow> sse_message list" where
  "doneMessages es = filter (\<lambda>m. msg_type m = ''done'') (sent es)"

text \<open>The two flags of lines 269-270 in a run that is let into the survey.\<close>

definition tcpUnits :: "world \<Rightarrow> settings \<Rightarrow> bool" where
  "tcpUnits w settings = (performIperfTestOf w settings \<and> iperfTcpEnabled settings)"

definition udpUnits :: "world \<Rightarrow> settings \<Rightarrow> bool" where
  "udpUnits w settings = (performIperfTestOf w settings \<and> iperfUdpEnabled settings)"

section \<open>Concrete inputs\<close>

text \<open>
  A document of the newer schema: the received section reports 948 Mbit/s, the
  combined summary 51 Mbit/s, the sent section 12 retransmits.
\<close>

definition newerEnd :: iperf_end where
  "newerEnd =
     \<lparr>end_sum_received = Some \<lparr>sum_received_bits_per_second = Some 948000000\<rparr>,
      end_sum_sent = Some \<lparr>sum_sent_retransmits = Some 12\<rparr>,
      end_sum = Some \<lparr>sum_bits_per_second = Some 51000000, sum_jitter_ms = None,
        sum_lost_packets = None, sum_packets = None, sum_lost_percent = None,
        sum_retransmits = None\<rparr>\<rparr>"

definition newerPayload :: iperf_json where
  "newerPayload = \<lparr>result_end = Some newerEnd, result_error = None, result_version = None\<rparr>"

text \<open>
  A world in which nothing goes wrong: one network, associated, sampled at 40,
  44 and 46 percent; no cancellation; every bandwidth test ticks twice and prints
  the document above.
\<close>

definition homeEntry :: "number \<Rightarrow> wifi_results" where
  "homeEntry pct =
     \<lparr>ssid = ''home'', bssid = ''aa:bb:cc:dd:ee:ff'', band = 5, channel = 36,
      channelWidth = 80, security = ''WPA2'', txRate = 866, phyMode = ''802.11ac'',
      signalStrength = pct, rssi = - 70, currentSSID = True\<rparr>"

definition quietWorld :: world where
  "quietWorld =
     \<lparr>preflightSettings = (\<lambda>_. Inr \<lparr>reason = ''''\<rparr>),
      checkIperfServer = (\<lambda>_. Inr \<lparr>reason = ''''\<rparr>),
      scanWifi = (\<lambda>_. Inr \<lparr>SSIDs = [homeEntry 40]\<rparr>),
      getWifi = (\<lambda>_ _ smp. Inr \<lparr>SSIDs =
         [homeEntry (case smp of Before \<Rightarrow> 40 | Middle \<Rightarrow> 44 | After \<Rightarrow> 46)]\<rparr>),
      getCancelFlag = (\<lambda>_ _. False),
      execAsync = (\<lambda>_. \<lparr>exec_ticks = [200, 400], exec_settled = Inr ''{}''\<rparr>),
      JSON_parse = (\<lambda>_. Inr newerPayload),
      percentageToRssi = (\<lambda>p. p / 2 - 100),
      toMbps = (\<lambda>_. ''0.00''),
      getDefaultIperfResults =
        \<lparr>tcpDownload = nullResults, tcpUpload = nullResults,
         udpDownload = nullResults, udpUpload = nullResults\<rparr>\<rparr>"

definition bothEnabled :: settings where
  "bothEnabled =
     \<lparr>iperfServerAdrs = ''192.168.1.10:5201'', testDuration = 1,
      iperfTcpEnabled = True, iperfUdpEnabled = True\<rparr>"

text \<open>The same world, but iperf3 cannot be run.\<close>

definition brokenPipe :: world where
  "brokenPipe = quietWorld\<lparr>execAsync :=
     (\<lambda>_. \<lparr>exec_ticks = [], exec_settled = Inl (Error ''Command failed: iperf3'')\<rparr>)\<rparr>"

text \<open>The same world, but the scan finds the network without marking it as associated.\<close>

definition strayWorld :: world where
  "strayWorld = quietWorld\<lparr>scanWifi := (\<lambda>_. Inr \<lparr>SSIDs = [(homeEntry 40)\<lparr>currentSSID := False\<rparr>]\<rparr>)\<rparr>"

text \<open>The same world, but the operator stops the run right after the first signal sample.\<close>

definition stoppedWorld :: world where
  "stoppedWorld = quietWorld\<lparr>getCancelFlag := (\<lambda>_ c. c = AfterBefore)\<rparr>"

text \<open>
  The same world, but the laptop roams to another access point of the network
  during the bandwidth tests: the last sample reports another BSSID.
\<close>

definition roamingWorld :: world where
  "roamingWorld = quietWorld\<lparr>getWifi := (\<lambda>_ _ smp. Inr \<lparr>SSIDs =
     [(homeEntry (case smp of Before \<Rightarrow> 40 | Middle \<Rightarrow> 44 | After \<Rightarrow> 46))
        \<lparr>bssid := (if smp = After then ''11:22:33:44:55:66'' else ''aa:bb:cc:dd:ee:ff'')\<rparr>]\<rparr>)\<rparr>"

text \<open>The same world, but the preflight check finds a setting missing.\<close>

definition refusingWorld :: world where
  "refusingWorld =
     quietWorld\<lparr>preflightSettings := (\<lambda>_. Inr \<lparr>reason = ''Please set iperf server address''\<rparr>)\<rparr>"

text \<open>The same settings, but the iperf3 server is the laptop itself: no bandwidth test is run.\<close>

definition localEnabled :: settings where
  "localEnabled = bothEnabled\<lparr>iperfServerAdrs := ''localhost''\<rparr>"

text \<open>The same settings, but the test duration is negative.\<close>

definition backwardEnabled :: settings where
  "backwardEnabled = bothEnabled\<lparr>testDuration := - 1\<rparr>"

text \<open>
  The same world, but the clock of the laptop is set back while a bandwidth
  test runs: the second tick of the timer reads an earlier time than the first.
\<close>

definition rewindingWorld :: world where
  "rewindingWorld =
     quietWorld\<lparr>execAsync := (\<lambda>_. \<lparr>exec_ticks = [400, 200], exec_settled = Inr ''{}''\<rparr>)\<rparr>"

text \<open>
  The same world, but the clock is set back right after a bandwidth test has
  started: the tick of the timer reads a time before the start.
\<close>

definition resetWorld :: world where
  "resetWorld =
     quietWorld\<lparr>execAsync := (\<lambda>_. \<lparr>exec_ticks = [- 200], exec_settled = Inr ''{}''\<rparr>)\<rparr>"

section \<open>Rounding to binary64\<close>

lemma expo_ge_bounds: "1 \<le> x \<Longrightarrow> 2 ^ expo_ge x \<le> x \<and> x < 2 * 2 ^ expo_ge x"
proof (induction x rule: expo_ge.induct)
  case (1 x)
  show ?case
  proof (cases "x < 2")
    case True
    with 1(2) show ?thesis by (simp add: expo_ge.simps [of x])
  next
    case False
    then have "1 \<le> x / 2" by simp
    from 1(1) [OF False this] False show ?thesis
      by (simp add: expo_ge.simps [of x])
  qed
qed

lemma expo_lt_bounds:
  "0 < x \<Longrightarrow> x < 1 \<Longrightarrow> 1 \<le> x * 2 ^ expo_lt x \<and> x * 2 ^ expo_lt x < 2"
proof (induction x rule: expo_lt.induct)
  case (1 x)
  show ?case
  proof (cases "2 * x < 1")
    case True
    from 1(1) [OF _ _ True] 1(2,3) show ?thesis
      by (simp add: expo_lt.simps [of x] mult_ac)
  next
    case False
    then have "expo_lt (2 * x) = 0" by (simp add: expo_lt.simps [of "2 * x"])
    with False 1(2,3) show ?thesis
      by (simp add: expo_lt.simps [of x])
  qed
qed

lemma binade_bounds:
  assumes "x \<noteq> 0"
  shows "2 powi binade x \<le> \<bar>x\<bar>" and "\<bar>x\<bar> < 2 powi (binade x + 1)"
proof -
  have "2 powi binade x \<le> \<bar>x\<bar> \<and> \<bar>x\<bar> < 2 powi (binade x + 1)"
  proof (cases "1 \<le> \<bar>x\<bar>")
    case True
    have "(2::real) powi (int (expo_ge \<bar>x\<bar>) + 1) = 2 * 2 ^ expo_ge \<bar>x\<bar>"
      by (subst power_int_add) simp_all
    with True expo_ge_bounds [OF True] show ?thesis
      by (simp add: binade_def)
  next
    case False
    with assms have "0 < \<bar>x\<bar>" "\<bar>x\<bar> < 1" by simp_all
    note b = expo_lt_bounds [OF this]
    have p: "(2::real) powi (- int (expo_lt \<bar>x\<bar>)) = 1 / 2 ^ expo_lt \<bar>x\<bar>"
      by (simp add: power_int_minus_divide)
    have "(2::real) powi (- int (expo_lt \<bar>x\<bar>) + 1) = 2 / 2 ^ expo_lt \<bar>x\<bar>"
      by (subst power_int_add) (simp_all add: p)
    then have q: "(2::real) powi (1 - int (expo_lt \<bar>x\<bar>)) = 2 / 2 ^ expo_lt \<bar>x\<bar>"
      by (simp add: add.commute)
    from b False show ?thesis
      by (simp add: binade_def p q field_simps)
  qed
  then show "2 powi binade x \<le> \<bar>x\<bar>" and "\<bar>x\<bar> < 2 powi (binade x + 1)" by simp_all
qed

lemma powi_less_imp: "(2::real) powi a < 2 powi b \<Longrightarrow> a < b"
  using power_int_increasing [of b a "2::real"] by (cases "a < b") simp_all

lemma binade_unique:
  assumes "2 powi k \<le> \<bar>x\<bar>" "\<bar>x\<bar> < 2 powi (k + 1)"
  shows "binade x = k"
proof -
  have "(0::real) < 2 powi k" by simp
  with assms(1) have "0 < \<bar>x\<bar>" by linarith
  then have nz: "x \<noteq> 0" by simp
  note b = binade_bounds [OF nz]
  have "(2::real) powi k < 2 powi (binade x + 1)" using assms(1) b(2) by simp
  then have "k < binade x + 1" by (rule powi_less_imp)
  moreover have "(2::real) powi binade x < 2 powi (k + 1)" using assms(2) b(1) by simp
  then have "binade x < k + 1" by (rule powi_less_imp)
  ultimately show ?thesis by simp
qed

lemma roundTiesToEven_of_int [simp]: "roundTiesToEven (of_int n) = n"
  by (simp add: roundTiesToEven_def)

lemma roundTiesToEven_floor:
  "\<lfloor>x\<rfloor> \<le> roundTiesToEven x" "roundTiesToEven x \<le> \<lfloor>x\<rfloor> + 1"
  by (simp_all add: roundTiesToEven_def Let_def)

lemma roundTiesToEven_mono: "x \<le> y \<Longrightarrow> roundTiesToEven x \<le> roundTiesToEven y"
proof -
  assume le: "x \<le> y"
  then have fl: "\<lfloor>x\<rfloor> \<le> \<lfloor>y\<rfloor>" by (rule floor_mono)
  show ?thesis
  proof (cases "\<lfloor>x\<rfloor> = \<lfloor>y\<rfloor>")
    case True
    with le show ?thesis
      by (auto simp: roundTiesToEven_def Let_def)
  next
    case False
    with fl have "\<lfloor>x\<rfloor> + 1 \<le> \<lfloor>y\<rfloor>" by simp
    with roundTiesToEven_floor(2) [of x] roundTiesToEven_floor(1) [of y] show ?thesis
      by linarith
  qed
qed

lemma ulp_pos [simp]: "0 < ulp x"
  by (simp add: ulp_def)

lemma ulp_nonneg [simp]: "0 \<le> ulp x"
  by (simp add: ulp_def)

lemma ulp_nonzero [simp]: "ulp x \<noteq> 0"
  by (simp add: ulp_def)

lemma ulp_binade: "ulp x * 2 ^ 52 = 2 powi binade x"
proof -
  have "(2::real) powi (binade x - 52) = 2 powi binade x / 2 powi 52"
    by (rule power_int_diff) simp
  then show ?thesis by (simp add: ulp_def)
qed

lemma ulp_abs [simp]: "ulp \<bar>x\<bar> = ulp x" "ulp (- x) = ulp x"
  by (simp_all add: ulp_def binade_def)

lemma significand_bounds:
  assumes "x \<noteq> 0"
  shows "2 ^ 52 \<le> \<bar>x\<bar> / ulp x" and "\<bar>x\<bar> / ulp x < 2 ^ 53"
proof -
  note b = binade_bounds [OF assms]
  have "(2::real) powi (binade x + 1) = 2 powi binade x * 2"
    by (subst power_int_add) simp_all
  with b ulp_binade [of x] have "ulp x * 2 ^ 52 \<le> \<bar>x\<bar>" "\<bar>x\<bar> < ulp x * 2 ^ 53"
    by simp_all
  then show "2 ^ 52 \<le> \<bar>x\<bar> / ulp x" and "\<bar>x\<bar> / ulp x < 2 ^ 53"
    by (simp_all add: field_simps)
qed

lemma binary64_0 [simp]: "binary64 0 = 0"
  by (simp add: binary64_def)

lemma binary64_minus: "binary64 (- x) = - binary64 x"
  by (simp add: binary64_def sgn_minus)

lemma binary64_pos_bounds:
  assumes "0 < x"
  shows "2 powi binade x \<le> binary64 x" and "binary64 x \<le> 2 powi (binade x + 1)"
proof -
  from assms have nz: "x \<noteq> 0" by simp
  note s = significand_bounds [OF nz]
  have "roundTiesToEven (2 ^ 52) \<le> roundTiesToEven (\<bar>x\<bar> / ulp x)"
    by (rule roundTiesToEven_mono) (rule s(1))
  moreover have "roundTiesToEven (2 ^ 52 :: real) = 2 ^ 52"
    using roundTiesToEven_of_int [of "2 ^ 52"] by simp
  ultimately have lo: "(2 ^ 52 :: real) \<le> real_of_int (roundTiesToEven (\<bar>x\<bar> / ulp x))"
    by (metis of_int_le_iff of_int_numeral of_int_power)
  have "roundTiesToEven (\<bar>x\<bar> / ulp x) \<le> roundTiesToEven (2 ^ 53)"
    by (rule roundTiesToEven_mono) (use s(2) in simp)
  moreover have "roundTiesToEven (2 ^ 53 :: real) = 2 ^ 53"
    using roundTiesToEven_of_int [of "2 ^ 53"] by simp
  ultimately have hi: "real_of_int (roundTiesToEven (\<bar>x\<bar> / ulp x)) \<le> (2 ^ 53 :: real)"
    by (metis of_int_le_iff of_int_numeral of_int_power)
  have eq: "binary64 x = ulp x * real_of_int (roundTiesToEven (\<bar>x\<bar> / ulp x))"
    using assms by (simp add: binary64_def)
  have "ulp x * 2 ^ 52 \<le> binary64 x"
    unfolding eq using lo by (intro mult_left_mono) simp_all
  then show "2 powi binade x \<le> binary64 x"
    using ulp_binade [of x] by simp
  have "binary64 x \<le> ulp x * 2 ^ 53"
    unfolding eq using hi by (intro mult_left_mono) simp_all
  moreover have "(2::real) powi (binade x + 1) = 2 powi binade x * 2"
    by (subst power_int_add) simp_all
  ultimately show "binary64 x \<le> 2 powi (binade x + 1)"
    using ulp_binade [of x] by simp
qed

lemma binary64_pos: "0 < x \<Longrightarrow> 0 < binary64 x"
  using binary64_pos_bounds(1) [of x] zero_less_power_int [of "2::real" "binade x"]
  by linarith

lemma binade_mono:
  assumes "0 < x" "x \<le> y"
  shows "binade x \<le> binade y"
proof -
  from assms have nz: "x \<noteq> 0" "y \<noteq> 0" by simp_all
  from binade_bounds(1) [OF nz(1)] binade_bounds(2) [OF nz(2)] assms
  have "(2::real) powi binade x < 2 powi (binade y + 1)" by simp
  from powi_less_imp [OF this] show ?thesis by simp
qed

lemma binary64_mono_pos:
  assumes "0 < x" "x \<le> y"
  shows "binary64 x \<le> binary64 y"
proof (cases "binade x = binade y")
  case True
  then have u: "ulp x = ulp y" by (simp add: ulp_def)
  from assms have "\<bar>x\<bar> / ulp y \<le> \<bar>y\<bar> / ulp y"
    by (simp add: divide_right_mono)
  then have "roundTiesToEven (\<bar>x\<bar> / ulp y) \<le> roundTiesToEven (\<bar>y\<bar> / ulp y)"
    by (rule roundTiesToEven_mono)
  then have "ulp y * real_of_int (roundTiesToEven (\<bar>x\<bar> / ulp y))
      \<le> ulp y * real_of_int (roundTiesToEven (\<bar>y\<bar> / ulp y))"
    by (intro mult_left_mono) simp_all
  with assms u show ?thesis by (simp add: binary64_def)
next
  case False
  with binade_mono [OF assms] have "binade x + 1 \<le> binade y" by simp
  then have "(2::real) powi (binade x + 1) \<le> 2 powi binade y"
    by (rule power_int_increasing) simp
  moreover from assms have "0 < y" by simp
  ultimately show ?thesis
    using binary64_pos_bounds(2) [OF assms(1)] binary64_pos_bounds(1) [of y] by linarith
qed

lemma binary64_mono: "x \<le> y \<Longrightarrow> binary64 x \<le> binary64 y"
proof -
  assume le: "x \<le> y"
  consider "0 < x" | "x \<le> 0" "0 \<le> y" | "y < 0" by linarith
  then show ?thesis
  proof cases
    case 1
    from 1 le show ?thesis by (rule binary64_mono_pos)
  next
    case 2
    have "binary64 x \<le> 0"
    proof (cases "x = 0")
      case False
      with 2 have "0 < - x" by simp
      from binary64_pos [OF this] show ?thesis by (simp add: binary64_minus)
    qed simp
    moreover have "0 \<le> binary64 y"
    proof (cases "y = 0")
      case False
      with 2 have "0 < y" by simp
      from binary64_pos [OF this] show ?thesis by simp
    qed simp
    ultimately show ?thesis by simp
  next
    case 3
    with le have "0 < - y" "- y \<le> - x" by simp_all
    from binary64_mono_pos [OF this] show ?thesis by (simp add: binary64_minus)
  qed
qed

text \<open>A number with a significand of at most 53 bits is a binary64 number.\<close>

lemma binary64_exact:
  assumes "\<bar>m\<bar> < 2 ^ 53"
  shows "binary64 (real_of_int m * 2 powi k) = real_of_int m * 2 powi k"
proof (cases "m = 0")
  case True
  then show ?thesis by simp
next
  case False
  define x where "x = real_of_int m * 2 powi k"
  from False have nz: "x \<noteq> 0" by (simp add: x_def)
  have ax: "\<bar>x\<bar> = real_of_int \<bar>m\<bar> * 2 powi k"
    by (simp add: x_def abs_mult)
  from assms have "real_of_int \<bar>m\<bar> < 2 ^ 53"
    by (metis of_int_less_iff of_int_numeral of_int_power)
  then have "\<bar>x\<bar> < 2 ^ 53 * 2 powi k"
    unfolding ax by (intro mult_strict_right_mono) simp_all
  also have "\<dots> = 2 powi (k + 53)"
    by (subst power_int_add) simp_all
  finally have "(2::real) powi binade x < 2 powi (k + 53)"
    using binade_bounds(1) [OF nz] by simp
  from powi_less_imp [OF this] have n: "0 \<le> k + 52 - binade x" by simp
  have "(2::real) powi k / ulp x = 2 powi (k - (binade x - 52))"
    unfolding ulp_def by (rule power_int_diff [symmetric]) simp
  also have "k - (binade x - 52) = int (nat (k + 52 - binade x))"
    using n by simp
  also have "(2::real) powi int (nat (k + 52 - binade x)) = 2 ^ nat (k + 52 - binade x)"
    by (rule power_int_of_nat)
  finally have e: "(2::real) powi k / ulp x = 2 ^ nat (k + 52 - binade x)" .
  have "\<bar>x\<bar> / ulp x = real_of_int \<bar>m\<bar> * (2 powi k / ulp x)"
    by (simp add: ax)
  then have "\<bar>x\<bar> / ulp x = real_of_int (\<bar>m\<bar> * 2 ^ nat (k + 52 - binade x))"
    by (simp only: e of_int_mult of_int_power of_int_numeral)
  then have "real_of_int (roundTiesToEven (\<bar>x\<bar> / ulp x)) = \<bar>x\<bar> / ulp x"
    by (simp only: roundTiesToEven_of_int)
  then have "binary64 x = sgn x * \<bar>x\<bar>"
    using nz by (simp add: binary64_def)
  then show ?thesis
    by (simp add: x_def [symmetric] sgn_mult_abs [unfolded o_def] mult_sgn_abs)
qed

lemma binary64_of_int: "\<bar>m\<bar> < 2 ^ 53 \<Longrightarrow> binary64 (real_of_int m) = real_of_int m"
  using binary64_exact [of m 0] by simp

lemma binary64_eval:
  assumes "2 powi k \<le> \<bar>x\<bar>" "\<bar>x\<bar> < 2 powi (k + 1)"
  shows "binary64 x =
    sgn x * (2 powi (k - 52) * real_of_int (roundTiesToEven (\<bar>x\<bar> / 2 powi (k - 52))))"
proof -
  have "(0::real) < 2 powi k" by simp
  with assms(1) have "0 < \<bar>x\<bar>" by linarith
  then have "x \<noteq> 0" by simp
  with binade_unique [OF assms] show ?thesis
    by (simp add: binary64_def ulp_def)
qed

lemma binary64_numeral [simp]:
  "numeral n < (2::int) ^ 53 \<Longrightarrow> binary64 (numeral n) = numeral n"
  using binary64_of_int [of "numeral n"] by simp

lemma binary64_neg_numeral [simp]:
  "numeral n < (2::int) ^ 53 \<Longrightarrow> binary64 (- numeral n) = - numeral n"
  by (simp add: binary64_minus)

lemma binary64_1 [simp]: "binary64 1 = 1"
  using binary64_of_int [of 1] by simp

lemma binary64_nonneg: "0 \<le> x \<Longrightarrow> 0 \<le> binary64 x"
  using binary64_mono [of 0 x] by simp

lemma binary64_between:
  assumes "binary64 l = l" "binary64 u = u" "l \<le> x" "x \<le> u"
  shows "l \<le> binary64 x" and "binary64 x \<le> u"
  using binary64_mono [OF assms(3)] binary64_mono [OF assms(4)] assms(1,2) by simp_all

subsection \<open>The operators\<close>

lemma plus64_mono: "x \<le> x' \<Longrightarrow> y \<le> y' \<Longrightarrow> plus64 x y \<le> plus64 x' y'"
  unfolding plus64_def by (intro binary64_mono add_mono)

lemma times64_mono: "x \<le> x' \<Longrightarrow> 0 \<le> c \<Longrightarrow> times64 x c \<le> times64 x' c"
  unfolding times64_def by (intro binary64_mono mult_right_mono)

lemma divide64_mono: "x \<le> x' \<Longrightarrow> 0 \<le> d \<Longrightarrow> divide64 x d \<le> divide64 x' d"
  unfolding divide64_def by (intro binary64_mono divide_right_mono)

lemma times64_pos: "0 < x \<Longrightarrow> 0 < c \<Longrightarrow> 0 < times64 x c"
  unfolding times64_def by (intro binary64_pos mult_pos_pos)

lemma times64_nonneg: "0 \<le> x \<Longrightarrow> 0 \<le> c \<Longrightarrow> 0 \<le> times64 x c"
  unfolding times64_def by (intro binary64_nonneg mult_nonneg_nonneg)

lemma divide64_nonneg: "0 \<le> x \<Longrightarrow> 0 \<le> d \<Longrightarrow> 0 \<le> divide64 x d"
  unfolding divide64_def by (intro binary64_nonneg divide_nonneg_nonneg)

section \<open>Properties of the normaliser\<close>

lemma extractIperfData_no_end:
  "result_end result = None \<Longrightarrow> extractIperfData result isUdp = nullResults"
  by (simp add: extractIperfData_def)

lemma extractIperfData_bitsPerSecond:
  "result_end result = Some e \<Longrightarrow>
   bitsPerSecond (extractIperfData result isUdp) = zeroAsNull (selectedThroughput e isUdp)"
  by (auto simp: extractIperfData_def selectedThroughput_def zeroAsNull_def Let_def)

lemma extractIperfData_retransmits:
  "result_end result = Some e \<Longrightarrow>
   retransmits (extractIperfData result isUdp) = selectedRetransmits e"
  by (simp add: extractIperfData_def selectedRetransmits_def Let_def)

lemma bitsPerSecond_never_zero: "bitsPerSecond (extractIperfData result isUdp) \<noteq> Some 0"
proof (cases "result_end result")
  case None
  then show ?thesis by (simp add: extractIperfData_no_end nullResults_def)
next
  case (Some e)
  then show ?thesis by (simp add: extractIperfData_bitsPerSecond zeroAsNull_def)
qed

lemma withThroughput_end:
  "result_end result = Some e \<Longrightarrow>
   \<exists>e'. result_end (withThroughput v isUdp result) = Some e' \<and>
        selectedThroughput e' isUdp =
          (if end_sum_received e \<noteq> None \<and> \<not> isUdp \<or> end_sum e \<noteq> None then v else None)"
  by (cases "end_sum_received e"; cases "end_sum e"; cases isUdp)
     (simp_all add: withThroughput_def selectedThroughput_def)

section \<open>Running a computation\<close>

lemma ret_apply [simp]: "ret x s = (Inr x, s)"
  by (simp add: ret_def)

lemma throw_apply [simp]: "throw e s = (Inl e, s)"
  by (simp add: throw_def)

lemma lift_apply [simp]: "lift r s = (r, s)"
  by (simp add: lift_def)

lemma assign_apply [simp]: "assign f s = (Inr (), f s)"
  by (simp add: assign_def)

lemma adapter_apply [simp]: "adapter c r s = (r, s\<lparr>trace := trace s @ [Called c]\<rparr>)"
  by (simp add: adapter_def)

lemma setDisplay_apply [simp]:
  "setDisplay f s = (Inr (), s\<lparr>displayStates := f (displayStates s)\<rparr>)"
  by (simp add: setDisplay_def)

lemma bnd_Inr: "m s = (Inr x, s') \<Longrightarrow> bnd m f s = f x s'"
  by (simp add: bnd_def)

lemma bnd_Inl: "m s = (Inl e, s') \<Longrightarrow> bnd m f s = (Inl e, s')"
  by (simp add: bnd_def)

lemma seq_Inr: "m s = (Inr x, s') \<Longrightarrow> seq m k s = k s'"
  by (simp add: seq_def bnd_def)

lemma seq_Inl: "m s = (Inl e, s') \<Longrightarrow> seq m k s = (Inl e, s')"
  by (simp add: seq_def bnd_def)

lemma try_catch_Inr: "m s = (Inr x, s') \<Longrightarrow> try_catch m h s = (Inr x, s')"
  by (simp add: try_catch_def)

lemma try_catch_Inl: "m s = (Inl e, s') \<Longrightarrow> try_catch m h s = h e s'"
  by (simp add: try_catch_def)

lemma checkForCancel_apply:
  "checkForCancel w attempts c s =
     (if getCancelFlag w attempts c then (Inl (Error ''cancelled''), s) else (Inr (), s))"
  by (simp add: checkForCancel_def)

subsection \<open>The events of a trace\<close>

lemma sent_append [simp]: "sent (xs @ ys) = sent xs @ sent ys"
  by (induction xs rule: sent.induct) simp_all

lemma spawned_append [simp]: "spawned (xs @ ys) = spawned xs @ spawned ys"
  by (induction xs rule: spawned.induct) simp_all

section \<open>What a bandwidth test does\<close>

lemma runSingleTest_result:
  "fst (runSingleTest w server duration testDir testType onProgress s) =
     Inr (testOutcome w (iperfCommand server duration testDir testType) (testType = UDP))"
  by (simp add: runSingleTest_def testOutcome_def Let_def seq_def bnd_def try_catch_def
      split: sum.splits prod.splits)

section \<open>Printing an integer and reading it back\<close>

lemma of_char_digitChar: "d < 10 \<Longrightarrow> (of_char (digitChar d) :: nat) = 48 + d"
  by (simp add: digitChar_def)

lemma digitValue_digitChar: "d < 10 \<Longrightarrow> digitValue (digitChar d) = Some d"
  by (simp add: digitValue_def of_char_digitChar)

lemma decimal_digitChar: "d < 10 \<Longrightarrow> decimal (digitChar d)"
  by (auto simp: decimal_def)

lemma decimal_isRadixDigit: "decimal c \<Longrightarrow> isRadixDigit 10 c"
  by (auto simp: decimal_def isRadixDigit_def digitValue_digitChar)

lemma decimal_not_special:
  assumes "decimal c"
  shows "\<not> isWhiteSpace c" "c \<noteq> CHR ''-''" "c \<noteq> CHR ''+''" "c \<noteq> CHR ''x''" "c \<noteq> CHR ''X''"
proof -
  from assms obtain d where d: "d < 10" "c = digitChar d" by (auto simp: decimal_def)
  then have k: "(of_char c :: nat) = 48 + d" by (simp add: of_char_digitChar)
  show "\<not> isWhiteSpace c" using k d by (auto simp: isWhiteSpace_def)
  show "c \<noteq> CHR ''-''" using k d by auto
  show "c \<noteq> CHR ''+''" using k d by auto
  show "c \<noteq> CHR ''x''" using k d by auto
  show "c \<noteq> CHR ''X''" using k d by auto
qed

lemma natToString_decimal: "list_all decimal (natToString n)"
proof (induction n rule: natToString.induct)
  case (1 n)
  show ?case
  proof (cases "n < 10")
    case True
    then show ?thesis by (simp add: natToString.simps [of n] decimal_digitChar)
  next
    case False
    with 1 show ?thesis by (simp add: natToString.simps [of n] decimal_digitChar)
  qed
qed

lemma natToString_not_Nil: "natToString n \<noteq> []"
  by (simp add: natToString.simps [of n])

lemma digitsToNat_snoc:
  "digitsToNat R (ds @ [c]) =
     (case digitValue c of None \<Rightarrow> digitsToNat R ds | Some d \<Rightarrow> digitsToNat R ds * R + d)"
  by (simp add: digitsToNat_def split: option.splits)

lemma digitsToNat_natToString: "digitsToNat 10 (natToString n) = n"
proof (induction n rule: natToString.induct)
  case (1 n)
  show ?case
  proof (cases "n < 10")
    case True
    then show ?thesis
      by (simp add: natToString.simps [of n] digitsToNat_def digitValue_digitChar)
  next
    case False
    with 1 show ?thesis
      by (simp add: natToString.simps [of n] digitsToNat_snoc digitValue_digitChar)
  qed
qed

lemma takeWhile_all: "list_all P xs \<Longrightarrow> takeWhile P xs = xs"
  by (induction xs) simp_all

lemma parseInt_decimals:
  assumes "list_all decimal ds" "ds \<noteq> []"
  shows "parseInt ds = Some (int (digitsToNat 10 ds))"
    and "parseInt (CHR 0x2D # ds) = Some (- int (digitsToNat 10 ds))"
proof -
  from assms obtain c cs where ds: "ds = c # cs" by (cases ds) auto
  with assms have c: "decimal c" and cs: "list_all decimal cs" by simp_all
  have nohex: "take 2 ds \<noteq> ''0x''" "take 2 ds \<noteq> ''0X''"
  proof -
    show "take 2 ds \<noteq> ''0x''"
    proof (cases cs)
      case Nil
      then show ?thesis by (simp add: ds)
    next
      case (Cons c' cs')
      with cs have "decimal c'" by simp
      then have "c' \<noteq> CHR ''x''" by (rule decimal_not_special)
      with Cons show ?thesis by (simp add: ds)
    qed
    show "take 2 ds \<noteq> ''0X''"
    proof (cases cs)
      case Nil
      then show ?thesis by (simp add: ds)
    next
      case (Cons c' cs')
      with cs have "decimal c'" by simp
      then have "c' \<noteq> CHR ''X''" by (rule decimal_not_special)
      with Cons show ?thesis by (simp add: ds)
    qed
  qed
  have tw: "takeWhile (isRadixDigit 10) ds = ds"
    using assms(1) by (intro takeWhile_all) (auto simp: list_all_iff decimal_isRadixDigit)
  have dw: "dropWhile isWhiteSpace ds = ds"
    using c decimal_not_special(1) by (simp add: ds)
  have sign:
    "(case ds of
        [] \<Rightarrow> (1 :: int, ds)
      | c # cs \<Rightarrow>
          if c = CHR 0x2D then (- 1, cs) else if c = CHR 0x2B then (1, cs) else (1, ds))
     = (1, ds)"
    using decimal_not_special(2,3) [OF c] by (simp add: ds)
  show "parseInt ds = Some (int (digitsToNat 10 ds))"
    by (simp add: parseInt_def Let_def dw sign nohex tw assms(2))
  have nw: "\<not> isWhiteSpace (CHR 0x2D)"
    by (simp add: isWhiteSpace_def)
  show "parseInt (CHR 0x2D # ds) = Some (- int (digitsToNat 10 ds))"
    by (simp add: parseInt_def Let_def nw nohex tw assms(2))
qed

lemma parseInt_toString: "parseInt (Number_toString n) = Some n"
proof (cases "n < 0")
  case True
  then show ?thesis
    by (simp add: Number_toString_def
        parseInt_decimals(2) [OF natToString_decimal natToString_not_Nil]
        digitsToNat_natToString)
next
  case False
  then show ?thesis
    by (simp add: Number_toString_def
        parseInt_decimals(1) [OF natToString_decimal natToString_not_Nil]
        digitsToNat_natToString)
qed

lemma createProgressCallback_apply:
  "createProgressCallback perTest percent s =
     s\<lparr>displayStates :=
          (displayStates s)\<lparr>progress := unitProgress perTest (completedTests s) percent\<rparr>,
       trace := trace s @ [progressEvent perTest s percent]\<rparr>"
  by (simp add: createProgressCallback_def publish_def sendSSEMessage_def unitProgress_def
      progressEvent_def Let_def)

lemma ticks_fold:
  "foldl (\<lambda>s' elapsed. createProgressCallback perTest (f elapsed) s') s ticks =
     (if ticks = [] then s
      else s\<lparr>displayStates :=
               (displayStates s)\<lparr>progress :=
                  unitProgress perTest (completedTests s) (f (last ticks))\<rparr>,
             trace := trace s @ map (\<lambda>elapsed. progressEvent perTest s (f elapsed)) ticks\<rparr>)"
proof (induction ticks rule: rev_induct)
  case Nil
  show ?case by simp
next
  case (snoc x xs)
  show ?case
  proof (cases "xs = []")
    case True
    then show ?thesis by (simp add: createProgressCallback_apply)
  next
    case False
    with snoc show ?thesis
      by (simp add: createProgressCallback_apply progressEvent_def)
  qed
qed

lemma cmd_duration_iperfCommand [simp]:
  "cmd_duration (iperfCommand server duration testDir testType) = duration"
  by (simp add: iperfCommand_def Let_def split: prod.splits)

lemma runSingleTest_state:
  "snd (runSingleTest w server duration testDir testType
          (Some (createProgressCallback perTest)) s) =
     s\<lparr>displayStates :=
          (displayStates s)\<lparr>progress := unitProgress perTest (completedTests s) 100\<rparr>,
       trace := trace s @
          testEvents w (iperfCommand server duration testDir testType) perTest s\<rparr>"
proof -
  let ?c = "iperfCommand server duration testDir testType"
  let ?s1 = "s\<lparr>trace := trace s @ [Spawned ?c]\<rparr>"
  have fold:
    "foldl (\<lambda>s' elapsed. createProgressCallback perTest (tickPercent (times64 duration 1000) elapsed) s')
        ?s1 (exec_ticks (execAsync w ?c)) =
      (if exec_ticks (execAsync w ?c) = [] then ?s1
       else ?s1\<lparr>displayStates :=
               (displayStates ?s1)\<lparr>progress :=
                  unitProgress perTest (completedTests ?s1)
                    (tickPercent (times64 duration 1000) (last (exec_ticks (execAsync w ?c))))\<rparr>,
             trace := trace ?s1 @ map (\<lambda>elapsed. progressEvent perTest ?s1
                 (tickPercent (times64 duration 1000) elapsed)) (exec_ticks (execAsync w ?c))\<rparr>)"
    by (rule ticks_fold)
  have "snd (runSingleTest w server duration testDir testType
          (Some (createProgressCallback perTest)) s) =
        createProgressCallback perTest 100
          (foldl (\<lambda>s' elapsed. createProgressCallback perTest
                     (tickPercent (times64 duration 1000) elapsed) s')
             ?s1 (exec_ticks (execAsync w ?c)))"
    by (simp add: runSingleTest_def Let_def seq_def bnd_def try_catch_def
        split: sum.splits prod.splits)
  also have "\<dots> = s\<lparr>displayStates :=
          (displayStates s)\<lparr>progress := unitProgress perTest (completedTests s) 100\<rparr>,
       trace := trace s @ testEvents w ?c perTest s\<rparr>"
    unfolding fold
    by (simp add: createProgressCallback_apply testEvents_def progressEvent_def)
  finally show ?thesis .
qed

lemma runSingleTest_apply:
  "runSingleTest w server duration testDir testType (Some (createProgressCallback perTest)) s =
     (Inr (testOutcome w (iperfCommand server duration testDir testType) (testType = UDP)),
      s\<lparr>displayStates :=
          (displayStates s)\<lparr>progress := unitProgress perTest (completedTests s) 100\<rparr>,
        trace := trace s @
          testEvents w (iperfCommand server duration testDir testType) perTest s\<rparr>)"
  using runSingleTest_result [of w server duration testDir testType
      "Some (createProgressCallback perTest)" s]
    runSingleTest_state [of w server duration testDir testType perTest s]
  by (metis prod.collapse)

lemma publish_apply:
  "publish s = s\<lparr>trace := trace s @ [Sent (getUpdatedMessage (displayStates s))]\<rparr>"
  by (simp add: publish_def sendSSEMessage_def)

section \<open>The two test phases never throw\<close>

lemma tcpTests_apply:
  "tcpTests w server duration perTest tcpEn noIperfTestReason s =
     (Inr (), tcpEffect w server duration perTest tcpEn noIperfTestReason s)"
  by (simp add: tcpTests_def tcpEffect_def seq_def bnd_def runSingleTest_apply)

lemma udpTests_apply:
  "udpTests w server duration perTest udpEn noIperfTestReason s =
     (Inr (), udpEffect w server duration perTest udpEn noIperfTestReason s)"
  by (simp add: udpTests_def udpEffect_def seq_def bnd_def runSingleTest_apply)

lemma tcpEffect_frame [simp]:
  "wifiStrengths (tcpEffect w server duration perTest tcpEn r s) = wifiStrengths s"
  "newWifiData (tcpEffect w server duration perTest tcpEn r s) = newWifiData s"
  "type (displayStates (tcpEffect w server duration perTest tcpEn r s)) = type (displayStates s)"
  "tcpEnabled (displayStates (tcpEffect w server duration perTest tcpEn r s))
     = tcpEnabled (displayStates s)"
  "udpEnabled (displayStates (tcpEffect w server duration perTest tcpEn r s))
     = udpEnabled (displayStates s)"
  by (simp_all add: tcpTests_def tcpEffect_def seq_def bnd_def runSingleTest_apply publish_apply)

lemma udpEffect_frame [simp]:
  "wifiStrengths (udpEffect w server duration perTest udpEn r s) = wifiStrengths s"
  "newWifiData (udpEffect w server duration perTest udpEn r s) = newWifiData s"
  "type (displayStates (udpEffect w server duration perTest udpEn r s)) = type (displayStates s)"
  "tcpEnabled (displayStates (udpEffect w server duration perTest udpEn r s))
     = tcpEnabled (displayStates s)"
  "udpEnabled (displayStates (udpEffect w server duration perTest udpEn r s))
     = udpEnabled (displayStates s)"
  by (simp_all add: udpTests_def udpEffect_def seq_def bnd_def runSingleTest_apply publish_apply)

lemma attemptLoop_once:
  "attemptLoop w settings p r n 0 s =
     (case attempt w settings p r n 1 s of
        (Inl error, s') \<Rightarrow>
          if message error = ''cancelled''
          then (Inr (Some \<lparr>iperfData = None, wifiData = None,
                           status = ''test was cancelled''\<rparr>), s')
          else (Inr None, s')
      | (Inr _, s') \<Rightarrow> (Inr None, s'))"
  by (simp add: attemptLoop.simps [of _ _ _ _ _ 0] attemptLoop.simps [of _ _ _ _ _ "Suc 0"]
      maxRetries_def split: prod.splits sum.splits)

lemma run_admitted:
  assumes "admitted w settings" "associated w settings = Some cur"
  shows "run w settings ds =
           afterAttempt (attempt w settings (performIperfTestOf w settings)
             (noIperfTestReasonOf w settings) (ssid cur) 1 (loopState w settings ds))"
proof -
  from assms(1) obtain pre where pre: "preflightSettings w settings = Inr pre" "reason pre = ''''"
    by (auto simp: admitted_def split: sum.splits)
  from assms(2) obtain ssids rest where
    scan: "scanWifi w settings = Inr ssids" "filter currentSSID (SSIDs ssids) = cur # rest"
    by (auto simp: associated_def split: sum.splits list.splits)
  show ?thesis
  proof (cases "iperfServerAdrs settings = ''localhost''")
    case True
    then show ?thesis
      using pre scan
      by (simp add: run_def runSurveyTests_def bnd_def seq_def try_catch_def survey_def
          first_def publish_apply attemptLoop_once afterAttempt_def loopState_def
          firstDisplay_def performIperfTestOf_def noIperfTestReasonOf_def startState_def
          split: prod.splits sum.splits)
  next
    case False
    with assms(1) obtain resp where resp: "checkIperfServer w settings = Inr resp"
      by (auto simp: admitted_def split: sum.splits)
    show ?thesis
      using pre scan False resp
      by (simp add: run_def runSurveyTests_def bnd_def seq_def try_catch_def survey_def
          first_def publish_apply attemptLoop_once afterAttempt_def loopState_def
          firstDisplay_def performIperfTestOf_def noIperfTestReasonOf_def startState_def
          split: prod.splits sum.splits)
  qed
qed

section \<open>Assertions about computations\<close>

lemma tripleI:
  "(\<And>s. P s \<Longrightarrow> (case m s of (Inl e, s') \<Rightarrow> E e s' | (Inr x, s') \<Rightarrow> Q x s')) \<Longrightarrow> triple P m Q E"
  by (simp add: triple_def)

lemma triple_bnd:
  "triple P m R E \<Longrightarrow> (\<And>x. triple (R x) (f x) Q E) \<Longrightarrow> triple P (bnd m f) Q E"
  by (fastforce simp: triple_def bnd_def split: prod.splits sum.splits)

lemma triple_seq:
  "triple P m (\<lambda>_. R) E \<Longrightarrow> triple R k Q E \<Longrightarrow> triple P (seq m k) Q E"
  unfolding seq_def by (rule triple_bnd)

lemma triple_pure:
  "(A \<Longrightarrow> triple P m Q E) \<Longrightarrow> triple (\<lambda>s. A \<and> P s) m Q E"
  by (simp add: triple_def)

lemma triple_weaken:
  "triple P' m Q' E' \<Longrightarrow> (\<And>s. P s \<Longrightarrow> P' s) \<Longrightarrow> (\<And>x s. Q' x s \<Longrightarrow> Q x s) \<Longrightarrow>
   (\<And>e s. E' e s \<Longrightarrow> E e s) \<Longrightarrow> triple P m Q E"
  by (fastforce simp: triple_def split: prod.splits sum.splits)

lemma triple_assign:
  "(\<And>s. P s \<Longrightarrow> Q () (f s)) \<Longrightarrow> triple P (assign f) Q E"
  by (simp add: triple_def)

lemma triple_setDisplay:
  "(\<And>s. P s \<Longrightarrow> Q () (s\<lparr>displayStates := f (displayStates s)\<rparr>)) \<Longrightarrow>
   triple P (setDisplay f) Q E"
  by (simp add: triple_def)

lemma triple_ret: "(\<And>s. P s \<Longrightarrow> Q x s) \<Longrightarrow> triple P (ret x) Q E"
  by (simp add: triple_def)

lemma triple_checkForCancel:
  "(\<And>s. P s \<Longrightarrow> getCancelFlag w n c \<Longrightarrow> E (Error ''cancelled'') s) \<Longrightarrow>
   triple P (checkForCancel w n c) (\<lambda>_ s. \<not> getCancelFlag w n c \<and> P s) E"
  by (simp add: triple_def checkForCancel_def)

subsection \<open>Progress values\<close>

lemma getUpdatedMessage_fields [simp]:
  "msg_type (getUpdatedMessage d) = type d"
  "msg_header (getUpdatedMessage d) = header d"
  "msg_progress (getUpdatedMessage d) = Some (progress d)"
  "msg_tcpEnabled (getUpdatedMessage d) = Some (tcpEnabled d)"
  "msg_udpEnabled (getUpdatedMessage d) = Some (udpEnabled d)"
  by (simp_all add: getUpdatedMessage_def Let_def)

lemma progressValues_append [simp]:
  "progressValues (xs @ ys) = progressValues xs @ progressValues ys"
  by (induction xs) (simp_all split: option.splits)

lemma progs_append [simp]: "progs (xs @ ys) = progs xs @ progs ys"
  by (simp add: progs_def)

lemma progs_simps [simp]:
  "progs [] = []"
  "progs (Called c # es) = progs es"
  "progs (Spawned k # es) = progs es"
  "progs (Sent (getUpdatedMessage d) # es) = progress d # progs es"
  by (simp_all add: progs_def)

section \<open>The arithmetic of the progress\<close>

lemma Math_round_mono: "x \<le> y \<Longrightarrow> Math_round x \<le> Math_round y"
  by (simp add: Math_round_def floor_mono)

lemma unitProgress_mono:
  "0 \<le> perTest \<Longrightarrow> p \<le> q \<Longrightarrow> unitProgress perTest k p \<le> unitProgress perTest k q"
  unfolding unitProgress_def
  by (intro Math_round_mono plus64_mono times64_mono divide64_mono) simp_all

text \<open>
  With a share of 25 or 50 and at most four units the progress at the two ends
  of a unit is computed without rounding.
\<close>

lemma unitProgress_ends:
  assumes "perTest = 25 \<or> perTest = 50" "k \<le> 4"
  shows "unitProgress perTest k 0 = Math_round (real k * perTest)"
    and "unitProgress perTest k 100 = Math_round (real (Suc k) * perTest)"
proof -
  from assms(2) consider "k = 0" | "k = 1" | "k = 2" | "k = 3" | "k = 4"
    by linarith
  then have "unitProgress perTest k 0 = Math_round (real k * perTest) \<and>
      unitProgress perTest k 100 = Math_round (real (Suc k) * perTest)"
    using assms(1)
    by cases (auto simp: unitProgress_def plus64_def times64_def divide64_def)
  then show "unitProgress perTest k 0 = Math_round (real k * perTest)"
    and "unitProgress perTest k 100 = Math_round (real (Suc k) * perTest)"
    by simp_all
qed

lemmas unitProgress_0 = unitProgress_ends(1)

lemmas unitProgress_100 = unitProgress_ends(2)

lemma tickPercent_le: "tickPercent d e \<le> 100"
  by (simp add: tickPercent_def min.coboundedI2)

lemma tickPercent_nonneg: "0 < d \<Longrightarrow> 0 \<le> e \<Longrightarrow> 0 \<le> tickPercent d e"
proof -
  assume "0 < d" "0 \<le> e"
  then have "0 \<le> times64 (divide64 e d) 100"
    by (intro times64_nonneg divide64_nonneg) simp_all
  with \<open>0 < d\<close> show ?thesis
    by (simp add: tickPercent_def Math_round_def)
qed

lemma tickPercent_mono: "0 < d \<Longrightarrow> e \<le> e' \<Longrightarrow> tickPercent d e \<le> tickPercent d e'"
proof -
  assume "0 < d" "e \<le> e'"
  then have "times64 (divide64 e d) 100 \<le> times64 (divide64 e' d) 100"
    by (intro times64_mono divide64_mono) simp_all
  then have "Math_round (times64 (divide64 e d) 100) \<le> Math_round (times64 (divide64 e' d) 100)"
    by (rule Math_round_mono)
  with \<open>0 < d\<close> show ?thesis
    by (simp add: tickPercent_def min.coboundedI1)
qed

text \<open>The share of a unit is computed without rounding: it is 50 or 25.\<close>

lemma progressPerTest_share:
  "tcpEn \<or> udpEn \<Longrightarrow> progressPerTest tcpEn udpEn = 25 \<or> progressPerTest tcpEn udpEn = 50"
  by (auto simp: progressPerTest_def totalTests_def divide64_def)

lemma progressPerTest_value:
  "progressPerTest tcpEn udpEn =
     (if tcpEn \<and> udpEn then 25 else if tcpEn \<or> udpEn then 50 else 0)"
  by (auto simp: progressPerTest_def totalTests_def divide64_def)

lemma progressPerTest_nonneg: "0 \<le> progressPerTest tcpEn udpEn"
  by (simp add: progressPerTest_value)

lemma progressPerTest_pos: "tcpEn \<or> udpEn \<Longrightarrow> 0 < progressPerTest tcpEn udpEn"
  by (auto simp: progressPerTest_value)

lemma progressPerTest_total:
  "real (totalTests tcpEn udpEn) * progressPerTest tcpEn udpEn =
     (if tcpEn \<or> udpEn then 100 else 0)"
  by (simp add: progressPerTest_value totalTests_def)

section \<open>The messages of one bandwidth test\<close>

lemma sent_map_progressEvent:
  "sent (map (\<lambda>e. progressEvent perTest s (f e)) ticks)
     = map (\<lambda>e. getUpdatedMessage
         ((displayStates s)\<lparr>progress := unitProgress perTest (completedTests s) (f e)\<rparr>)) ticks"
  by (induction ticks) (simp_all add: progressEvent_def)

lemma sent_testEvents:
  "list_all (\<lambda>m. msg_type m = type (displayStates s)) (sent (testEvents w c perTest s))"
  by (simp add: testEvents_def sent_map_progressEvent list_all_iff)
    (simp add: progressEvent_def)

lemma progs_map_progressEvent:
  "progs (map (\<lambda>e. progressEvent perTest s (f e)) ticks)
     = map (\<lambda>e. unitProgress perTest (completedTests s) (f e)) ticks"
  by (induction ticks) (simp_all add: progressEvent_def)

lemma progs_testEvents:
  "progs (testEvents w c perTest s) =
     map (\<lambda>e. unitProgress perTest (completedTests s)
                (tickPercent (times64 (cmd_duration c) 1000) e))
       (exec_ticks (execAsync w c))
     @ [unitProgress perTest (completedTests s) 100]"
  by (simp add: testEvents_def progs_map_progressEvent) (simp add: progressEvent_def)

lemma sorted_map_mono:
  "sorted xs \<Longrightarrow> (\<And>x y. x \<in> set xs \<Longrightarrow> y \<in> set xs \<Longrightarrow> x \<le> y \<Longrightarrow> f x \<le> f y) \<Longrightarrow>
   sorted (map f xs)"
  by (induction xs) auto

lemma progs_testEvents_sorted:
  assumes "perTest = 25 \<or> perTest = 50" "orderlyTicks (cmd_duration c) (exec_ticks (execAsync w c))"
    and "completedTests s \<le> 4"
  shows "sorted (progs (testEvents w c perTest s))"
    and "list_all (\<lambda>p. Math_round (real (completedTests s) * perTest) \<le> p \<and>
                      p \<le> Math_round (real (Suc (completedTests s)) * perTest))
           (progs (testEvents w c perTest s))"
proof -
  let ?k = "completedTests s"
  let ?d = "times64 (cmd_duration c) 1000"
  let ?ticks = "exec_ticks (execAsync w c)"
  note ends = unitProgress_ends [OF assms(1,3)]
  from assms(1) have pt: "0 \<le> perTest" by auto
  from assms(2) have "0 < cmd_duration c" and srt: "sorted ?ticks"
    and nn: "\<And>t. t \<in> set ?ticks \<Longrightarrow> 0 \<le> t"
    by (auto simp: orderlyTicks_def list_all_iff)
  then have d: "0 < ?d" by (simp add: times64_pos)
  have up: "unitProgress perTest ?k (tickPercent ?d e) \<le> unitProgress perTest ?k 100" for e
    by (rule unitProgress_mono [OF pt tickPercent_le])
  have lo: "Math_round (real ?k * perTest) \<le> unitProgress perTest ?k (tickPercent ?d e)"
    if "e \<in> set ?ticks" for e
    using unitProgress_mono [OF pt tickPercent_nonneg [OF d nn [OF that]], of ?k]
    by (simp add: ends(1))
  have lo100: "Math_round (real ?k * perTest) \<le> unitProgress perTest ?k 100"
    using unitProgress_mono [OF pt, of 0 100 ?k] by (simp add: ends(1))
  have "sorted (map (\<lambda>e. unitProgress perTest ?k (tickPercent ?d e)) ?ticks)"
    by (rule sorted_map_mono [OF srt]) (simp add: unitProgress_mono [OF pt] tickPercent_mono [OF d])
  then show "sorted (progs (testEvents w c perTest s))"
    by (simp add: progs_testEvents sorted_append up)
  show "list_all (\<lambda>p. Math_round (real ?k * perTest) \<le> p \<and>
                      p \<le> Math_round (real (Suc ?k) * perTest))
           (progs (testEvents w c perTest s))"
    using up lo lo100
    by (simp add: progs_testEvents list_all_iff ends(2))
qed

lemma runSingleTest_stage:
  assumes "perTest = 25 \<or> perTest = 50"
    and "st \<longrightarrow> orderlyTicks duration
           (exec_ticks (execAsync w (iperfCommand server duration testDir testType)))"
    and "k \<le> 3"
  shows "triple (stage st perTest k k xs)
           (runSingleTest w server duration testDir testType
              (Some (createProgressCallback perTest)))
           (\<lambda>r. stage st perTest k (Suc k) xs) E"
proof (rule tripleI)
  fix s
  assume pre: "stage st perTest k k xs s"
  let ?c = "iperfCommand server duration testDir testType"
  let ?s' = "s\<lparr>displayStates :=
          (displayStates s)\<lparr>progress := unitProgress perTest (completedTests s) 100\<rparr>,
        trace := trace s @ testEvents w ?c perTest s\<rparr>"
  from pre have k: "completedTests s = k" and ty: "type (displayStates s) = ''update''"
    by (simp_all add: stage_def)
  from assms(1) have pos: "0 < perTest" by auto
  from assms(3) k have k4: "completedTests s \<le> 4" by simp
  from assms(3) have "k \<le> 4" by simp
  note ends = unitProgress_ends [OF assms(1) this]
  have "stage st perTest k (Suc k) xs ?s'"
    unfolding stage_def
  proof (intro conjI impI)
    show "list_all (\<lambda>m. msg_type m = ''update'') (sent (trace ?s'))"
      using pre sent_testEvents [of s w ?c perTest] by (simp add: stage_def ty)
    assume st
    with assms(2) have ot: "orderlyTicks (cmd_duration ?c) (exec_ticks (execAsync w ?c))"
      by simp
    from pos have nn: "0 \<le> perTest" by simp
    note t1 = progs_testEvents_sorted(1) [OF assms(1) ot k4]
    note t2 = progs_testEvents_sorted(2) [OF assms(1) ot k4]
    from pre \<open>st\<close> have old: "sorted (progs (trace s))"
      "list_all (\<lambda>p. p \<le> progress (displayStates s)) (progs (trace s))"
      "progress (displayStates s) \<le> Math_round (real k * perTest)"
      by (simp_all add: stage_def)
    show "sorted (progs (trace ?s'))"
      using t1 t2 old by (fastforce simp: sorted_append list_all_iff k)
    have step: "Math_round (real k * perTest) \<le> Math_round (real (Suc k) * perTest)"
      using nn by (intro Math_round_mono mult_right_mono) simp_all
    show "list_all (\<lambda>p. p \<le> progress (displayStates ?s')) (progs (trace ?s'))"
      using t2 old step by (fastforce simp: list_all_iff k ends(2))
    show "progress (displayStates ?s') \<le> Math_round (real (Suc k) * perTest)"
      using ends(2) by (simp add: k)
  qed (use pre pos in \<open>simp_all add: stage_def\<close>)
  then show "case runSingleTest w server duration testDir testType
                (Some (createProgressCallback perTest)) s of
               (Inl e, s') \<Rightarrow> E e s' | (Inr r, s') \<Rightarrow> stage st perTest k (Suc k) xs s'"
    by (simp add: runSingleTest_apply)
qed

section \<open>The stages of an attempt\<close>

lemma stage_publish: "stage st perTest k j xs s \<Longrightarrow> stage st perTest k j xs (publish s)"
  by (auto simp: stage_def publish_apply sorted_append list_all_iff)

lemma stage_display [simp]:
  "stage st perTest k j xs (s\<lparr>displayStates := (displayStates s)\<lparr>tcp := v\<rparr>\<rparr>)
     = stage st perTest k j xs s"
  "stage st perTest k j xs (s\<lparr>displayStates := (displayStates s)\<lparr>udp := v\<rparr>\<rparr>)
     = stage st perTest k j xs s"
  "stage st perTest k j xs (s\<lparr>displayStates := (displayStates s)\<lparr>header := v\<rparr>\<rparr>)
     = stage st perTest k j xs s"
  "stage st perTest k j xs (s\<lparr>displayStates := (displayStates s)\<lparr>strength := v\<rparr>\<rparr>)
     = stage st perTest k j xs s"
  "stage st perTest k j xs (s\<lparr>newIperfData := i\<rparr>) = stage st perTest k j xs s"
  by (simp_all add: stage_def)

lemma stage_completed:
  "stage st perTest k (Suc k) xs s \<Longrightarrow>
   stage st perTest (Suc k) (Suc k) xs (s\<lparr>completedTests := Suc (completedTests s)\<rparr>)"
  by (simp add: stage_def)

lemma tcpTests_stage:
  assumes "tcpEn \<longrightarrow> perTest = 25 \<or> perTest = 50"
    and "st \<and> tcpEn \<longrightarrow>
           orderlyTicks duration (exec_ticks (execAsync w (iperfCommand server duration Down TCP))) \<and>
           orderlyTicks duration (exec_ticks (execAsync w (iperfCommand server duration Up TCP)))"
    and "k \<le> 2"
  shows "triple (stage st perTest k k xs)
           (tcpTests w server duration perTest tcpEn r)
           (\<lambda>_. stage st perTest (if tcpEn then k + 2 else k) (if tcpEn then k + 2 else k) xs) E"
proof (cases tcpEn)
  case False
  then show ?thesis
    by (simp add: tcpTests_def triple_def)
next
  case True
  with assms have pos: "perTest = 25 \<or> perTest = 50"
    and t1: "st \<longrightarrow> orderlyTicks duration
               (exec_ticks (execAsync w (iperfCommand server duration Down TCP)))"
    and t2: "st \<longrightarrow> orderlyTicks duration
               (exec_ticks (execAsync w (iperfCommand server duration Up TCP)))"
    and k1: "k \<le> 3" and k2: "Suc k \<le> 3"
    by simp_all
  show ?thesis
    unfolding tcpTests_def using True
    apply simp
    apply (rule triple_seq [where R = "stage st perTest k k xs"])
     apply (rule triple_setDisplay, simp)
    apply (rule triple_bnd [where R = "\<lambda>_. stage st perTest k (Suc k) xs"])
     apply (rule runSingleTest_stage [OF pos t1 k1])
    apply (rule triple_seq [where R = "stage st perTest k (Suc k) xs"])
     apply (rule triple_assign, simp)
    apply (rule triple_seq [where R = "stage st perTest (Suc k) (Suc k) xs"])
     apply (rule triple_assign, simp add: stage_completed)
    apply (rule triple_seq [where R = "stage st perTest (Suc k) (Suc k) xs"])
     apply (rule triple_assign, simp)
    apply (rule triple_seq [where R = "stage st perTest (Suc k) (Suc k) xs"])
     apply (rule triple_assign, simp add: stage_publish)
    apply (rule triple_bnd [where R = "\<lambda>_. stage st perTest (Suc k) (Suc (Suc k)) xs"])
     apply (rule runSingleTest_stage [OF pos t2 k2])
    apply (rule triple_seq [where R = "stage st perTest (Suc k) (Suc (Suc k)) xs"])
     apply (rule triple_assign, simp)
    apply (rule triple_seq [where R = "stage st perTest (Suc (Suc k)) (Suc (Suc k)) xs"])
     apply (rule triple_assign, simp add: stage_completed)
    apply (rule triple_assign, simp)
    done
qed

lemma udpTests_stage:
  assumes "udpEn \<longrightarrow> perTest = 25 \<or> perTest = 50"
    and "st \<and> udpEn \<longrightarrow>
           orderlyTicks duration (exec_ticks (execAsync w (iperfCommand server duration Down UDP))) \<and>
           orderlyTicks duration (exec_ticks (execAsync w (iperfCommand server duration Up UDP)))"
    and "k \<le> 2"
  shows "triple (stage st perTest k k xs)
           (udpTests w server duration perTest udpEn r)
           (\<lambda>_. stage st perTest (if udpEn then k + 2 else k) (if udpEn then k + 2 else k) xs) E"
proof (cases udpEn)
  case False
  then show ?thesis
    by (simp add: udpTests_def triple_def)
next
  case True
  with assms have pos: "perTest = 25 \<or> perTest = 50"
    and t1: "st \<longrightarrow> orderlyTicks duration
               (exec_ticks (execAsync w (iperfCommand server duration Down UDP)))"
    and t2: "st \<longrightarrow> orderlyTicks duration
               (exec_ticks (execAsync w (iperfCommand server duration Up UDP)))"
    and k1: "k \<le> 3" and k2: "Suc k \<le> 3"
    by simp_all
  show ?thesis
    unfolding udpTests_def using True
    apply simp
    apply (rule triple_seq [where R = "stage st perTest k k xs"])
     apply (rule triple_setDisplay, simp)
    apply (rule triple_bnd [where R = "\<lambda>_. stage st perTest k (Suc k) xs"])
     apply (rule runSingleTest_stage [OF pos t1 k1])
    apply (rule triple_seq [where R = "stage st perTest k (Suc k) xs"])
     apply (rule triple_assign, simp)
    apply (rule triple_seq [where R = "stage st perTest (Suc k) (Suc k) xs"])
     apply (rule triple_assign, simp add: stage_completed)
    apply (rule triple_seq [where R = "stage st perTest (Suc k) (Suc k) xs"])
     apply (rule triple_assign, simp)
    apply (rule triple_seq [where R = "stage st perTest (Suc k) (Suc k) xs"])
     apply (rule triple_assign, simp add: stage_publish)
    apply (rule triple_bnd [where R = "\<lambda>_. stage st perTest (Suc k) (Suc (Suc k)) xs"])
     apply (rule runSingleTest_stage [OF pos t2 k2])
    apply (rule triple_seq [where R = "stage st perTest (Suc k) (Suc (Suc k)) xs"])
     apply (rule triple_assign, simp)
    apply (rule triple_seq [where R = "stage st perTest (Suc (Suc k)) (Suc (Suc k)) xs"])
     apply (rule triple_assign, simp add: stage_completed)
    apply (rule triple_assign, simp)
    done
qed

lemma sampleSignal_ok:
  assumes "sampled w settings n smp = Some e" "\<not> getCancelFlag w n c"
  shows "sampleSignal w settings n smp c s =
           (Inr e,
            s\<lparr>trace := trace s @ [Called GetWifi],
              wifiStrengths := wifiStrengths s @ [signalStrength e],
              displayStates := (displayStates s)\<lparr>strength :=
                Number_toString (arrayAverage (wifiStrengths s @ [signalStrength e]))\<rparr>\<rparr>)"
  using assms
  by (auto simp: sampled_def sampleSignal_def bnd_def seq_def first_def checkForCancel_def
      split: sum.splits list.splits)

lemma sampleSignal_cancelled:
  assumes "sampled w settings n smp = Some e" "getCancelFlag w n c"
  shows "sampleSignal w settings n smp c s =
           (Inl (Error ''cancelled''),
            s\<lparr>trace := trace s @ [Called GetWifi],
              wifiStrengths := wifiStrengths s @ [signalStrength e],
              displayStates := (displayStates s)\<lparr>strength :=
                Number_toString (arrayAverage (wifiStrengths s @ [signalStrength e]))\<rparr>\<rparr>)"
  using assms
  by (auto simp: sampled_def sampleSignal_def bnd_def seq_def first_def checkForCancel_def
      split: sum.splits list.splits)

lemma stage_aborted: "stage st perTest k j xs s \<Longrightarrow> aborted st perTest s"
  by (auto simp: stage_def aborted_def list_all_iff)

lemma topped_aborted: "topped st perTest xs s \<Longrightarrow> aborted st perTest s"
  by (auto simp: topped_def aborted_def list_all_iff)

lemma aborted_called:
  "aborted st perTest s \<Longrightarrow> aborted st perTest (s\<lparr>trace := trace s @ [Called c]\<rparr>)"
  by (simp add: aborted_def)

lemma sampleSignal_stage:
  assumes "sampled w settings n smp = None \<or> getCancelFlag w n c \<Longrightarrow> F"
  shows "triple (stage st perTest k j xs)
           (sampleSignal w settings n smp c)
           (\<lambda>e s. (sampled w settings n smp = Some e \<and> \<not> getCancelFlag w n c) \<and>
                  stage st perTest k j (xs @ [signalStrength e]) s \<and>
                  strength (displayStates s) =
                    Number_toString (arrayAverage (xs @ [signalStrength e])))
           (\<lambda>err s. aborted st perTest s \<and> F)"
proof (rule tripleI)
  fix s
  assume pre: "stage st perTest k j xs s"
  then have ab: "aborted st perTest (s\<lparr>trace := trace s @ [Called GetWifi]\<rparr>)"
    by (intro aborted_called stage_aborted)
  from pre have xs: "wifiStrengths s = xs" by (simp add: stage_def)
  show "case sampleSignal w settings n smp c s of
          (Inl err, s') \<Rightarrow> aborted st perTest s' \<and> F
        | (Inr e, s') \<Rightarrow>
            (sampled w settings n smp = Some e \<and> \<not> getCancelFlag w n c) \<and>
            stage st perTest k j (xs @ [signalStrength e]) s' \<and>
            strength (displayStates s') = Number_toString (arrayAverage (xs @ [signalStrength e]))"
  proof (cases "sampled w settings n smp")
    case None
    with ab assms show ?thesis
      by (auto simp: sampled_def sampleSignal_def bnd_def seq_def first_def
          split: sum.splits list.splits)
  next
    case (Some e)
    have st': "stage st perTest k j (xs @ [signalStrength e])
        (s\<lparr>trace := trace s @ [Called GetWifi],
           wifiStrengths := wifiStrengths s @ [signalStrength e],
           displayStates := (displayStates s)\<lparr>strength :=
             Number_toString (arrayAverage (wifiStrengths s @ [signalStrength e]))\<rparr>\<rparr>)"
      using pre by (simp add: stage_def)
    show ?thesis
    proof (cases "getCancelFlag w n c")
      case True
      with assms have F by simp
      with True st' show ?thesis
        by (simp add: sampleSignal_cancelled [OF Some True] stage_aborted)
    next
      case False
      with st' show ?thesis
        by (simp add: sampleSignal_ok [OF Some False] Some xs)
    qed
  qed
qed

lemma sampleSignal_topped:
  assumes "sampled w settings n smp = None \<or> getCancelFlag w n c \<Longrightarrow> F"
  shows "triple (topped st perTest xs)
           (sampleSignal w settings n smp c)
           (\<lambda>e s. (sampled w settings n smp = Some e \<and> \<not> getCancelFlag w n c) \<and>
                  topped st perTest (xs @ [signalStrength e]) s \<and>
                  strength (displayStates s) =
                    Number_toString (arrayAverage (xs @ [signalStrength e])))
           (\<lambda>err s. aborted st perTest s \<and> F)"
proof (rule tripleI)
  fix s
  assume pre: "topped st perTest xs s"
  then have ab: "aborted st perTest (s\<lparr>trace := trace s @ [Called GetWifi]\<rparr>)"
    by (intro aborted_called topped_aborted)
  from pre have xs: "wifiStrengths s = xs" by (simp add: topped_def)
  show "case sampleSignal w settings n smp c s of
          (Inl err, s') \<Rightarrow> aborted st perTest s' \<and> F
        | (Inr e, s') \<Rightarrow>
            (sampled w settings n smp = Some e \<and> \<not> getCancelFlag w n c) \<and>
            topped st perTest (xs @ [signalStrength e]) s' \<and>
            strength (displayStates s') = Number_toString (arrayAverage (xs @ [signalStrength e]))"
  proof (cases "sampled w settings n smp")
    case None
    with ab assms show ?thesis
      by (auto simp: sampled_def sampleSignal_def bnd_def seq_def first_def
          split: sum.splits list.splits)
  next
    case (Some e)
    have st': "topped st perTest (xs @ [signalStrength e])
        (s\<lparr>trace := trace s @ [Called GetWifi],
           wifiStrengths := wifiStrengths s @ [signalStrength e],
           displayStates := (displayStates s)\<lparr>strength :=
             Number_toString (arrayAverage (wifiStrengths s @ [signalStrength e]))\<rparr>\<rparr>)"
      using pre by (simp add: topped_def)
    show ?thesis
    proof (cases "getCancelFlag w n c")
      case True
      with assms have F by simp
      with True st' show ?thesis
        by (simp add: sampleSignal_cancelled [OF Some True] topped_aborted)
    next
      case False
      with st' show ?thesis
        by (simp add: sampleSignal_ok [OF Some False] Some xs)
    qed
  qed
qed

lemma topped_publish: "topped st perTest xs s \<Longrightarrow> topped st perTest xs (publish s)"
  by (auto simp: topped_def publish_apply sorted_append list_all_iff)

lemma closing_publish: "closing st perTest xs s \<Longrightarrow> finished st perTest xs (publish s)"
  by (auto simp: closing_def finished_def publish_apply sorted_append list_all_iff)

lemma topped_closing:
  "topped st perTest xs s \<Longrightarrow> strength (displayStates s) = Number_toString (arrayAverage xs) \<Longrightarrow>
   closing st perTest xs
     (s\<lparr>displayStates := (displayStates s)\<lparr>type := ''done'', header := ''Measurement complete''\<rparr>\<rparr>)"
  by (simp add: topped_def closing_def)

lemma stage_topped:
  assumes "stage st (progressPerTest tcpEn udpEn) k k xs s"
    and "k = (if udpEn then (if tcpEn then 0 + 2 else 0) + 2 else (if tcpEn then 0 + 2 else 0))"
  shows "topped st (progressPerTest tcpEn udpEn) xs
           (s\<lparr>displayStates := (displayStates s)\<lparr>progress := 100\<rparr>\<rparr>)"
proof -
  have "real k * progressPerTest tcpEn udpEn \<le> 100"
    using assms(2) by (auto simp: progressPerTest_value)
  then have "Math_round (real k * progressPerTest tcpEn udpEn) \<le> 100"
    using Math_round_mono [of "real k * progressPerTest tcpEn udpEn" 100]
    by (simp add: Math_round_def)
  with assms(1) show ?thesis
    by (auto simp: stage_def topped_def list_all_iff)
qed

lemma tcpTests_stage_then:
  assumes "tcpEn \<longrightarrow> perTest = 25 \<or> perTest = 50"
    and "st \<and> tcpEn \<longrightarrow>
           orderlyTicks duration (exec_ticks (execAsync w (iperfCommand server duration Down TCP))) \<and>
           orderlyTicks duration (exec_ticks (execAsync w (iperfCommand server duration Up TCP)))"
    and "k \<le> 2"
    and "\<And>s. stage st perTest (if tcpEn then k + 2 else k) (if tcpEn then k + 2 else k) xs s
           \<Longrightarrow> Q () s"
  shows "triple (stage st perTest k k xs) (tcpTests w server duration perTest tcpEn r) Q E"
proof (rule triple_weaken [OF tcpTests_stage [OF assms(1,2,3)]])
  fix x :: unit and s
  assume "stage st perTest (if tcpEn then k + 2 else k) (if tcpEn then k + 2 else k) xs s"
  then show "Q x s" using assms(4) by (cases x) simp
qed

lemma udpTests_stage_then:
  assumes "udpEn \<longrightarrow> perTest = 25 \<or> perTest = 50"
    and "st \<and> udpEn \<longrightarrow>
           orderlyTicks duration (exec_ticks (execAsync w (iperfCommand server duration Down UDP))) \<and>
           orderlyTicks duration (exec_ticks (execAsync w (iperfCommand server duration Up UDP)))"
    and "k \<le> 2"
    and "\<And>s. stage st perTest (if udpEn then k + 2 else k) (if udpEn then k + 2 else k) xs s
           \<Longrightarrow> Q () s"
  shows "triple (stage st perTest k k xs) (udpTests w server duration perTest udpEn r) Q E"
proof (rule triple_weaken [OF udpTests_stage [OF assms(1,2,3)]])
  fix x :: unit and s
  assume "stage st perTest (if udpEn then k + 2 else k) (if udpEn then k + 2 else k) xs s"
  then show "Q x s" using assms(4) by (cases x) simp
qed

lemma steady_ticks:
  assumes "steady w settings"
  shows "orderlyTicks (testDuration settings)
           (exec_ticks (execAsync w
              (iperfCommand (iperfServerAdrs settings) (testDuration settings) testDir testType)))"
  using assms by (cases testDir; cases testType) (simp_all add: steady_def)

lemma measurement_triple:
  assumes st: "st \<and> (tcpEn \<or> udpEn) \<longrightarrow> steady w settings"
    and tcpEn: "tcpEn = (p \<and> iperfTcpEnabled settings)"
    and udpEn: "udpEn = (p \<and> iperfUdpEnabled settings)"
    and pt: "pt = progressPerTest tcpEn udpEn"
  shows "triple (stage st pt 0 0 xs0)
           (measurement w settings p r name n)
           (\<lambda>(b, a) s. \<exists>m. sampled w settings n Before = Some b \<and>
                            sampled w settings n Middle = Some m \<and>
                            sampled w settings n After = Some a \<and>
                            finished st pt [signalStrength b, signalStrength m, signalStrength a] s \<and>
                            clear w settings n)
           (\<lambda>e s. aborted st pt s \<and> \<not> clear w settings n)"
proof -
  have tpos: "tcpEn \<longrightarrow> pt = 25 \<or> pt = 50" and upos: "udpEn \<longrightarrow> pt = 25 \<or> pt = 50"
    by (simp_all add: pt progressPerTest_share)
  have tt: "st \<and> tcpEn \<longrightarrow>
      orderlyTicks (testDuration settings) (exec_ticks (execAsync w
        (iperfCommand (iperfServerAdrs settings) (testDuration settings) Down TCP))) \<and>
      orderlyTicks (testDuration settings) (exec_ticks (execAsync w
        (iperfCommand (iperfServerAdrs settings) (testDuration settings) Up TCP)))"
    using st by (simp add: steady_ticks)
  have ut: "st \<and> udpEn \<longrightarrow>
      orderlyTicks (testDuration settings) (exec_ticks (execAsync w
        (iperfCommand (iperfServerAdrs settings) (testDuration settings) Down UDP))) \<and>
      orderlyTicks (testDuration settings) (exec_ticks (execAsync w
        (iperfCommand (iperfServerAdrs settings) (testDuration settings) Up UDP)))"
    using st by (simp add: steady_ticks)
  let ?K1 = "if tcpEn then 0 + 2 else (0::nat)"
  let ?K2 = "if udpEn then ?K1 + 2 else ?K1"
  show ?thesis
    unfolding measurement_def Let_def tcpEn [symmetric] udpEn [symmetric] pt [symmetric]
    apply (rule triple_seq [where R = "stage st pt 0 0 []"])
     apply (rule triple_assign, simp add: stage_def)
    apply (rule triple_seq [where R = "stage st pt 0 0 []"])
     apply (rule triple_setDisplay, simp)
    apply (rule triple_bnd)
     apply (rule sampleSignal_stage [where F = "\<not> clear w settings n"])
     apply (auto simp: clear_def)[1]
    subgoal for b
      apply (rule triple_pure)
      apply (rule triple_seq [where R = "stage st pt 0 0 [signalStrength b]"])
       apply (rule triple_assign, simp add: stage_publish)
      apply (rule triple_seq [where R = "stage st pt 0 0 [signalStrength b]"])
       apply (rule triple_assign, simp add: stage_def)
      apply (rule triple_seq [where R = "stage st pt ?K1 ?K1 [signalStrength b]"])
       apply (rule tcpTests_stage_then [OF tpos tt], simp, assumption)
      apply (rule triple_seq)
       apply (rule triple_checkForCancel)
       apply (simp add: stage_aborted clear_def)
      apply (rule triple_pure)
      apply (rule triple_seq [where R = "stage st pt ?K1 ?K1 [signalStrength b]"])
       apply (rule triple_assign, simp add: stage_publish)
      apply (rule triple_bnd)
       apply (rule sampleSignal_stage [where F = "\<not> clear w settings n"])
       apply (auto simp: clear_def)[1]
      subgoal for m
        apply (rule triple_pure)
        apply (rule triple_seq
            [where R = "stage st pt ?K1 ?K1 [signalStrength b, signalStrength m]"])
         apply (rule triple_assign, simp add: stage_publish)
        apply (rule triple_seq
            [where R = "stage st pt ?K2 ?K2 [signalStrength b, signalStrength m]"])
         apply (rule udpTests_stage_then [OF upos ut], simp, assumption)
        apply (rule triple_seq [where R = "topped st pt [signalStrength b, signalStrength m]"])
         apply (rule triple_setDisplay)
         apply (simp only: pt)
         apply (erule stage_topped, rule refl)
        apply (rule triple_seq)
         apply (rule triple_checkForCancel)
         apply (simp add: topped_aborted clear_def)
        apply (rule triple_pure)
        apply (rule triple_seq [where R = "topped st pt [signalStrength b, signalStrength m]"])
         apply (rule triple_assign, simp add: topped_publish)
        apply (rule triple_bnd)
         apply (rule sampleSignal_topped [where F = "\<not> clear w settings n"])
         apply (auto simp: clear_def)[1]
        subgoal for a
          apply (rule triple_pure)
          apply (rule triple_seq
              [where R = "closing st pt [signalStrength b, signalStrength m, signalStrength a]"])
           apply (rule triple_setDisplay, simp add: topped_closing)
          apply (rule triple_seq
              [where R = "finished st pt [signalStrength b, signalStrength m, signalStrength a]"])
           apply (rule triple_assign, simp add: closing_publish)
          apply (rule triple_ret)
          apply (simp add: clear_def)
          done
        done
      done
    done
qed

section \<open>A run that is let into the survey\<close>

lemma Math_round_0 [simp]: "Math_round 0 = 0"
  by (simp add: Math_round_def)

lemma loopState_stage:
  "stage st perTest 0 0 [] (loopState w settings ds)"
  by (simp add: stage_def loopState_def startState_def firstDisplay_def initialStates_def)

lemma finishAttempt_invalid:
  "\<not> validateWifiDataConsistency b a \<Longrightarrow>
   finishAttempt w b a s =
     (Inl (Error
        ''Wifi configuration changed between scans! Cancelling instead of giving wrong results.''),
      s)"
  by (simp add: finishAttempt_def)

lemma finishAttempt_valid:
  "validateWifiDataConsistency b a \<Longrightarrow> strength (displayStates s) = Number_toString n \<Longrightarrow>
   finishAttempt w b a s =
     (Inr (), s\<lparr>newWifiData :=
        Some (b\<lparr>signalStrength := real_of_int n,
                rssi := percentageToRssi w (real_of_int n)\<rparr>)\<rparr>)"
  by (simp add: finishAttempt_def parseInt_toString Let_def)

lemma run_outcome:
  fixes w settings ds st
  defines "tcpEn \<equiv> performIperfTestOf w settings \<and> iperfTcpEnabled settings"
    and "udpEn \<equiv> performIperfTestOf w settings \<and> iperfUdpEnabled settings"
  defines "pt \<equiv> progressPerTest tcpEn udpEn"
  assumes adm: "admitted w settings" and cur: "associated w settings = Some cur"
    and st: "st \<and> (tcpEn \<or> udpEn) \<longrightarrow> steady w settings"
  obtains (stopped) e s where
      "run w settings ds = afterAttempt (Inl e, s)"
      "aborted st pt s" "\<not> clear w settings 1"
    | (measured) b m a s where
      "run w settings ds = afterAttempt (finishAttempt w b a s)"
      "measurement w settings (performIperfTestOf w settings) (noIperfTestReasonOf w settings)
         (ssid cur) 1 (loopState w settings ds) = (Inr (b, a), s)"
      "sampled w settings 1 Before = Some b" "sampled w settings 1 Middle = Some m"
      "sampled w settings 1 After = Some a"
      "finished st pt [signalStrength b, signalStrength m, signalStrength a] s"
      "clear w settings 1"
proof -
  let ?M = "measurement w settings (performIperfTestOf w settings) (noIperfTestReasonOf w settings)
         (ssid cur) 1 (loopState w settings ds)"
  have run: "run w settings ds =
      afterAttempt (bnd (measurement w settings (performIperfTestOf w settings)
        (noIperfTestReasonOf w settings) (ssid cur) 1)
        (\<lambda>(b, a). finishAttempt w b a) (loopState w settings ds))"
    using run_admitted [OF adm cur] by (simp add: attempt_def)
  have T: "triple (stage st pt 0 0 [])
      (measurement w settings (performIperfTestOf w settings) (noIperfTestReasonOf w settings)
         (ssid cur) 1)
      (\<lambda>(b, a) s. \<exists>m. sampled w settings 1 Before = Some b \<and>
                       sampled w settings 1 Middle = Some m \<and>
                       sampled w settings 1 After = Some a \<and>
                       finished st pt [signalStrength b, signalStrength m, signalStrength a] s \<and>
                       clear w settings 1)
      (\<lambda>e s. aborted st pt s \<and> \<not> clear w settings 1)"
    by (rule measurement_triple [where tcpEn = tcpEn and udpEn = udpEn])
      (use st in \<open>simp_all add: tcpEn_def udpEn_def pt_def\<close>)
  have tr: "case ?M of
      (Inl e, s') \<Rightarrow> aborted st pt s' \<and> \<not> clear w settings 1
    | (Inr x, s') \<Rightarrow>
        (case x of (b, a) \<Rightarrow>
        \<exists>m. sampled w settings 1 Before = Some b \<and> sampled w settings 1 Middle = Some m \<and>
            sampled w settings 1 After = Some a \<and>
            finished st pt [signalStrength b, signalStrength m, signalStrength a] s' \<and>
            clear w settings 1)"
    using T [unfolded triple_def, rule_format, OF loopState_stage [of st pt w settings ds]]
    by (auto split: prod.splits sum.splits)
  show thesis
  proof (cases ?M)
    case (Pair r s)
    show thesis
    proof (cases r)
      case (Inl e)
      with Pair tr run show thesis
        by (intro stopped [of e s]) (simp_all add: bnd_def)
    next
      case (Inr ba)
      obtain b a where ba: "ba = (b, a)" by (cases ba)
      from Pair Inr ba tr obtain m where
        "sampled w settings 1 Before = Some b" "sampled w settings 1 Middle = Some m"
        "sampled w settings 1 After = Some a"
        "finished st pt [signalStrength b, signalStrength m, signalStrength a] s"
        "clear w settings 1"
        by auto
      with Pair Inr ba run show thesis
        by (intro measured [of b a s m]) (simp_all add: bnd_def)
    qed
  qed
qed

section \<open>A run that is not let into the survey, or finds no associated network\<close>

lemma run_not_admitted:
  assumes "\<not> admitted w settings"
  shows "((\<exists>e. fst (run w settings ds) = Inl e) \<or>
          (\<exists>why. why \<noteq> '''' \<and>
             fst (run w settings ds) = Inr \<lparr>iperfData = None, wifiData = None, status = why\<rparr>)) \<and>
         sent (trace (snd (run w settings ds))) = []"
  using assms
  by (auto simp: admitted_def run_def runSurveyTests_def bnd_def startState_def
      split: sum.splits)

lemma run_not_associated:
  assumes "admitted w settings" "associated w settings = None"
  shows "(\<exists>e. fst (run w settings ds) = Inl e) \<and>
         sent (trace (snd (run w settings ds))) =
           [getUpdatedMessage (firstDisplay w settings), errorMessage] \<and>
         spawned (trace (snd (run w settings ds))) = []"
proof -
  from assms(1) obtain pre where pre: "preflightSettings w settings = Inr pre" "reason pre = ''''"
    by (auto simp: admitted_def split: sum.splits)
  from assms(2) have scan: "(\<exists>e. scanWifi w settings = Inl e) \<or>
      (\<exists>ssids. scanWifi w settings = Inr ssids \<and> filter currentSSID (SSIDs ssids) = [])"
    by (auto simp: associated_def split: sum.splits list.splits)
  show ?thesis
  proof (cases "iperfServerAdrs settings = ''localhost''")
    case True
    then show ?thesis
      using pre scan
      by (auto simp: run_def runSurveyTests_def bnd_def seq_def try_catch_def survey_def
          first_def publish_apply firstDisplay_def performIperfTestOf_def startState_def
          sendSSEMessage_def)
  next
    case False
    with assms(1) obtain resp where resp: "checkIperfServer w settings = Inr resp"
      by (auto simp: admitted_def split: sum.splits)
    show ?thesis
      using pre scan False resp
      by (auto simp: run_def runSurveyTests_def bnd_def seq_def try_catch_def survey_def
          first_def publish_apply firstDisplay_def performIperfTestOf_def startState_def
          sendSSEMessage_def)
  qed
qed

section \<open>How an attempt ends\<close>

lemma finished_trace:
  assumes "finished st perTest xs s"
  shows "\<exists>es. trace s = es @ [Sent (getUpdatedMessage (displayStates s))] \<and>
              list_all (\<lambda>m. msg_type m = ''update'') (sent es)"
    and "type (displayStates s) = ''done''"
    and "header (displayStates s) = ''Measurement complete''"
    and "progress (displayStates s) = 100"
    and "newWifiData s = None"
    and "strength (displayStates s) = Number_toString (arrayAverage xs)"
  using assms by (simp_all add: finished_def)

lemma afterAttempt_invalid:
  assumes "\<not> validateWifiDataConsistency b a"
  shows "afterAttempt (finishAttempt w b a s) =
           (Inr \<lparr>iperfData = Some (newIperfData s), wifiData = newWifiData s, status = ''''\<rparr>, s)"
  by (simp add: finishAttempt_invalid [OF assms] afterAttempt_def)

lemma afterAttempt_valid:
  assumes "validateWifiDataConsistency b a" "strength (displayStates s) = Number_toString n"
  shows "afterAttempt (finishAttempt w b a s) =
           (Inr \<lparr>iperfData = Some (newIperfData s),
                  wifiData = Some (b\<lparr>signalStrength := real_of_int n,
                                     rssi := percentageToRssi w (real_of_int n)\<rparr>),
                  status = ''''\<rparr>,
            s\<lparr>newWifiData := Some (b\<lparr>signalStrength := real_of_int n,
                                     rssi := percentageToRssi w (real_of_int n)\<rparr>)\<rparr>)"
  by (simp add: finishAttempt_valid [OF assms] afterAttempt_def)

lemma afterAttempt_finish_trace:
  "strength (displayStates s) = Number_toString n \<Longrightarrow>
   trace (snd (afterAttempt (finishAttempt w b a s))) = trace s"
  by (cases "validateWifiDataConsistency b a")
    (simp_all add: afterAttempt_invalid afterAttempt_valid)

lemma afterAttempt_stopped:
  "trace (snd (afterAttempt (Inl e, s))) = trace s"
  "\<exists>x. fst (afterAttempt (Inl e, s)) = Inr x \<and>
       (status x = ''test was cancelled'' \<and> wifiData x = None \<and> iperfData x = None \<or>
        status x = '''' \<and> wifiData x = newWifiData s \<and> iperfData x \<noteq> None)"
  by (simp_all add: afterAttempt_def)

lemma roamingWorld_facts:
  "admitted roamingWorld bothEnabled"
  "associated roamingWorld bothEnabled = Some (homeEntry 40)"
  "clear roamingWorld bothEnabled 1"
  "sampled roamingWorld bothEnabled 1 Before = Some (homeEntry 40)"
  "sampled roamingWorld bothEnabled 1 After = Some ((homeEntry 46)\<lparr>bssid := ''11:22:33:44:55:66''\<rparr>)"
  "\<not> validateWifiDataConsistency (homeEntry 40) ((homeEntry 46)\<lparr>bssid := ''11:22:33:44:55:66''\<rparr>)"
  by (simp_all add: roamingWorld_def quietWorld_def bothEnabled_def admitted_def associated_def
      clear_def sampled_def homeEntry_def validateWifiDataConsistency_def)

text \<open>
  A third of a whole number is rounded to a binary64 number on the same side
  of the half as the third itself: it lies between two multiples of an eighth
  that are.
\<close>

lemma binary64_eighths:
  "\<bar>m\<bar> < 2 ^ 53 \<Longrightarrow> binary64 (real_of_int m / 8) = real_of_int m / 8"
  using binary64_exact [of m "- 3"] by (simp add: power_int_minus_divide)

lemma Math_round_third:
  assumes "0 \<le> s" "s \<le> 300"
  shows "Math_round (binary64 (real_of_int s / 3)) = Math_round (real_of_int s / 3)"
proof -
  define q where "q = s div 3"
  have s: "s = 3 * q + s mod 3" by (simp add: q_def)
  from assms have q: "0 \<le> q" "q \<le> 100" by (simp_all add: q_def)
  have "s mod 3 = 0 \<or> s mod 3 = 1 \<or> s mod 3 = 2" by presburger
  then consider "s mod 3 = 0" | "s mod 3 = 1" | "s mod 3 = 2" by blast
  then show ?thesis
  proof cases
    case 1
    with s have "real_of_int s / 3 = real_of_int q" by simp
    moreover from q have "binary64 (real_of_int q) = real_of_int q"
      by (intro binary64_of_int) simp
    ultimately show ?thesis by simp
  next
    case 2
    with s have x: "real_of_int s / 3 = real_of_int q + 1 / 3"
      by (simp add: field_simps)
    have l: "binary64 (real_of_int (8 * q + 2) / 8) = real_of_int (8 * q + 2) / 8"
      and u: "binary64 (real_of_int (8 * q + 3) / 8) = real_of_int (8 * q + 3) / 8"
      using q by (intro binary64_eighths; simp)+
    have "real_of_int (8 * q + 2) / 8 \<le> binary64 (real_of_int s / 3)"
      and "binary64 (real_of_int s / 3) \<le> real_of_int (8 * q + 3) / 8"
      by (rule binary64_between [OF l u]; simp add: x)+
    then have "Math_round (binary64 (real_of_int s / 3)) = q"
      by (simp add: Math_round_def floor_eq_iff)
    moreover have "Math_round (real_of_int s / 3) = q"
      by (simp add: Math_round_def floor_eq_iff x)
    ultimately show ?thesis by simp
  next
    case 3
    with s have x: "real_of_int s / 3 = real_of_int q + 2 / 3"
      by (simp add: field_simps)
    have l: "binary64 (real_of_int (8 * q + 5) / 8) = real_of_int (8 * q + 5) / 8"
      and u: "binary64 (real_of_int (8 * q + 6) / 8) = real_of_int (8 * q + 6) / 8"
      using q by (intro binary64_eighths; simp)+
    have "real_of_int (8 * q + 5) / 8 \<le> binary64 (real_of_int s / 3)"
      and "binary64 (real_of_int s / 3) \<le> real_of_int (8 * q + 6) / 8"
      by (rule binary64_between [OF l u]; simp add: x)+
    then have "Math_round (binary64 (real_of_int s / 3)) = q + 1"
      by (simp add: Math_round_def floor_eq_iff)
    moreover have "Math_round (real_of_int s / 3) = q + 1"
      by (simp add: Math_round_def floor_eq_iff x)
    ultimately show ?thesis by simp
  qed
qed

text \<open>The mean of three whole percentages is computed as over the reals.\<close>

lemma arrayAverage_three:
  assumes "wholePercent x" "wholePercent y" "wholePercent z"
  shows "arrayAverage [x, y, z] = Math_round ((x + y + z) / 3)"
proof -
  from assms obtain i j k :: int where x: "x = real_of_int i" "0 \<le> i" "i \<le> 100"
    and y: "y = real_of_int j" "0 \<le> j" "j \<le> 100"
    and z: "z = real_of_int k" "0 \<le> k" "k \<le> 100"
    unfolding wholePercent_def
    by (metis floor_mono floor_of_int of_int_0 of_int_numeral)
  have a: "plus64 0 x = real_of_int i"
    using x by (simp add: plus64_def binary64_of_int)
  have "binary64 (real_of_int (i + j)) = real_of_int (i + j)"
    using x y by (intro binary64_of_int) simp
  then have b: "plus64 (real_of_int i) y = real_of_int (i + j)"
    by (simp add: plus64_def y(1))
  have "binary64 (real_of_int (i + j + k)) = real_of_int (i + j + k)"
    using x y z by (intro binary64_of_int) simp
  then have c: "plus64 (real_of_int (i + j)) z = real_of_int (i + j + k)"
    by (simp add: plus64_def z(1))
  have "arrayAverage [x, y, z] = Math_round (binary64 (real_of_int (i + j + k) / 3))"
    by (simp add: arrayAverage_def a b c divide64_def del: of_int_add)
  also have "\<dots> = Math_round (real_of_int (i + j + k) / 3)"
    using x y z by (intro Math_round_third) simp_all
  finally show ?thesis by (simp add: x(1) y(1) z(1))
qed

lemma quietWorld_facts:
  "admitted quietWorld bothEnabled"
  "associated quietWorld bothEnabled = Some (homeEntry 40)"
  "clear quietWorld bothEnabled 1"
  "sampled quietWorld bothEnabled 1 Before = Some (homeEntry 40)"
  "sampled quietWorld bothEnabled 1 Middle = Some (homeEntry 44)"
  "sampled quietWorld bothEnabled 1 After = Some (homeEntry 46)"
  "validateWifiDataConsistency (homeEntry 40) (homeEntry 46)"
  "percentages quietWorld bothEnabled 1"
  by (simp_all add: quietWorld_def bothEnabled_def admitted_def associated_def
      clear_def sampled_def homeEntry_def validateWifiDataConsistency_def percentages_def
      wholePercent_def)

lemma run_consistent:
  assumes "admitted w settings" "associated w settings = Some cur" "clear w settings 1"
    and "sampled w settings 1 Before = Some b" "sampled w settings 1 After = Some a"
    and "validateWifiDataConsistency b a"
  shows "\<exists>x y. fst (run w settings ds) = Inr x \<and> wifiData x = Some y \<and> status x = '''' \<and>
           iperfData x \<noteq> None"
proof (rule run_outcome [OF assms(1,2), where st = False and ds = ds], goal_cases)
  case 1
  show ?case by simp
next
  case (2 e s)
  with assms(3) show ?case by simp
next
  case (3 b' m a' s)
  with assms(4,5) have [simp]: "b' = b" "a' = a" by simp_all
  note fin = finished_trace [OF 3(6)]
  show ?case
    by (simp add: 3(1) afterAttempt_valid [OF assms(6) fin(6)])
qed

lemma run_inconsistent:
  assumes "admitted w settings" "associated w settings = Some cur" "clear w settings 1"
    and "sampled w settings 1 Before = Some b" "sampled w settings 1 After = Some a"
    and "\<not> validateWifiDataConsistency b a"
  shows "\<exists>x. fst (run w settings ds) = Inr x \<and> status x = '''' \<and> wifiData x = None \<and>
           iperfData x \<noteq> None"
proof (rule run_outcome [OF assms(1,2), where st = False and ds = ds], goal_cases)
  case 1
  show ?case by simp
next
  case (2 e s)
  with assms(3) show ?case by simp
next
  case (3 b' m a' s)
  with assms(4,5) have [simp]: "b' = b" "a' = a" by simp_all
  note fin = finished_trace [OF 3(6)]
  show ?case
    by (simp add: 3(1) afterAttempt_invalid [OF assms(6)] fin(5))
qed

section \<open>The trace of a run\<close>

lemma run_trace_cases:
  fixes w settings ds st
  defines "pt \<equiv> progressPerTest (tcpUnits w settings) (udpUnits w settings)"
  assumes st: "st \<and> (tcpUnits w settings \<or> udpUnits w settings) \<longrightarrow> steady w settings"
  obtains (refused) "\<not> admitted w settings" "sent (trace (snd (run w settings ds))) = []"
    | (lost) "admitted w settings" "associated w settings = None"
        "sent (trace (snd (run w settings ds))) =
           [getUpdatedMessage (firstDisplay w settings), errorMessage]"
    | (stopped) s where "admitted w settings" "associated w settings \<noteq> None"
        "\<not> clear w settings 1" "aborted st pt s" "trace (snd (run w settings ds)) = trace s"
        "\<exists>x. fst (run w settings ds) = Inr x"
    | (measured) xs s where "admitted w settings" "associated w settings \<noteq> None"
        "clear w settings 1" "finished st pt xs s" "trace (snd (run w settings ds)) = trace s"
        "\<exists>x. fst (run w settings ds) = Inr x \<and> status x = ''''"
proof (cases "admitted w settings")
  case False
  with run_not_admitted [OF False, of ds] refused show thesis by simp
next
  case adm: True
  show thesis
  proof (cases "associated w settings")
    case None
    with run_not_associated [OF adm None, of ds] adm lost show thesis by simp
  next
    case (Some cur)
    show thesis
    proof (rule run_outcome [OF adm Some, where st = st and ds = ds], goal_cases)
      case 1
      from st show ?case by (simp add: tcpUnits_def udpUnits_def)
    next
      case (2 e s)
      show ?case
      proof (rule stopped [of s])
        from 2(2) show "aborted st pt s" by (simp add: pt_def tcpUnits_def udpUnits_def)
        show "trace (snd (run w settings ds)) = trace s"
          by (simp add: 2(1) afterAttempt_stopped(1))
        from afterAttempt_stopped(2) [of e s] show "\<exists>x. fst (run w settings ds) = Inr x"
          by (auto simp: 2(1))
      qed (use adm Some 2 in simp_all)
    next
      case (3 b m a s)
      note fin = finished_trace [OF 3(6)]
      show ?case
      proof (rule measured [of "[signalStrength b, signalStrength m, signalStrength a]" s])
        from 3(6) show "finished st pt [signalStrength b, signalStrength m, signalStrength a] s"
          by (simp add: pt_def tcpUnits_def udpUnits_def)
        show "trace (snd (run w settings ds)) = trace s"
          by (simp add: 3(1) afterAttempt_finish_trace [OF fin(6)])
        show "\<exists>x. fst (run w settings ds) = Inr x \<and> status x = ''''"
          by (cases "validateWifiDataConsistency b a")
            (simp_all add: 3(1) afterAttempt_invalid afterAttempt_valid [OF _ fin(6)])
      qed (use adm Some 3 in simp_all)
    qed
  qed
qed

lemma doneMessages_updates:
  "list_all (\<lambda>m. msg_type m = ''update'') (sent es) \<Longrightarrow> doneMessages es = []"
  by (induction es rule: sent.induct) (simp_all add: doneMessages_def)

lemma doneMessages_aborted: "aborted st pt s \<Longrightarrow> doneMessages (trace s) = []"
  by (simp add: aborted_def doneMessages_updates)

lemma doneMessages_finished:
  assumes "finished st pt xs s"
  shows "doneMessages (trace s) = [getUpdatedMessage (displayStates s)]"
    and "msg_header (getUpdatedMessage (displayStates s)) = ''Measurement complete''"
    and "msg_progress (getUpdatedMessage (displayStates s)) = Some 100"
proof -
  from assms obtain es where es: "trace s = es @ [Sent (getUpdatedMessage (displayStates s))]"
    "list_all (\<lambda>m. msg_type m = ''update'') (sent es)"
    and ty: "type (displayStates s) = ''done''"
    by (auto simp: finished_def)
  from doneMessages_updates [OF es(2)] ty
  show "doneMessages (trace s) = [getUpdatedMessage (displayStates s)]"
    by (simp add: doneMessages_def es(1))
  from assms show "msg_header (getUpdatedMessage (displayStates s)) = ''Measurement complete''"
    "msg_progress (getUpdatedMessage (displayStates s)) = Some 100"
    by (simp_all add: finished_def)
qed

lemma run_doneMessages:
  "\<not> admitted w settings \<Longrightarrow> doneMessages (trace (snd (run w settings ds))) = []"
  "admitted w settings \<Longrightarrow> associated w settings = None \<Longrightarrow>
     doneMessages (trace (snd (run w settings ds))) = [errorMessage]"
  "admitted w settings \<Longrightarrow> associated w settings \<noteq> None \<Longrightarrow> \<not> clear w settings 1 \<Longrightarrow>
     doneMessages (trace (snd (run w settings ds))) = []"
  "admitted w settings \<Longrightarrow> associated w settings \<noteq> None \<Longrightarrow> clear w settings 1 \<Longrightarrow>
     \<exists>m. doneMessages (trace (snd (run w settings ds))) = [m] \<and>
         msg_header m = ''Measurement complete'' \<and> msg_progress m = Some 100"
proof -
  have st: "False \<and> (tcpUnits w settings \<or> udpUnits w settings) \<longrightarrow> steady w settings"
    by simp
  show "\<not> admitted w settings \<Longrightarrow> doneMessages (trace (snd (run w settings ds))) = []"
    by (rule run_trace_cases [OF st, of ds]) (simp_all add: doneMessages_def)
  show "admitted w settings \<Longrightarrow> associated w settings = None \<Longrightarrow>
     doneMessages (trace (snd (run w settings ds))) = [errorMessage]"
    by (rule run_trace_cases [OF st, of ds])
      (simp_all add: doneMessages_def firstDisplay_def initialStates_def errorMessage_def)
  show "admitted w settings \<Longrightarrow> associated w settings \<noteq> None \<Longrightarrow> \<not> clear w settings 1 \<Longrightarrow>
     doneMessages (trace (snd (run w settings ds))) = []"
    by (rule run_trace_cases [OF st, of ds]) (simp_all add: doneMessages_aborted)
  show "admitted w settings \<Longrightarrow> associated w settings \<noteq> None \<Longrightarrow> clear w settings 1 \<Longrightarrow>
     \<exists>m. doneMessages (trace (snd (run w settings ds))) = [m] \<and>
         msg_header m = ''Measurement complete'' \<and> msg_progress m = Some 100"
    by (rule run_trace_cases [OF st, of ds])
      (simp_all add: doneMessages_finished(1) finished_trace(3,4))
qed

lemma run_cancelled_silent:
  assumes "fst (run w settings ds) = Inr x" "status x = ''test was cancelled''"
  shows "doneMessages (trace (snd (run w settings ds))) = []"
proof -
  have st: "False \<and> (tcpUnits w settings \<or> udpUnits w settings) \<longrightarrow> steady w settings"
    by simp
  show ?thesis
  proof (rule run_trace_cases [OF st, of ds], goal_cases)
    case 1
    then show ?case by (simp add: doneMessages_def)
  next
    case 2
    with run_not_associated [OF 2(1,2), of ds] assms show ?case by simp
  next
    case (3 s)
    then show ?case by (simp add: doneMessages_aborted)
  next
    case (4 xs s)
    with assms show ?case by auto
  qed
qed

lemma refusingWorld_run:
  "\<not> admitted refusingWorld bothEnabled"
  "fst (run refusingWorld bothEnabled initialStates) =
     Inr \<lparr>iperfData = None, wifiData = None, status = ''Please set iperf server address''\<rparr>"
  by (simp_all add: admitted_def refusingWorld_def quietWorld_def run_def runSurveyTests_def
      bnd_def startState_def)

lemma stoppedWorld_facts:
  "admitted stoppedWorld bothEnabled"
  "associated stoppedWorld bothEnabled = Some (homeEntry 40)"
  "\<not> clear stoppedWorld bothEnabled 1"
  by (simp_all add: stoppedWorld_def quietWorld_def bothEnabled_def admitted_def associated_def
      clear_def homeEntry_def)

lemma run_stopped_first:
  assumes "admitted w settings"
    and "associated w settings = Some cur"
    and "sampled w settings 1 Before = Some b"
    and "getCancelFlag w 1 AfterBefore"
  shows "fst (run w settings ds) =
           Inr \<lparr>iperfData = None, wifiData = None, status = ''test was cancelled''\<rparr>"
proof -
  let ?M = "measurement w settings (performIperfTestOf w settings) (noIperfTestReasonOf w settings)
          (ssid cur) 1 (loopState w settings ds)"
  have "fst ?M = Inl (Error ''cancelled'')"
    by (simp add: measurement_def Let_def seq_def bnd_def
        sampleSignal_cancelled [OF assms(3,4), unfolded One_nat_def])
  then obtain s' where M: "?M = (Inl (Error ''cancelled''), s')"
    by (cases ?M) simp
  show ?thesis
    by (simp add: run_admitted [OF assms(1,2)] attempt_def bnd_def M [unfolded One_nat_def]
        afterAttempt_def)
qed

lemma stoppedWorld_run:
  "fst (run stoppedWorld bothEnabled initialStates) =
     Inr \<lparr>iperfData = None, wifiData = None, status = ''test was cancelled''\<rparr>"
proof (rule run_stopped_first [OF stoppedWorld_facts(1,2)])
  show "sampled stoppedWorld bothEnabled 1 Before = Some (homeEntry 40)"
    by (simp add: stoppedWorld_def quietWorld_def sampled_def)
  show "getCancelFlag stoppedWorld 1 AfterBefore"
    by (simp add: stoppedWorld_def)
qed

lemma strayWorld_facts:
  "admitted strayWorld bothEnabled"
  "associated strayWorld bothEnabled = None"
  by (simp_all add: strayWorld_def quietWorld_def bothEnabled_def admitted_def associated_def
      homeEntry_def)

section \<open>The progress values of a run\<close>

lemma run_progress_sorted:
  assumes "steady w settings \<or> \<not> (tcpUnits w settings \<or> udpUnits w settings)"
  shows "sorted (progs (trace (snd (run w settings ds))))"
proof -
  from assms
  have st: "True \<and> (tcpUnits w settings \<or> udpUnits w settings) \<longrightarrow> steady w settings"
    by blast
  show ?thesis
  proof (rule run_trace_cases [OF st, of ds], goal_cases)
    case 1
    then show ?case by (simp add: progs_def)
  next
    case 2
    then show ?case by (simp add: progs_def errorMessage_def)
  next
    case (3 s)
    then show ?case by (simp add: aborted_def)
  next
    case (4 xs s)
    then show ?case by (simp add: finished_def)
  qed
qed

lemma run_no_units:
  assumes "\<not> tcpUnits w settings" "\<not> udpUnits w settings"
  shows "list_all (\<lambda>p. p = 0 \<or> p = 100) (progs (trace (snd (run w settings ds))))"
proof -
  have st: "False \<and> (tcpUnits w settings \<or> udpUnits w settings) \<longrightarrow> steady w settings"
    by simp
  have pt: "progressPerTest (tcpUnits w settings) (udpUnits w settings) = 0"
    using assms by (simp add: progressPerTest_def totalTests_def)
  show ?thesis
  proof (rule run_trace_cases [OF st, of ds], goal_cases)
    case 1
    then show ?case by (simp add: progs_def)
  next
    case 2
    then show ?case
      by (simp add: progs_def errorMessage_def firstDisplay_def initialStates_def)
  next
    case (3 s)
    then show ?case by (simp add: aborted_def pt)
  next
    case (4 xs s)
    then show ?case by (simp add: finished_def pt)
  qed
qed

lemma run_done_progress:
  assumes "m \<in> set (sent (trace (snd (run w settings ds))))" "msg_type m = ''done''"
  shows "msg_progress m = Some 100 \<or> m = errorMessage"
proof -
  from assms have m: "m \<in> set (doneMessages (trace (snd (run w settings ds))))"
    by (simp add: doneMessages_def)
  show ?thesis
  proof (cases "admitted w settings")
    case False
    with m show ?thesis by (simp add: run_doneMessages(1))
  next
    case adm: True
    show ?thesis
    proof (cases "associated w settings = None")
      case True
      with m adm show ?thesis by (simp add: run_doneMessages(2))
    next
      case cur: False
      show ?thesis
      proof (cases "clear w settings 1")
        case True
        from run_doneMessages(4) [OF adm cur True, of ds] m show ?thesis by auto
      next
        case False
        from run_doneMessages(3) [OF adm cur False, of ds] m show ?thesis by simp
      qed
    qed
  qed
qed

lemma unit_progress:
  assumes "perTest = 25 \<or> perTest = 50" "completedTests s \<le> 3"
  shows "progress (displayStates (snd (runSingleTest w server duration testDir testType
       (Some (createProgressCallback perTest)) s))) =
     Math_round (real (completedTests s + 1) * perTest)"
proof -
  from assms(2) have "completedTests s \<le> 4" by simp
  from unitProgress_ends(2) [OF assms(1) this] show ?thesis
    by (simp add: runSingleTest_state)
qed

lemma steady_quietWorld: "steady quietWorld bothEnabled"
  by (simp add: steady_def orderlyTicks_def quietWorld_def bothEnabled_def)

lemma localEnabled_facts:
  "\<not> tcpUnits quietWorld localEnabled" "\<not> udpUnits quietWorld localEnabled"
  by (simp_all add: tcpUnits_def udpUnits_def performIperfTestOf_def localEnabled_def)

section \<open>Values that the rounding gives\<close>

lemma binary64_fifth: "binary64 (1 / 5) = 3602879701896397 / 2 ^ 54"
  by (subst binary64_eval [where k = "- 3"]) (simp_all add: roundTiesToEven_def Let_def)

lemma binary64_two_fifths: "binary64 (2 / 5) = 3602879701896397 / 2 ^ 53"
  by (subst binary64_eval [where k = "- 2"]) (simp_all add: roundTiesToEven_def Let_def)

lemma binary64_fifth_100: "binary64 (3602879701896397 / 2 ^ 54 * 100) = 20"
  by (subst binary64_eval [where k = 4]) (simp_all add: roundTiesToEven_def Let_def)

lemma binary64_two_fifths_100: "binary64 (3602879701896397 / 2 ^ 53 * 100) = 40"
  by (subst binary64_eval [where k = 5]) (simp_all add: roundTiesToEven_def Let_def)

lemma binary64_fifth_25: "binary64 (3602879701896397 / 2 ^ 54 * 25) = 5"
  by (subst binary64_eval [where k = 2]) (simp_all add: roundTiesToEven_def Let_def)

lemma binary64_two_fifths_25: "binary64 (3602879701896397 / 2 ^ 53 * 25) = 10"
  by (subst binary64_eval [where k = 3]) (simp_all add: roundTiesToEven_def Let_def)

lemma fifths_scaled:
  "times64 (binary64 (1 / 5)) 100 = 20" "times64 (binary64 (2 / 5)) 100 = 40"
  "times64 (binary64 (1 / 5)) 25 = 5" "times64 (binary64 (2 / 5)) 25 = 10"
  by (simp_all only: times64_def binary64_fifth binary64_two_fifths binary64_fifth_100
      binary64_two_fifths_100 binary64_fifth_25 binary64_two_fifths_25)

lemma times64_minus: "times64 (- x) c = - times64 x c"
  by (simp add: times64_def binary64_minus [symmetric])

lemma tickPercent_values:
  "tickPercent (times64 1 1000) 200 = 20"
  "tickPercent (times64 1 1000) 400 = 40"
  "tickPercent (times64 1 1000) (- 200) = - 20"
  "tickPercent (times64 (- 1) 1000) 200 = - 20"
  "tickPercent (times64 (- 1) 1000) 400 = - 40"
proof -
  have d: "times64 1 1000 = 1000" "times64 (- 1) 1000 = - 1000"
    by (simp_all add: times64_def)
  have q: "divide64 200 1000 = binary64 (1 / 5)" "divide64 400 1000 = binary64 (2 / 5)"
    "divide64 (- 200) 1000 = - binary64 (1 / 5)"
    "divide64 200 (- 1000) = - binary64 (1 / 5)" "divide64 400 (- 1000) = - binary64 (2 / 5)"
    by (simp_all add: divide64_def binary64_minus [symmetric])
  show "tickPercent (times64 1 1000) 200 = 20"
    "tickPercent (times64 1 1000) 400 = 40"
    "tickPercent (times64 1 1000) (- 200) = - 20"
    "tickPercent (times64 (- 1) 1000) 200 = - 20"
    "tickPercent (times64 (- 1) 1000) 400 = - 40"
    by (simp_all add: tickPercent_def d q times64_minus fifths_scaled Math_round_def)
qed

lemma unitProgress_values:
  "unitProgress 25 0 20 = 5" "unitProgress 25 0 40 = 10"
  "unitProgress 25 0 (- 20) = - 5" "unitProgress 25 0 (- 40) = - 10"
proof -
  have q: "divide64 20 100 = binary64 (1 / 5)" "divide64 40 100 = binary64 (2 / 5)"
    "divide64 (- 20) 100 = - binary64 (1 / 5)" "divide64 (- 40) 100 = - binary64 (2 / 5)"
    by (simp_all add: divide64_def binary64_minus [symmetric])
  have z: "times64 0 25 = 0" by (simp add: times64_def)
  show "unitProgress 25 0 20 = 5" "unitProgress 25 0 40 = 10"
    "unitProgress 25 0 (- 20) = - 5" "unitProgress 25 0 (- 40) = - 10"
    by (simp_all add: unitProgress_def q z times64_minus fifths_scaled plus64_def Math_round_def)
qed

text \<open>
  At 145 ms of a test of one second the timer reports 14 percent, and at 58
  percent of the first of four units the callback displays 14: the rounding of
  the quotients brings both values below the half that the reals would reach.
\<close>

lemma rounding_below_the_half:
  "tickPercent (times64 1 1000) 145 = 14" "unitProgress 25 0 58 = 14"
proof -
  have a: "binary64 (29 / 200) = 5224175567749775 / 2 ^ 55"
    by (subst binary64_eval [where k = "- 3"]) (simp_all add: roundTiesToEven_def Let_def)
  have b: "binary64 (29 / 50) = 5224175567749775 / 2 ^ 53"
    by (subst binary64_eval [where k = "- 1"]) (simp_all add: roundTiesToEven_def Let_def)
  have c: "binary64 (5224175567749775 / 2 ^ 55 * 100) = 8162774324609023 / 2 ^ 49"
    by (subst binary64_eval [where k = 3]) (simp_all add: roundTiesToEven_def Let_def)
  have d: "binary64 (5224175567749775 / 2 ^ 53 * 25) = 8162774324609023 / 2 ^ 49"
    by (subst binary64_eval [where k = 3]) (simp_all add: roundTiesToEven_def Let_def)
  have e: "binary64 (8162774324609023 / 2 ^ 49) = 8162774324609023 / 2 ^ 49"
    using binary64_exact [of 8162774324609023 "- 49"] by (simp add: power_int_minus_divide)
  have v: "times64 (divide64 145 (times64 1 1000)) 100 = 8162774324609023 / 2 ^ 49"
  proof -
    have "divide64 145 (times64 1 1000) = binary64 (29 / 200)"
      by (simp add: divide64_def times64_def)
    then show ?thesis by (simp only: times64_def a c)
  qed
  have "times64 1 1000 = 1000" by (simp add: times64_def)
  then have "tickPercent (times64 1 1000) 145 =
      real_of_int (min (Math_round (times64 (divide64 145 (times64 1 1000)) 100)) 99)"
    by (simp add: tickPercent_def)
  then show "tickPercent (times64 1 1000) 145 = 14"
    by (simp add: Math_round_def v)
  have u: "plus64 (times64 0 25) (times64 (divide64 58 100) 25) = 8162774324609023 / 2 ^ 49"
  proof -
    have "divide64 58 100 = binary64 (29 / 50)" by (simp add: divide64_def)
    then have "times64 (divide64 58 100) 25 = 8162774324609023 / 2 ^ 49"
      by (simp only: times64_def b d)
    moreover have "times64 0 25 = 0" by (simp add: times64_def)
    ultimately show ?thesis by (simp only: plus64_def add_0 e)
  qed
  show "unitProgress 25 0 58 = 14"
    by (simp add: unitProgress_def Math_round_def u)
qed

section \<open>A run whose progress falls\<close>

text \<open>A computation that only adds events keeps what holds of every longer list of progress values.\<close>

lemma triple_grows:
  fixes m :: "'a prog"
  assumes "\<And>s :: run_state. \<exists>zs. progs (trace (snd (m s))) = progs (trace s) @ zs"
    and "\<And>xs zs. Pt xs \<Longrightarrow> Pt (xs @ zs)"
  shows "triple (\<lambda>s. Pt (progs (trace s))) m (\<lambda>_ s. Pt (progs (trace s))) (\<lambda>_ s. True)"
proof (rule tripleI)
  fix s :: run_state
  assume "Pt (progs (trace s))"
  moreover from assms(1) obtain zs where "progs (trace (snd (m s))) = progs (trace s) @ zs"
    by blast
  ultimately have "Pt (progs (trace (snd (m s))))"
    using assms(2) by simp
  then show "case m s of (Inl e, s') \<Rightarrow> True | (Inr x, s') \<Rightarrow> Pt (progs (trace s'))"
    by (auto split: prod.splits sum.splits)
qed

lemma sampleSignal_grows:
  "\<exists>zs. progs (trace (snd (sampleSignal w settings n smp c s))) = progs (trace s) @ zs"
  by (simp add: sampleSignal_def bnd_def seq_def first_def checkForCancel_def
      split: sum.splits list.splits)

lemma checkForCancel_grows:
  "\<exists>zs. progs (trace (snd (checkForCancel w n c s))) = progs (trace s) @ zs"
  by (simp add: checkForCancel_def)

lemma publish_grows:
  "\<exists>zs. progs (trace (snd (assign publish s))) = progs (trace s) @ zs"
  by (simp add: publish_apply)

lemma tcpEffect_progs:
  "\<exists>zs. progs (trace (tcpEffect w server duration perTest True r s)) =
     progs (trace s) @ progs (testEvents w (iperfCommand server duration Down TCP) perTest s)
     @ zs"
  by (simp add: tcpEffect_def tcpTests_def seq_def bnd_def runSingleTest_apply publish_apply
      progs_testEvents)

lemma udpEffect_grows:
  "\<exists>zs. progs (trace (udpEffect w server duration perTest udpEn r s)) = progs (trace s) @ zs"
  by (simp add: udpEffect_def udpTests_def seq_def bnd_def runSingleTest_apply publish_apply)

lemma udpTests_grows:
  "\<exists>zs. progs (trace (snd (udpTests w server duration perTest udpEn r s))) = progs (trace s) @ zs"
  by (simp add: udpTests_apply udpEffect_grows)

lemma unsorted_append: "\<not> sorted xs \<Longrightarrow> \<not> sorted (xs @ zs)"
  by (simp add: sorted_append)

lemma measurement_unsorted:
  fixes w settings p
  defines "pt \<equiv> progressPerTest (p \<and> iperfTcpEnabled settings) (p \<and> iperfUdpEnabled settings)"
  assumes tcp: "p \<and> iperfTcpEnabled settings"
    and bad: "\<not> sorted (0 # map (\<lambda>e. unitProgress pt 0
                 (tickPercent (times64 (testDuration settings) 1000) e))
               (exec_ticks (execAsync w
                  (iperfCommand (iperfServerAdrs settings) (testDuration settings) Down TCP))))"
  shows "triple (\<lambda>s. 0 \<in> set (progs (trace s)))
           (measurement w settings p r name n)
           (\<lambda>_ s. \<not> sorted (progs (trace s))) (\<lambda>_ s. True)"
proof -
  let ?c = "iperfCommand (iperfServerAdrs settings) (testDuration settings) Down TCP"
  have first: "\<not> sorted (progs (trace
      (tcpEffect w (iperfServerAdrs settings) (testDuration settings) pt True r s)))"
    if "0 \<in> set (progs (trace s))" "completedTests s = 0" for s
  proof
    assume srt: "sorted (progs (trace
      (tcpEffect w (iperfServerAdrs settings) (testDuration settings) pt True r s)))"
    obtain zs where "progs (trace
        (tcpEffect w (iperfServerAdrs settings) (testDuration settings) pt True r s)) =
      progs (trace s) @ progs (testEvents w ?c pt s) @ zs"
      using tcpEffect_progs by blast
    with srt have "sorted (progs (trace s) @ progs (testEvents w ?c pt s) @ zs)"
      by simp
    with that(1) have "sorted (0 # progs (testEvents w ?c pt s))"
      by (auto simp: sorted_append)
    then have "sorted (0 # map (\<lambda>e. unitProgress pt 0
                 (tickPercent (times64 (testDuration settings) 1000) e))
               (exec_ticks (execAsync w ?c)))"
      by (simp add: progs_testEvents that(2) sorted_append)
    with bad show False by simp
  qed
  have keep0: "triple (\<lambda>s. 0 \<in> set (progs (trace s))) m
      (\<lambda>_ s. 0 \<in> set (progs (trace s))) (\<lambda>_ s. True)"
    if "\<And>s :: run_state. \<exists>zs. progs (trace (snd (m s))) = progs (trace s) @ zs"
    for m :: "'a prog"
    by (rule triple_grows [where Pt = "\<lambda>xs. 0 \<in> set xs", OF that]) simp
  have keep: "triple (\<lambda>s. \<not> sorted (progs (trace s))) m
      (\<lambda>_ s. \<not> sorted (progs (trace s))) (\<lambda>_ s. True)"
    if "\<And>s :: run_state. \<exists>zs. progs (trace (snd (m s))) = progs (trace s) @ zs"
    for m :: "'a prog"
    by (rule triple_grows [where Pt = "\<lambda>xs. \<not> sorted xs", OF that]) (rule unsorted_append)
  show ?thesis
    unfolding measurement_def Let_def pt_def [symmetric]
    apply (rule triple_seq [where R = "\<lambda>s. 0 \<in> set (progs (trace s))"])
     apply (rule triple_assign, simp)
    apply (rule triple_seq [where R = "\<lambda>s. 0 \<in> set (progs (trace s))"])
     apply (rule triple_setDisplay, simp)
    apply (rule triple_bnd [where R = "\<lambda>_ s. 0 \<in> set (progs (trace s))"])
     apply (rule keep0, rule sampleSignal_grows)
    apply (rule triple_seq [where R = "\<lambda>s. 0 \<in> set (progs (trace s))"])
     apply (rule keep0, rule publish_grows)
    apply (rule triple_seq [where R = "\<lambda>s. 0 \<in> set (progs (trace s)) \<and> completedTests s = 0"])
     apply (rule triple_assign, simp)
    apply (rule triple_seq [where R = "\<lambda>s. \<not> sorted (progs (trace s))"])
     apply (rule tripleI)
     apply (simp add: tcpTests_apply tcp first)
    apply (rule triple_seq [where R = "\<lambda>s. \<not> sorted (progs (trace s))"])
     apply (rule keep, rule checkForCancel_grows)
    apply (rule triple_seq [where R = "\<lambda>s. \<not> sorted (progs (trace s))"])
     apply (rule keep, rule publish_grows)
    apply (rule triple_bnd [where R = "\<lambda>_ s. \<not> sorted (progs (trace s))"])
     apply (rule keep, rule sampleSignal_grows)
    apply (rule triple_seq [where R = "\<lambda>s. \<not> sorted (progs (trace s))"])
     apply (rule keep, rule publish_grows)
    apply (rule triple_seq [where R = "\<lambda>s. \<not> sorted (progs (trace s))"])
     apply (rule keep, rule udpTests_grows)
    apply (rule triple_seq [where R = "\<lambda>s. \<not> sorted (progs (trace s))"])
     apply (rule triple_setDisplay, simp)
    apply (rule triple_seq [where R = "\<lambda>s. \<not> sorted (progs (trace s))"])
     apply (rule keep, rule checkForCancel_grows)
    apply (rule triple_seq [where R = "\<lambda>s. \<not> sorted (progs (trace s))"])
     apply (rule keep, rule publish_grows)
    apply (rule triple_bnd [where R = "\<lambda>_ s. \<not> sorted (progs (trace s))"])
     apply (rule keep, rule sampleSignal_grows)
    apply (rule triple_seq [where R = "\<lambda>s. \<not> sorted (progs (trace s))"])
     apply (rule triple_setDisplay, simp)
    apply (rule triple_seq [where R = "\<lambda>s. \<not> sorted (progs (trace s))"])
     apply (rule keep, rule publish_grows)
    apply (rule triple_ret, simp)
    done
qed

text \<open>
  In a run that nothing stops and that has TCP tests, the progress values sent
  are not in order as soon as those of the first test, after the 0 of the
  first message, are not.
\<close>

lemma run_progress_unsorted:
  assumes "admitted w settings" "associated w settings = Some cur" "clear w settings 1"
    and "tcpUnits w settings"
    and "\<not> sorted (0 # map (\<lambda>e. unitProgress
                   (progressPerTest (tcpUnits w settings) (udpUnits w settings)) 0
                   (tickPercent (times64 (testDuration settings) 1000) e))
               (exec_ticks (execAsync w
                  (iperfCommand (iperfServerAdrs settings) (testDuration settings) Down TCP))))"
  shows "\<not> sorted (progs (trace (snd (run w settings ds))))"
proof (rule run_outcome [OF assms(1,2), where st = False and ds = ds], goal_cases)
  case 1
  show ?case by simp
next
  case (2 e s)
  with assms(3) show ?case by simp
next
  case (3 b m a s)
  note fin = finished_trace [OF 3(6)]
  have T: "triple (\<lambda>s. 0 \<in> set (progs (trace s)))
      (measurement w settings (performIperfTestOf w settings) (noIperfTestReasonOf w settings)
         (ssid cur) 1)
      (\<lambda>_ s. \<not> sorted (progs (trace s))) (\<lambda>_ s. True)"
    by (rule measurement_unsorted) (use assms(4,5) in \<open>simp_all add: tcpUnits_def udpUnits_def\<close>)
  have "0 \<in> set (progs (trace (loopState w settings ds)))"
    by (simp add: loopState_def startState_def firstDisplay_def initialStates_def)
  from T [unfolded triple_def, rule_format, OF this] have "\<not> sorted (progs (trace s))"
    by (simp add: 3(2) [unfolded One_nat_def])
  moreover have "trace (snd (run w settings ds)) = trace s"
    by (simp add: 3(1) afterAttempt_finish_trace [OF fin(6)])
  ultimately show ?case by simp
qed

section \<open>Runs of the examples\<close>

lemma backward_run:
  "\<not> sorted (progs (trace (snd (run quietWorld backwardEnabled initialStates))))"
proof (rule run_progress_unsorted)
  show "admitted quietWorld backwardEnabled"
    "associated quietWorld backwardEnabled = Some (homeEntry 40)"
    "clear quietWorld backwardEnabled 1"
    by (simp_all add: quietWorld_def backwardEnabled_def bothEnabled_def admitted_def
        associated_def clear_def sampled_def homeEntry_def)
  show tcp: "tcpUnits quietWorld backwardEnabled"
    by (simp add: tcpUnits_def performIperfTestOf_def quietWorld_def backwardEnabled_def
        bothEnabled_def)
  have udp: "udpUnits quietWorld backwardEnabled"
    by (simp add: udpUnits_def performIperfTestOf_def quietWorld_def backwardEnabled_def
        bothEnabled_def)
  have d: "testDuration backwardEnabled = - 1"
    by (simp add: backwardEnabled_def)
  have t: "exec_ticks (execAsync quietWorld c) = [200, 400]" for c
    by (simp add: quietWorld_def)
  show "\<not> sorted (0 # map (\<lambda>e. unitProgress
                   (progressPerTest (tcpUnits quietWorld backwardEnabled)
                      (udpUnits quietWorld backwardEnabled)) 0
                   (tickPercent (times64 (testDuration backwardEnabled) 1000) e))
               (exec_ticks (execAsync quietWorld
                  (iperfCommand (iperfServerAdrs backwardEnabled)
                     (testDuration backwardEnabled) Down TCP))))"
    by (simp add: tcp udp d t progressPerTest_value tickPercent_values unitProgress_values)
qed

lemma rewinding_run:
  "\<not> sorted (progs (trace (snd (run rewindingWorld bothEnabled initialStates))))"
proof (rule run_progress_unsorted)
  show "admitted rewindingWorld bothEnabled"
    "associated rewindingWorld bothEnabled = Some (homeEntry 40)"
    "clear rewindingWorld bothEnabled 1"
    by (simp_all add: rewindingWorld_def quietWorld_def bothEnabled_def admitted_def
        associated_def clear_def sampled_def homeEntry_def)
  show tcp: "tcpUnits rewindingWorld bothEnabled"
    by (simp add: tcpUnits_def performIperfTestOf_def rewindingWorld_def quietWorld_def
        bothEnabled_def)
  have udp: "udpUnits rewindingWorld bothEnabled"
    by (simp add: udpUnits_def performIperfTestOf_def rewindingWorld_def quietWorld_def
        bothEnabled_def)
  have d: "testDuration bothEnabled = 1"
    by (simp add: bothEnabled_def)
  have t: "exec_ticks (execAsync rewindingWorld c) = [400, 200]" for c
    by (simp add: rewindingWorld_def)
  show "\<not> sorted (0 # map (\<lambda>e. unitProgress
                   (progressPerTest (tcpUnits rewindingWorld bothEnabled)
                      (udpUnits rewindingWorld bothEnabled)) 0
                   (tickPercent (times64 (testDuration bothEnabled) 1000) e))
               (exec_ticks (execAsync rewindingWorld
                  (iperfCommand (iperfServerAdrs bothEnabled)
                     (testDuration bothEnabled) Down TCP))))"
    by (simp add: tcp udp d t progressPerTest_value tickPercent_values unitProgress_values)
qed

lemma reset_run:
  "\<not> sorted (progs (trace (snd (run resetWorld bothEnabled initialStates))))"
proof (rule run_progress_unsorted)
  show "admitted resetWorld bothEnabled"
    "associated resetWorld bothEnabled = Some (homeEntry 40)"
    "clear resetWorld bothEnabled 1"
    by (simp_all add: resetWorld_def quietWorld_def bothEnabled_def admitted_def
        associated_def clear_def sampled_def homeEntry_def)
  show tcp: "tcpUnits resetWorld bothEnabled"
    by (simp add: tcpUnits_def performIperfTestOf_def resetWorld_def quietWorld_def
        bothEnabled_def)
  have udp: "udpUnits resetWorld bothEnabled"
    by (simp add: udpUnits_def performIperfTestOf_def resetWorld_def quietWorld_def
        bothEnabled_def)
  have d: "testDuration bothEnabled = 1"
    by (simp add: bothEnabled_def)
  have t: "exec_ticks (execAsync resetWorld c) = [- 200]" for c
    by (simp add: resetWorld_def)
  show "\<not> sorted (0 # map (\<lambda>e. unitProgress
                   (progressPerTest (tcpUnits resetWorld bothEnabled)
                      (udpUnits resetWorld bothEnabled)) 0
                   (tickPercent (times64 (testDuration bothEnabled) 1000) e))
               (exec_ticks (execAsync resetWorld
                  (iperfCommand (iperfServerAdrs bothEnabled)
                     (testDuration bothEnabled) Down TCP))))"
    by (simp add: tcp udp d t progressPerTest_value tickPercent_values unitProgress_values)
qed

lemma stray_run:
  "sent (trace (snd (run strayWorld bothEnabled initialStates))) =
     [getUpdatedMessage (firstDisplay strayWorld bothEnabled), errorMessage]"
  using run_not_associated [OF strayWorld_facts, of initialStates] by simp

lemma run_refused:
  assumes "preflightSettings w settings = Inr pre" "reason pre \<noteq> ''''"
  shows "fst (run w settings ds) = Inr \<lparr>iperfData = None, wifiData = None, status = reason pre\<rparr>"
    and "sent (trace (snd (run w settings ds))) = []"
  using assms by (simp_all add: run_def runSurveyTests_def bnd_def startState_def)

lemma run_succeeds:
  assumes "admitted w settings" "associated w settings = Some cur" "clear w settings 1"
    and "sampled w settings 1 Before = Some b" "sampled w settings 1 After = Some a"
    and "validateWifiDataConsistency b a"
  shows "\<exists>x m. fst (run w settings ds) = Inr x \<and> status x = '''' \<and> wifiData x \<noteq> None \<and>
           iperfData x \<noteq> None \<and>
           doneMessages (trace (snd (run w settings ds))) = [m] \<and>
           msg_header m = ''Measurement complete''"
proof -
  from assms(2) have cur: "associated w settings \<noteq> None" by simp
  from run_consistent [OF assms, of ds] run_doneMessages(4) [OF assms(1) cur assms(3), of ds]
  show ?thesis by blast
qed

lemma run_at_most_one_done:
  "length (doneMessages (trace (snd (run w settings ds)))) \<le> 1"
proof (cases "admitted w settings")
  case False
  then show ?thesis by (simp add: run_doneMessages(1))
next
  case adm: True
  show ?thesis
  proof (cases "associated w settings = None")
    case True
    with adm show ?thesis by (simp add: run_doneMessages(2))
  next
    case cur: False
    show ?thesis
    proof (cases "clear w settings 1")
      case True
      from run_doneMessages(4) [OF adm cur True, of ds] show ?thesis by auto
    next
      case False
      from run_doneMessages(3) [OF adm cur False, of ds] show ?thesis by simp
    qed
  qed
qed

section \<open>The behaviour of the module\<close>

text \<open>
  Claim C1. In a run in which the laptop roams, the two entries that the
  consistency check compares differ in \<^verbatim>\<open>bssid\<close>, and the call resolves to a
  result whose status is the empty string, the status of success, with the
  bandwidth results in it and no Wi-Fi entry.
\<close>

theorem roaming_run_resolves_with_empty_status:
  "sampled roamingWorld bothEnabled 1 Before = Some (homeEntry 40) \<and>
   sampled roamingWorld bothEnabled 1 After = Some ((homeEntry 46)\<lparr>bssid := ''11:22:33:44:55:66''\<rparr>) \<and>
   \<not> validateWifiDataConsistency (homeEntry 40) ((homeEntry 46)\<lparr>bssid := ''11:22:33:44:55:66''\<rparr>) \<and>
   (\<exists>x. fst (run roamingWorld bothEnabled initialStates) = Inr x \<and> status x = '''' \<and>
      wifiData x = None \<and> iperfData x \<noteq> None)"
  using roamingWorld_facts(4,5,6) run_inconsistent [OF roamingWorld_facts, of initialStates]
  by simp

text \<open>
  Claim C2. A run sends at most one message of type \<^verbatim>\<open>done\<close>. A run that
  the preflight check refuses resolves with the reason as its status and has
  sent no message at all. A run in which an error leaves the survey, as when
  the scan fails or has no associated entry, is rejected and has sent exactly
  one message of type \<^verbatim>\<open>done\<close>, the one of the outer \<^verbatim>\<open>catch\<close> block. A run
  that nothing stops and whose consistency check passes resolves with the
  empty status and a Wi-Fi entry and has sent exactly one message of type
  \<^verbatim>\<open>done\<close>, "Measurement complete".
\<close>

theorem done_messages_of_a_run:
  "length (doneMessages (trace (snd (run w settings ds)))) \<le> 1 \<and>
   (\<forall>pre. preflightSettings w settings = Inr pre \<and> reason pre \<noteq> '''' \<longrightarrow>
      fst (run w settings ds) =
        Inr \<lparr>iperfData = None, wifiData = None, status = reason pre\<rparr> \<and>
      sent (trace (snd (run w settings ds))) = []) \<and>
   (admitted w settings \<and> associated w settings = None \<longrightarrow>
      (\<exists>e. fst (run w settings ds) = Inl e) \<and>
      doneMessages (trace (snd (run w settings ds))) = [errorMessage]) \<and>
   (\<forall>cur b a.
      admitted w settings \<and> associated w settings = Some cur \<and> clear w settings 1 \<and>
      sampled w settings 1 Before = Some b \<and> sampled w settings 1 After = Some a \<and>
      validateWifiDataConsistency b a \<longrightarrow>
      (\<exists>x m. fst (run w settings ds) = Inr x \<and> status x = '''' \<and> wifiData x \<noteq> None \<and>
         iperfData x \<noteq> None \<and>
         doneMessages (trace (snd (run w settings ds))) = [m] \<and>
         msg_header m = ''Measurement complete''))"
proof (intro conjI allI impI)
  show "length (doneMessages (trace (snd (run w settings ds)))) \<le> 1"
    by (rule run_at_most_one_done)
next
  fix pre
  assume "preflightSettings w settings = Inr pre \<and> reason pre \<noteq> ''''"
  then show "fst (run w settings ds) =
      Inr \<lparr>iperfData = None, wifiData = None, status = reason pre\<rparr>"
    and "sent (trace (snd (run w settings ds))) = []"
    by (simp_all add: run_refused)
next
  assume a: "admitted w settings \<and> associated w settings = None"
  with run_not_associated [of w settings ds] show "\<exists>e. fst (run w settings ds) = Inl e"
    by simp
  from a show "doneMessages (trace (snd (run w settings ds))) = [errorMessage]"
    by (simp add: run_doneMessages(2))
next
  fix cur b a
  assume "admitted w settings \<and> associated w settings = Some cur \<and> clear w settings 1 \<and>
      sampled w settings 1 Before = Some b \<and> sampled w settings 1 After = Some a \<and>
      validateWifiDataConsistency b a"
  then have "admitted w settings" "associated w settings = Some cur" "clear w settings 1"
    "sampled w settings 1 Before = Some b" "sampled w settings 1 After = Some a"
    "validateWifiDataConsistency b a"
    by simp_all
  then show "\<exists>x m. fst (run w settings ds) = Inr x \<and> status x = '''' \<and> wifiData x \<noteq> None \<and>
         iperfData x \<noteq> None \<and>
         doneMessages (trace (snd (run w settings ds))) = [m] \<and>
         msg_header m = ''Measurement complete''"
    by (rule run_succeeds)
qed

theorem done_messages_of_a_run_witness:
  "preflightSettings refusingWorld bothEnabled =
     Inr \<lparr>reason = ''Please set iperf server address''\<rparr> \<and>
   fst (run refusingWorld bothEnabled initialStates) =
     Inr \<lparr>iperfData = None, wifiData = None, status = ''Please set iperf server address''\<rparr> \<and>
   sent (trace (snd (run refusingWorld bothEnabled initialStates))) = [] \<and>
   admitted strayWorld bothEnabled \<and> associated strayWorld bothEnabled = None \<and>
   doneMessages (trace (snd (run strayWorld bothEnabled initialStates))) = [errorMessage] \<and>
   admitted quietWorld bothEnabled \<and> associated quietWorld bothEnabled = Some (homeEntry 40) \<and>
   clear quietWorld bothEnabled 1 \<and> validateWifiDataConsistency (homeEntry 40) (homeEntry 46) \<and>
   length (doneMessages (trace (snd (run quietWorld bothEnabled initialStates)))) = 1"
proof -
  have p: "preflightSettings refusingWorld bothEnabled =
     Inr \<lparr>reason = ''Please set iperf server address''\<rparr>"
    by (simp add: refusingWorld_def quietWorld_def)
  note r = done_messages_of_a_run [of refusingWorld bothEnabled initialStates,
      THEN conjunct2, THEN conjunct1, rule_format,
      of "\<lparr>reason = ''Please set iperf server address''\<rparr>"]
  note s = done_messages_of_a_run [of strayWorld bothEnabled initialStates,
      THEN conjunct2, THEN conjunct2, THEN conjunct1, rule_format]
  note q = done_messages_of_a_run [of quietWorld bothEnabled initialStates,
      THEN conjunct2, THEN conjunct2, THEN conjunct2, rule_format,
      of "homeEntry 40" "homeEntry 40" "homeEntry 46"]
  from r p have "fst (run refusingWorld bothEnabled initialStates) =
     Inr \<lparr>iperfData = None, wifiData = None, status = ''Please set iperf server address''\<rparr> \<and>
   sent (trace (snd (run refusingWorld bothEnabled initialStates))) = []"
    by simp
  moreover from s strayWorld_facts
  have "doneMessages (trace (snd (run strayWorld bothEnabled initialStates))) = [errorMessage]"
    by simp
  moreover from q quietWorld_facts(1,2,3,4,6,7)
  have "length (doneMessages (trace (snd (run quietWorld bothEnabled initialStates)))) = 1"
    by auto
  ultimately show ?thesis
    using p strayWorld_facts quietWorld_facts(1,2,3,7) by simp
qed

text \<open>
  Claim C2. A run that the preflight check refuses resolves with the reason as
  its status and has sent no message of type \<^verbatim>\<open>done\<close>; a run that the
  operator stops after the first signal sample resolves with the status
  "test was cancelled" and has sent none either.
\<close>

theorem refused_and_stopped_runs_send_no_done_message:
  "fst (run refusingWorld bothEnabled initialStates) =
     Inr \<lparr>iperfData = None, wifiData = None, status = ''Please set iperf server address''\<rparr> \<and>
   doneMessages (trace (snd (run refusingWorld bothEnabled initialStates))) = [] \<and>
   fst (run stoppedWorld bothEnabled initialStates) =
     Inr \<lparr>iperfData = None, wifiData = None, status = ''test was cancelled''\<rparr> \<and>
   doneMessages (trace (snd (run stoppedWorld bothEnabled initialStates))) = []"
  using refusingWorld_run run_doneMessages(1) [OF refusingWorld_run(1), of initialStates]
    run_doneMessages(3) [OF stoppedWorld_facts(1) _ stoppedWorld_facts(3), of initialStates]
    stoppedWorld_run
  by (simp add: stoppedWorld_facts(2))

text \<open>
  Claim C3. For a document with a completion section, the throughput comes from
  \<^verbatim>\<open>sum_received\<close> for TCP on the newer schema (split section present), from
  \<^verbatim>\<open>sum\<close> for UDP on the newer schema and for both protocols on the older one
  (a figure of zero reading as null); the retransmit count comes from
  \<^verbatim>\<open>sum_sent\<close> on the newer schema and from \<^verbatim>\<open>sum\<close> on the older one, whatever
  the protocol.
\<close>

theorem extractIperfData_sources:
  assumes "result_end result = Some e"
  shows "(end_sum_received e \<noteq> None \<longrightarrow>
            bitsPerSecond (extractIperfData result False)
              = zeroAsNull (Option.bind (end_sum_received e) sum_received_bits_per_second) \<and>
            bitsPerSecond (extractIperfData result True)
              = zeroAsNull (Option.bind (end_sum e) sum_bits_per_second) \<and>
            retransmits (extractIperfData result isUdp)
              = Option.bind (end_sum_sent e) sum_sent_retransmits) \<and>
         (end_sum_received e = None \<longrightarrow>
            bitsPerSecond (extractIperfData result isUdp)
              = zeroAsNull (Option.bind (end_sum e) sum_bits_per_second) \<and>
            retransmits (extractIperfData result isUdp)
              = Option.bind (end_sum e) sum_retransmits)"
  using assms
  by (simp add: extractIperfData_bitsPerSecond extractIperfData_retransmits
      selectedThroughput_def selectedRetransmits_def)

theorem extractIperfData_sources_witness:
  "result_end newerPayload = Some newerEnd \<and>
   bitsPerSecond (extractIperfData newerPayload False) = Some 948000000 \<and>
   bitsPerSecond (extractIperfData newerPayload True) = Some 51000000 \<and>
   retransmits (extractIperfData newerPayload True) = Some 12"
  using extractIperfData_sources [of newerPayload newerEnd True]
  by (simp add: newerPayload_def newerEnd_def zeroAsNull_def)

text \<open>
  Claim C4. \<^verbatim>\<open>runSingleTest\<close> never throws: it always resolves to a result. When
  the subprocess fails, when its output does not parse, and when the parsed
  document has no \<^verbatim>\<open>end\<close> section, the result is the null results, in which
  \<^verbatim>\<open>bitsPerSecond\<close>, \<^verbatim>\<open>retransmits\<close>, \<^verbatim>\<open>jitterMs\<close>, \<^verbatim>\<open>lostPackets\<close>
  and \<^verbatim>\<open>packetsReceived\<close> are null.
\<close>

theorem runSingleTest_never_throws:
  "(\<exists>r. fst (runSingleTest w server duration testDir testType onProgress s) = Inr r) \<and>
   (testFails w (iperfCommand server duration testDir testType) \<longrightarrow>
      fst (runSingleTest w server duration testDir testType onProgress s) = Inr nullResults) \<and>
   bitsPerSecond nullResults = None \<and> retransmits nullResults = None \<and>
   jitterMs nullResults = None \<and> lostPackets nullResults = None \<and>
   packetsReceived nullResults = None"
proof -
  have "testFails w c \<Longrightarrow> testOutcome w c u = nullResults" for c u
    by (auto simp: testFails_def testOutcome_def extractIperfData_no_end split: sum.splits)
  then show ?thesis
    by (simp add: runSingleTest_result nullResults_def)
qed

theorem runSingleTest_never_throws_witness:
  "testFails brokenPipe (iperfCommand ''192.168.1.10:5201'' 1 Down TCP) \<and>
   fst (runSingleTest brokenPipe ''192.168.1.10:5201'' 1 Down TCP None
          (startState brokenPipe initialStates)) = Inr nullResults"
  using runSingleTest_never_throws [of brokenPipe "''192.168.1.10:5201''" 1 Down TCP None
      "startState brokenPipe initialStates"]
  by (simp add: testFails_def brokenPipe_def quietWorld_def)

text \<open>
  Claim C5. A document whose selected throughput figure is exactly zero and the
  same document with that figure absent give the same \<^verbatim>\<open>bitsPerSecond\<close>, namely
  null; and no document at all gives a \<^verbatim>\<open>bitsPerSecond\<close> of zero.
\<close>

theorem extractIperfData_zero_is_null:
  "bitsPerSecond (extractIperfData (withThroughput (Some 0) isUdp result) isUdp)
     = bitsPerSecond (extractIperfData (withThroughput None isUdp result) isUdp) \<and>
   bitsPerSecond (extractIperfData (withThroughput (Some 0) isUdp result) isUdp) = None \<and>
   bitsPerSecond (extractIperfData result isUdp) \<noteq> Some 0"
proof (cases "result_end result")
  case None
  then show ?thesis
    by (simp add: withThroughput_def extractIperfData_no_end nullResults_def)
next
  case (Some e)
  from withThroughput_end [OF Some, of "Some 0" isUdp] withThroughput_end [OF Some, of None isUdp]
  show ?thesis
    by (auto simp: extractIperfData_bitsPerSecond zeroAsNull_def bitsPerSecond_never_zero)
qed

text \<open>
  Claim C6. When the cancellation flag is found set at the checkpoint right
  after the first signal sample, the call resolves at once to the status
  "test was cancelled" with no bandwidth results and no Wi-Fi entry: the
  attempt is not repeated (\<^verbatim>\<open>getWifi\<close> was called once) and no bandwidth test
  was started. This holds whichever protocols are enabled, both in particular.
\<close>

theorem cancel_after_first_sample:
  assumes "admitted w settings"
    and "associated w settings = Some cur"
    and "sampled w settings 1 Before = Some b"
    and "getCancelFlag w 1 AfterBefore"
  shows "fst (run w settings ds) =
           Inr \<lparr>iperfData = None, wifiData = None, status = ''test was cancelled''\<rparr> \<and>
         trace (snd (run w settings ds)) = trace (loopState w settings ds) @ [Called GetWifi] \<and>
         spawned (trace (snd (run w settings ds))) = []"
proof -
  let ?M = "measurement w settings (performIperfTestOf w settings) (noIperfTestReasonOf w settings)
          (ssid cur) 1 (loopState w settings ds)"
  have "fst ?M = Inl (Error ''cancelled'')"
    and tr: "trace (snd ?M) = trace (loopState w settings ds) @ [Called GetWifi]"
    by (simp_all add: measurement_def Let_def seq_def bnd_def
        sampleSignal_cancelled [OF assms(3,4), unfolded One_nat_def])
  then obtain s' where M: "?M = (Inl (Error ''cancelled''), s')"
    and s': "trace s' = trace (loopState w settings ds) @ [Called GetWifi]"
    by (cases ?M) simp
  have run: "run w settings ds =
      (Inr \<lparr>iperfData = None, wifiData = None, status = ''test was cancelled''\<rparr>, s')"
    by (simp add: run_admitted [OF assms(1,2)] attempt_def bnd_def M [unfolded One_nat_def]
        afterAttempt_def)
  have "spawned (trace (loopState w settings ds)) = []"
    by (simp add: loopState_def startState_def)
  with run s' show ?thesis by simp
qed

theorem cancel_after_first_sample_witness:
  "admitted stoppedWorld bothEnabled \<and>
   associated stoppedWorld bothEnabled = Some (homeEntry 40) \<and>
   sampled stoppedWorld bothEnabled 1 Before = Some (homeEntry 40) \<and>
   getCancelFlag stoppedWorld 1 AfterBefore \<and>
   iperfTcpEnabled bothEnabled \<and> iperfUdpEnabled bothEnabled \<and>
   fst (run stoppedWorld bothEnabled initialStates) =
     Inr \<lparr>iperfData = None, wifiData = None, status = ''test was cancelled''\<rparr> \<and>
   spawned (trace (snd (run stoppedWorld bothEnabled initialStates))) = []"
proof -
  have h1: "admitted stoppedWorld bothEnabled"
    by (simp add: stoppedWorld_def quietWorld_def bothEnabled_def admitted_def)
  have h2: "associated stoppedWorld bothEnabled = Some (homeEntry 40)"
    by (simp add: stoppedWorld_def quietWorld_def associated_def homeEntry_def)
  have h3: "sampled stoppedWorld bothEnabled 1 Before = Some (homeEntry 40)"
    by (simp add: stoppedWorld_def quietWorld_def sampled_def)
  have h4: "getCancelFlag stoppedWorld 1 AfterBefore"
    by (simp add: stoppedWorld_def)
  show ?thesis
    using h1 h2 h3 h4 cancel_after_first_sample [OF h1 h2 h3 h4, of initialStates]
    by (simp add: bothEnabled_def loopState_def startState_def)
qed

text \<open>
  Claim C7. If the clock behaves in the bandwidth tests (the duration is
  positive and the elapsed times at the ticks of the timer are not negative
  and do not decrease), or if no test is run, the progress values of the
  messages that a run sends are in non-decreasing order. Every message of type
  \<^verbatim>\<open>done\<close> that publishes the progress state carries the progress 100; the
  only other message of that type is the one of the outer \<^verbatim>\<open>catch\<close> block,
  which has no progress field. The number of units is twice the number of
  enabled protocols; the share of a unit is 100 divided by that number, the
  shares add up to 100, and a unit leaves the progress at the shares of the
  units completed with it. With no unit enabled every progress value sent is 0
  or 100.
\<close>

theorem progress_accounting:
  "(steady w settings \<or> \<not> (tcpUnits w settings \<or> udpUnits w settings) \<longrightarrow>
      sorted (progs (trace (snd (run w settings ds))))) \<and>
   (\<forall>m \<in> set (sent (trace (snd (run w settings ds)))).
      msg_type m = ''done'' \<longrightarrow> msg_progress m = Some 100 \<or> m = errorMessage) \<and>
   totalTests tcpEn udpEn = 2 * (if tcpEn then 1 else 0) + 2 * (if udpEn then 1 else 0) \<and>
   (tcpEn \<or> udpEn \<longrightarrow>
      progressPerTest tcpEn udpEn = 100 / real (totalTests tcpEn udpEn) \<and>
      real (totalTests tcpEn udpEn) * progressPerTest tcpEn udpEn = 100 \<and>
      (completedTests s \<le> 3 \<longrightarrow>
         real_of_int (progress (displayStates
            (snd (runSingleTest w server duration testDir testType
               (Some (createProgressCallback (progressPerTest tcpEn udpEn))) s)))) =
         real (completedTests s + 1) * progressPerTest tcpEn udpEn)) \<and>
   (\<not> tcpUnits w settings \<and> \<not> udpUnits w settings \<longrightarrow>
      list_all (\<lambda>p. p = 0 \<or> p = 100) (progs (trace (snd (run w settings ds)))))"
proof -
  have "totalTests tcpEn udpEn = 2 * (if tcpEn then 1 else 0) + 2 * (if udpEn then 1 else 0)"
    by (simp add: totalTests_def)
  moreover have "progressPerTest tcpEn udpEn = 100 / real (totalTests tcpEn udpEn) \<and>
      real (totalTests tcpEn udpEn) * progressPerTest tcpEn udpEn = 100"
    if "tcpEn \<or> udpEn"
    using that by (auto simp: progressPerTest_value totalTests_def)
  moreover have "real_of_int (progress (displayStates
            (snd (runSingleTest w server duration testDir testType
               (Some (createProgressCallback (progressPerTest tcpEn udpEn))) s)))) =
         real (completedTests s + 1) * progressPerTest tcpEn udpEn"
    if "tcpEn \<or> udpEn" "completedTests s \<le> 3"
  proof -
    from that(1) have sh: "progressPerTest tcpEn udpEn = 25 \<or> progressPerTest tcpEn udpEn = 50"
      by (rule progressPerTest_share)
    from sh show ?thesis
      by (auto simp: unit_progress [OF sh that(2)] Math_round_def)
  qed
  ultimately show ?thesis
    using run_progress_sorted [of w settings ds] run_no_units [of w settings ds]
      run_done_progress [of _ w settings ds]
    by blast
qed

theorem progress_accounting_witness:
  "steady quietWorld bothEnabled \<and>
   sorted (progs (trace (snd (run quietWorld bothEnabled initialStates)))) \<and>
   (\<exists>m. doneMessages (trace (snd (run quietWorld bothEnabled initialStates))) = [m] \<and>
        msg_progress m = Some 100) \<and>
   progressPerTest True True = 25 \<and>
   \<not> tcpUnits quietWorld localEnabled \<and> \<not> udpUnits quietWorld localEnabled \<and>
   list_all (\<lambda>p. p = 0 \<or> p = 100) (progs (trace (snd (run quietWorld localEnabled initialStates))))"
proof -
  note acc = progress_accounting [of quietWorld bothEnabled initialStates True True]
  from run_doneMessages(4) [of quietWorld bothEnabled initialStates] quietWorld_facts(1,2,3)
  obtain m where m: "doneMessages (trace (snd (run quietWorld bothEnabled initialStates))) = [m]"
    "msg_header m = ''Measurement complete''"
    by auto
  from m(1) have "m \<in> set (doneMessages (trace (snd (run quietWorld bothEnabled initialStates))))"
    by simp
  then have mem: "m \<in> set (sent (trace (snd (run quietWorld bothEnabled initialStates))))"
    and ty: "msg_type m = ''done''"
    by (simp_all add: doneMessages_def)
  from acc [THEN conjunct2, THEN conjunct1, rule_format, OF mem ty] m(2)
  have "msg_progress m = Some 100"
    by (auto simp: errorMessage_def)
  with m(1) have dn: "\<exists>m. doneMessages (trace (snd (run quietWorld bothEnabled initialStates))) = [m] \<and>
        msg_progress m = Some 100"
    by blast
  have share: "progressPerTest True True = 25"
    using acc [THEN conjunct2, THEN conjunct2] by (simp add: totalTests_def)
  have srt: "sorted (progs (trace (snd (run quietWorld bothEnabled initialStates))))"
    using acc [THEN conjunct1] steady_quietWorld by blast
  have zero: "list_all (\<lambda>p. p = 0 \<or> p = 100)
      (progs (trace (snd (run quietWorld localEnabled initialStates))))"
    using progress_accounting [of quietWorld localEnabled initialStates, THEN conjunct2,
        THEN conjunct2, THEN conjunct2, THEN conjunct2]
      localEnabled_facts
    by blast
  from dn share srt zero steady_quietWorld localEnabled_facts show ?thesis
    by blast
qed

text \<open>
  Claim C7. The progress values fall in a run whose test duration is negative,
  in a run during which the clock is set back between two ticks of the timer,
  and in a run during which it is set back before the first tick. In a run
  whose scan has no associated entry the message of type \<^verbatim>\<open>done\<close> has no
  progress field.
\<close>

theorem progress_falls_when_the_clock_misbehaves:
  "\<not> sorted (progs (trace (snd (run quietWorld backwardEnabled initialStates)))) \<and>
   \<not> sorted (progs (trace (snd (run rewindingWorld bothEnabled initialStates)))) \<and>
   \<not> sorted (progs (trace (snd (run resetWorld bothEnabled initialStates)))) \<and>
   sent (trace (snd (run strayWorld bothEnabled initialStates))) =
     [getUpdatedMessage (firstDisplay strayWorld bothEnabled), errorMessage] \<and>
   msg_type errorMessage = ''done'' \<and> msg_progress errorMessage = None"
  using backward_run rewinding_run reset_run stray_run
  by (simp add: errorMessage_def)

text \<open>
  Claim C8. Whenever the call resolves to a result with a Wi-Fi entry, the
  \<^verbatim>\<open>signalStrength\<close> of the entry is the rounded mean of the three samples taken
  before, between and after the bandwidth tests, and its \<^verbatim>\<open>rssi\<close> is
  \<^verbatim>\<open>percentageToRssi\<close> of that mean; the other fields are those of the first
  sample. The samples are whole percentages: their sum is computed without
  rounding, the rounding of its third does not cross a half, and the decimal
  text of the mean is read back exactly.
\<close>

theorem returned_entry_has_mean_strength:
  assumes "fst (run w settings ds) = Inr x"
    and "wifiData x = Some y"
    and "percentages w settings 1"
  shows "\<exists>b m a.
           sampled w settings 1 Before = Some b \<and> sampled w settings 1 Middle = Some m \<and>
           sampled w settings 1 After = Some a \<and>
           signalStrength y =
             real_of_int (Math_round
               ((signalStrength b + signalStrength m + signalStrength a) / 3)) \<and>
           rssi y = percentageToRssi w (signalStrength y) \<and>
           y = b\<lparr>signalStrength := signalStrength y, rssi := rssi y\<rparr>"
proof (cases "admitted w settings")
  case False
  from run_not_admitted [OF False, of ds] assms(1,2) show ?thesis by auto
next
  case True
  show ?thesis
  proof (cases "associated w settings")
    case None
    from run_not_associated [OF True None, of ds] assms(1) show ?thesis by auto
  next
    case (Some cur)
    show ?thesis
    proof (rule run_outcome [OF True Some, where st = False and ds = ds], goal_cases)
      case 1
      show ?case by simp
    next
      case (2 e s)
      from 2(2) have "newWifiData s = None" by (simp add: aborted_def)
      with afterAttempt_stopped(2) [of e s] 2(1) assms(1,2) show ?case by auto
    next
      case (3 b m a s)
      note fin = finished_trace [OF 3(6)]
      show ?case
      proof (cases "validateWifiDataConsistency b a")
        case False
        with 3(1) fin(5) assms(1,2) show ?thesis
          by (auto simp: afterAttempt_invalid)
      next
        case True
        from assms(3) 3(3,4,5) have whole: "wholePercent (signalStrength b)"
          "wholePercent (signalStrength m)" "wholePercent (signalStrength a)"
          by (simp_all add: percentages_def)
        from 3(1) assms(1,2) have
          "y = b\<lparr>signalStrength :=
                   real_of_int (arrayAverage [signalStrength b, signalStrength m, signalStrength a]),
                rssi := percentageToRssi w
                   (real_of_int (arrayAverage [signalStrength b, signalStrength m, signalStrength a]))\<rparr>"
          by (auto simp: afterAttempt_valid [OF True fin(6)])
        with 3(3,4,5) show ?thesis
          by (simp add: arrayAverage_three [OF whole])
      qed
    qed
  qed
qed

theorem returned_entry_has_mean_strength_witness:
  "percentages quietWorld bothEnabled 1 \<and>
   (\<exists>x y. fst (run quietWorld bothEnabled initialStates) = Inr x \<and> wifiData x = Some y \<and>
      signalStrength y = 43 \<and> rssi y = percentageToRssi quietWorld 43)"
proof -
  from run_consistent [OF quietWorld_facts(1,2,3,4,6,7), of initialStates]
  obtain x y where x: "fst (run quietWorld bothEnabled initialStates) = Inr x"
    and y: "wifiData x = Some y"
    by (elim exE conjE)
  from returned_entry_has_mean_strength [OF x y quietWorld_facts(8)]
  have "signalStrength y = 43 \<and> rssi y = percentageToRssi quietWorld 43"
    by (elim exE conjE)
      (auto simp: quietWorld_facts(4,5,6) [unfolded One_nat_def] homeEntry_def Math_round_def)
  with x y quietWorld_facts(8) show ?thesis by blast
qed

text \<open>
  Claim C9. In a run that takes its three samples and finds the flag set at no
  checkpoint, the measurement ends by sending the message "Measurement
  complete" of type \<^verbatim>\<open>done\<close>, and the consistency check is made in the state
  that this leaves: the message is the last event of the run whether the check
  passes or fails, and when it fails the error is thrown after the message.
\<close>

theorem done_message_precedes_validation:
  assumes "admitted w settings"
    and "associated w settings = Some cur"
    and "clear w settings 1"
  shows "\<exists>b a s es.
           measurement w settings (performIperfTestOf w settings) (noIperfTestReasonOf w settings)
             (ssid cur) 1 (loopState w settings ds) = (Inr (b, a), s) \<and>
           sampled w settings 1 Before = Some b \<and> sampled w settings 1 After = Some a \<and>
           trace s = es @ [Sent (getUpdatedMessage (displayStates s))] \<and>
           type (displayStates s) = ''done'' \<and>
           header (displayStates s) = ''Measurement complete'' \<and>
           run w settings ds = afterAttempt (finishAttempt w b a s) \<and>
           trace (snd (run w settings ds)) = trace s \<and>
           (\<not> validateWifiDataConsistency b a \<longrightarrow>
              finishAttempt w b a s =
                (Inl (Error ''Wifi configuration changed between scans! Cancelling instead of giving wrong results.''), s))"
proof (rule run_outcome [OF assms(1,2), where st = False and ds = ds], goal_cases)
  case 1
  show ?case by simp
next
  case (2 e s)
  with assms(3) show ?case by simp
next
  case (3 b m a s)
  note fin = finished_trace [OF 3(6)]
  from fin(1) obtain es where es: "trace s = es @ [Sent (getUpdatedMessage (displayStates s))]"
    by blast
  have "trace (snd (run w settings ds)) = trace s"
    by (simp add: 3(1) afterAttempt_finish_trace [OF fin(6)])
  with 3 es fin show ?case
    by (auto simp: finishAttempt_invalid)
qed

theorem done_message_precedes_validation_witness:
  "admitted roamingWorld bothEnabled \<and>
   associated roamingWorld bothEnabled = Some (homeEntry 40) \<and>
   clear roamingWorld bothEnabled 1 \<and>
   \<not> validateWifiDataConsistency (homeEntry 40) ((homeEntry 46)\<lparr>bssid := ''11:22:33:44:55:66''\<rparr>) \<and>
   msg_type (last (sent (trace (snd (run roamingWorld bothEnabled initialStates))))) = ''done'' \<and>
   msg_header (last (sent (trace (snd (run roamingWorld bothEnabled initialStates)))))
     = ''Measurement complete''"
proof -
  have "msg_type (last (sent (trace (snd (run roamingWorld bothEnabled initialStates))))) = ''done'' \<and>
        msg_header (last (sent (trace (snd (run roamingWorld bothEnabled initialStates)))))
          = ''Measurement complete''"
    using done_message_precedes_validation [OF roamingWorld_facts(1,2,3), of initialStates]
    apply (elim exE conjE)
    apply (simp only:)
    apply simp
    done
  then show ?thesis
    using roamingWorld_facts by simp
qed

text \<open>
  Claim C10. When the scan resolves to a snapshot in which no entry is marked as
  the associated network, the call does not resolve to a result: reading
  \<^verbatim>\<open>ssid\<close> of the first element of the empty list throws a \<^verbatim>\<open>TypeError\<close>, the
  outer \<^verbatim>\<open>catch\<close> block sends the message "Error taking measurements" of type
  \<^verbatim>\<open>done\<close>, and the call is rejected with that error.
\<close>

theorem scan_without_associated_entry:
  assumes "admitted w settings"
    and "scanWifi w settings = Inr ssids"
    and "filter currentSSID (SSIDs ssids) = []"
  shows "fst (run w settings ds) = Inl (TypeError
            (''Cannot read properties of undefined (reading '' @ [CHR 0x27] @ ''ssid''
             @ [CHR 0x27] @ '')'')) \<and>
         sent (trace (snd (run w settings ds))) =
           [getUpdatedMessage (firstDisplay w settings), errorMessage] \<and>
         msg_type errorMessage = ''done'' \<and>
         msg_status errorMessage = ''Error taking measurements''"
proof -
  from assms(1) obtain pre where pre: "preflightSettings w settings = Inr pre" "reason pre = ''''"
    by (auto simp: admitted_def split: sum.splits)
  have none: "associated w settings = None"
    using assms(2,3) by (simp add: associated_def)
  have "fst (run w settings ds) = Inl (TypeError
            (''Cannot read properties of undefined (reading '' @ [CHR 0x27] @ ''ssid''
             @ [CHR 0x27] @ '')''))"
  proof (cases "iperfServerAdrs settings = ''localhost''")
    case True
    then show ?thesis
      using pre assms(2,3)
      by (simp add: run_def runSurveyTests_def bnd_def seq_def try_catch_def survey_def
          first_def)
  next
    case False
    with assms(1) obtain resp where resp: "checkIperfServer w settings = Inr resp"
      by (auto simp: admitted_def split: sum.splits)
    show ?thesis
      using pre assms(2,3) False resp
      by (simp add: run_def runSurveyTests_def bnd_def seq_def try_catch_def survey_def
          first_def)
  qed
  with run_not_associated [OF assms(1) none, of ds] show ?thesis
    by (simp add: errorMessage_def)
qed

theorem scan_without_associated_entry_witness:
  "admitted strayWorld bothEnabled \<and>
   scanWifi strayWorld bothEnabled = Inr \<lparr>SSIDs = [(homeEntry 40)\<lparr>currentSSID := False\<rparr>]\<rparr> \<and>
   filter currentSSID (SSIDs \<lparr>SSIDs = [(homeEntry 40)\<lparr>currentSSID := False\<rparr>]\<rparr>) = [] \<and>
   fst (run strayWorld bothEnabled initialStates) = Inl (TypeError
      (''Cannot read properties of undefined (reading '' @ [CHR 0x27] @ ''ssid''
       @ [CHR 0x27] @ '')'')) \<and>
   sent (trace (snd (run strayWorld bothEnabled initialStates))) =
     [getUpdatedMessage (firstDisplay strayWorld bothEnabled), errorMessage]"
  using scan_without_associated_entry [of strayWorld bothEnabled
      "\<lparr>SSIDs = [(homeEntry 40)\<lparr>currentSSID := False\<rparr>]\<rparr>" initialStates]
  by (simp add: strayWorld_def quietWorld_def bothEnabled_def admitted_def homeEntry_def)

end
